theory Spec2Isabelle
  imports Main "HOL-Library.AList" "HOL-Library.Char_ord" "HOL-Library.List_Lexorder"
begin

section \<open>Python text primitives used by \<open>elf_diff/binary.py\<close>\<close>

text \<open>
  The tool output is decoded text. A Python \<open>str\<close> is modelled as a \<open>string\<close> whose
  characters are the code points 0 to 255; the character classes below are the ones
  Python 3 uses on that range for \<open>str\<close> patterns (\<open>\s\<close>, \<open>\S\<close>, \<open>\w\<close>, \<open>\d\<close>),
  for \<open>str.isspace\<close>, for \<open>str.splitlines\<close> and for \<open>int\<close>.
\<close>

definition code :: "char \<Rightarrow> nat" where
  "code c = of_char c"

definition between :: "nat \<Rightarrow> nat \<Rightarrow> nat \<Rightarrow> bool" where
  "between lo hi n = (lo \<le> n \<and> n \<le> hi)"

definition isspace :: "char \<Rightarrow> bool" where
  "isspace c = (between 9 13 (code c) \<or> between 28 32 (code c) \<or> code c = 133 \<or> code c = 160)"

definition isdigit :: "char \<Rightarrow> bool" where
  "isdigit c = between 48 57 (code c)"

definition ishex :: "char \<Rightarrow> bool" where
  "ishex c = (between 48 57 (code c) \<or> between 65 70 (code c) \<or> between 97 102 (code c))"

definition islowerhex :: "char \<Rightarrow> bool" where
  "islowerhex c = (between 48 57 (code c) \<or> between 97 102 (code c))"

definition isword :: "char \<Rightarrow> bool" where
  "isword c = (between 48 57 (code c) \<or> between 65 90 (code c) \<or> code c = 95
     \<or> between 97 122 (code c) \<or> code c = 170 \<or> code c = 178 \<or> code c = 179
     \<or> code c = 181 \<or> code c = 185 \<or> code c = 186 \<or> between 188 190 (code c)
     \<or> between 192 214 (code c) \<or> between 216 246 (code c) \<or> between 248 255 (code c))"

definition islinebreak :: "char \<Rightarrow> bool" where
  "islinebreak c = (between 10 13 (code c) \<or> between 28 30 (code c) \<or> code c = 133)"

text \<open>\<open>str.splitlines()\<close>: a line ends at a line boundary; \<open>\r\n\<close> is one boundary; no
  empty last line is produced after a final boundary.\<close>

fun splitlines_from :: "string \<Rightarrow> string \<Rightarrow> string list" where
  "splitlines_from cur [] = (if cur = [] then [] else [rev cur])"
| "splitlines_from cur [c] = (if islinebreak c then [rev cur] else [rev (c # cur)])"
| "splitlines_from cur (c # d # cs) =
     (if c = CHR 0x0D \<and> d = CHR 0x0A then rev cur # splitlines_from [] cs
      else if islinebreak c then rev cur # splitlines_from [] (d # cs)
      else splitlines_from (c # cur) (d # cs))"

definition splitlines :: "string \<Rightarrow> string list" where
  "splitlines s = splitlines_from [] s"

text \<open>\<open>int(s)\<close> on a \<open>str\<close>: surrounding white space is dropped, a sign may lead, and the
  digits may be separated by single underscores. Anything else raises \<open>ValueError\<close>
  (\<open>None\<close>). The interpreter's configurable limit on the number of digits (Python 3.11
  and later) is not part of the model.\<close>

definition int_space :: "char \<Rightarrow> bool" where
  "int_space c = (between 9 13 (code c) \<or> code c = 32 \<or> code c = 133 \<or> code c = 160)"

fun int_digits :: "int \<Rightarrow> bool \<Rightarrow> string \<Rightarrow> int option" where
  "int_digits acc prev [] = (if prev then Some acc else None)"
| "int_digits acc prev (c # cs) =
     (if isdigit c then int_digits (acc * 10 + (int (code c) - 48)) True cs
      else if c = CHR ''_'' \<and> prev then int_digits acc False cs
      else None)"

definition py_int :: "string \<Rightarrow> int option" where
  "py_int s =
     (case rev (dropWhile int_space (rev (dropWhile int_space s))) of
        [] \<Rightarrow> None
      | c # cs \<Rightarrow>
          if c = CHR ''-'' then map_option uminus (int_digits 0 False cs)
          else if c = CHR ''+'' then int_digits 0 False cs
          else int_digits 0 False (c # cs))"

section \<open>Regular expressions as the source writes them\<close>

text \<open>
  The parsers of \<open>binary.py\<close> are regular expressions handed to \<open>re.match\<close>,
  \<open>re.search\<close> and \<open>re.sub\<close>. They are embedded as values of a datatype and run by a
  backtracking matcher that lists the ways a pattern can match in the order Python's
  engine tries them (greedy repetition first); the first entry is the match Python
  reports. A matcher state holds the number of characters consumed, the text still to
  read, and the groups captured so far.
\<close>

record mstate =
  pos :: nat
  rest :: string
  caps :: "nat \<rightharpoonup> string"

datatype regex =
    Lit char
  | Cls "char \<Rightarrow> bool"
  | Seq regex regex
  | Opt regex
  | Star regex
  | Plus regex
  | Grp nat regex
  | Bol
  | Eol

fun rstar :: "(mstate \<Rightarrow> mstate list) \<Rightarrow> nat \<Rightarrow> mstate \<Rightarrow> mstate list" where
  "rstar f 0 st = [st]"
| "rstar f (Suc n) st =
     concat (map (rstar f n) (filter (\<lambda>t. length (rest t) < length (rest st)) (f st))) @ [st]"

primrec rmatch :: "regex \<Rightarrow> mstate \<Rightarrow> mstate list" where
  "rmatch (Lit c) = (\<lambda>st. case rest st of [] \<Rightarrow> [] | x # xs \<Rightarrow>
       if x = c then [st\<lparr>pos := Suc (pos st), rest := xs\<rparr>] else [])"
| "rmatch (Cls P) = (\<lambda>st. case rest st of [] \<Rightarrow> [] | x # xs \<Rightarrow>
       if P x then [st\<lparr>pos := Suc (pos st), rest := xs\<rparr>] else [])"
| "rmatch (Seq a b) = (\<lambda>st. concat (map (rmatch b) (rmatch a st)))"
| "rmatch (Opt a) = (\<lambda>st. rmatch a st @ [st])"
| "rmatch (Star a) = (\<lambda>st. rstar (rmatch a) (length (rest st)) st)"
| "rmatch (Plus a) = (\<lambda>st. concat (map (\<lambda>t. rstar (rmatch a) (length (rest t)) t) (rmatch a st)))"
| "rmatch (Grp n a) = (\<lambda>st.
       map (\<lambda>t. t\<lparr>caps := (caps t)(n \<mapsto> take (pos t - pos st) (rest st))\<rparr>) (rmatch a st))"
| "rmatch Bol = (\<lambda>st. if pos st = 0 then [st] else [])"
| "rmatch Eol = (\<lambda>st. if rest st = [] \<or> rest st = [CHR 0x0A] then [st] else [])"

fun seqs :: "regex list \<Rightarrow> regex" where
  "seqs [] = Opt Bol"
| "seqs [r] = r"
| "seqs (r # rs) = Seq r (seqs rs)"

definition lit :: "string \<Rightarrow> regex" where
  "lit s = seqs (map Lit s)"

text \<open>The classes of the patterns: \<open>.\<close> is every character but the newline.\<close>

definition dot :: regex where "dot = Cls (\<lambda>c. c \<noteq> CHR 0x0A)"
definition space :: regex where "space = Cls isspace"
definition nonspace :: regex where "nonspace = Cls (\<lambda>c. \<not> isspace c)"
definition digit :: regex where "digit = Cls isdigit"
definition hex :: regex where "hex = Cls ishex"
definition lowerhex :: regex where "lowerhex = Cls islowerhex"
definition word :: regex where "word = Cls isword"

definition start :: "nat \<Rightarrow> string \<Rightarrow> mstate" where
  "start p s = \<lparr>pos = p, rest = s, caps = Map.empty\<rparr>"

text \<open>\<open>re.match\<close>: the pattern is tried at the beginning of the text only.\<close>

definition re_match :: "regex \<Rightarrow> string \<Rightarrow> mstate option" where
  "re_match r s = (case rmatch r (start 0 s) of [] \<Rightarrow> None | st # _ \<Rightarrow> Some st)"

text \<open>\<open>re.search\<close>: the pattern is tried at every position from the left.\<close>

fun re_search_from :: "regex \<Rightarrow> nat \<Rightarrow> string \<Rightarrow> mstate option" where
  "re_search_from r p [] = (case rmatch r (start p []) of [] \<Rightarrow> None | st # _ \<Rightarrow> Some st)"
| "re_search_from r p (c # cs) =
     (case rmatch r (start p (c # cs)) of [] \<Rightarrow> re_search_from r (Suc p) cs | st # _ \<Rightarrow> Some st)"

definition re_search :: "regex \<Rightarrow> string \<Rightarrow> mstate option" where
  "re_search r s = re_search_from r 0 s"

text \<open>\<open>m.group(n)\<close>. Every group the source reads is a mandatory part of its pattern, so
  it is set whenever the pattern matched; an unset group reads as the empty text here.\<close>

definition group :: "mstate \<Rightarrow> nat \<Rightarrow> string" where
  "group st n = (case caps st n of None \<Rightarrow> [] | Some g \<Rightarrow> g)"

section \<open>The patterns of \<open>binary.py\<close>\<close>

text \<open>\<open>SymbolCollector.header_line_re\<close>: \<^verbatim>\<open>^(0x)?[0-9A-Fa-f]+ <(.+)>:\<close>\<close>

definition header_line_re :: regex where
  "header_line_re = seqs [Bol, Opt (Grp 1 (lit ''0x'')), Plus hex, Lit CHR '' '', Lit CHR ''<'',
     Grp 2 (Plus dot), Lit CHR ''>'', Lit CHR '':'']"

text \<open>\<open>SymbolCollector.instruction_line_re\<close>:
  \<^verbatim>\<open>^\s*[0-9A-Fa-f]+:\s*((?:\s*[0-9a-fA-F]{2})+)\s+(.*)\s*\<close>\<close>

definition instruction_line_re :: regex where
  "instruction_line_re = seqs [Bol, Star space, Plus hex, Lit CHR '':'', Star space,
     Grp 1 (Plus (seqs [Star space, hex, hex])), Plus space, Grp 2 (Star dot), Star space]"

text \<open>The pattern of \<open>_unifyX86InstructionLine\<close>: \<^verbatim>\<open>(^.*\sc3\s+)retq(.*)$\<close>\<close>

definition x86_ret_re :: regex where
  "x86_ret_re = seqs [Grp 1 (seqs [Bol, Star dot, space, lit ''c3'', Plus space]), lit ''retq'',
     Grp 2 (Star dot), Eol]"

text \<open>\<open>size_re\<close> of \<open>_determineSymbolSizes\<close>:
  \<^verbatim>\<open>^\s*([0-9]+)\s+([0-9]+)\s+([0-9]+)\s+([0-9]+)\<close>\<close>

definition size_re :: regex where
  "size_re = seqs [Bol, Star space, Grp 1 (Plus digit), Plus space, Grp 2 (Plus digit), Plus space,
     Grp 3 (Plus digit), Plus space, Grp 4 (Plus digit)]"

text \<open>\<open>nm_regex\<close> of \<open>_gatherSymbolProperties\<close>:
  \<^verbatim>\<open>^[0-9A-Fa-f]+\s([0-9A-Fa-f]+)\s(\w)\s(.+)\<close>\<close>

definition nm_regex :: regex where
  "nm_regex = seqs [Bol, Plus hex, space, Grp 1 (Plus hex), space, Grp 2 word, space,
     Grp 3 (Plus dot)]"

text \<open>The pattern of \<open>_determineBinaryFileFormat\<close>: \<^verbatim>\<open>file format\s+(\S+)\<close>\<close>

definition file_format_re :: regex where
  "file_format_re = seqs [lit ''file format'', Plus space, Grp 1 (Plus nonspace)]"

text \<open>\<open>_DebugInformationCollector._header_line_regex\<close>:
  \<^verbatim>\<open>\s*<[0-9a-f]+>\s*<[0-9a-f]+>:\s+Abbrev Number:\s*(\d+)\s+\((\w+)\).*\<close>\<close>

definition dbg_header_line_regex :: regex where
  "dbg_header_line_regex = seqs [Star space, Lit CHR ''<'', Plus lowerhex, Lit CHR ''>'', Star space,
     Lit CHR ''<'', Plus lowerhex, lit ''>:'', Plus space, lit ''Abbrev Number:'', Star space,
     Grp 1 (Plus digit), Plus space, Lit CHR ''('', Grp 2 (Plus word), Lit CHR '')'', Star dot]"

text \<open>\<open>_info_line_regex\<close>: \<^verbatim>\<open>\s*<[0-9a-f]+>\s+(\S+)\s*:\s*(\S.*)\<close>\<close>

definition info_line_regex :: regex where
  "info_line_regex = seqs [Star space, Lit CHR ''<'', Plus lowerhex, Lit CHR ''>'', Plus space,
     Grp 1 (Plus nonspace), Star space, Lit CHR '':'', Star space, Grp 2 (Seq nonspace (Star dot))]"

text \<open>\<open>_name_regex\<close> and \<open>_source_file_regex\<close>, both \<^verbatim>\<open>.*\s+(\S+)\<close>\<close>

definition name_regex :: regex where
  "name_regex = seqs [Star dot, Plus space, Grp 1 (Plus nonspace)]"

definition source_file_regex :: regex where
  "source_file_regex = seqs [Star dot, Plus space, Grp 1 (Plus nonspace)]"

section \<open>Data model\<close>

text \<open>A Python value where the source stores values of more than one type in one slot.\<close>

datatype pyval = PyNone | PyInt int | PyStr string

text \<open>
  Modelled from the spec: the class \<open>Symbol\<close> (\<open>elf_diff/symbol.py\<close>) is not among the
  sources. The spec gives its attributes: the mangled name (an immutable identity key),
  the display name, the demangled flag, size, kind, the ordered instruction sequence and
  the optional source file id, line and column. \<open>symbol_size\<close> stands for \<open>size\<close> and
  \<open>symbol_type\<close> for \<open>type_\<close>. A symbol object is always truthy.
\<close>

record symbol =
  name_mangled :: string
  name :: string
  is_demangled :: bool
  symbol_size :: int
  symbol_type :: string
  instruction_lines :: "string list"
  source_id :: pyval
  source_line :: pyval
  source_column :: pyval

text \<open>Modelled from the spec: the constructor \<open>Symbol(name_mangled, name, is_demangled)\<close>;
  the optional fields start unset and the instruction sequence empty.\<close>

definition new_symbol :: "string \<Rightarrow> string \<Rightarrow> bool \<Rightarrow> symbol" where
  "new_symbol nm n d = \<lparr>name_mangled = nm, name = n, is_demangled = d, symbol_size = 0,
     symbol_type = [], instruction_lines = [], source_id = PyNone, source_line = PyNone,
     source_column = PyNone\<rparr>"

text \<open>Modelled from the spec: \<open>Symbol.addInstructions\<close>, the instruction-append operation.\<close>

definition addInstructions :: "symbol \<Rightarrow> string \<Rightarrow> symbol" where
  "addInstructions s l = s\<lparr>instruction_lines := instruction_lines s @ [l]\<rparr>"

record source_file =
  source_filename :: string
  source_file_id :: pyval

text \<open>\<open>class Mangling\<close>: the optional file name and the optional map read from it.\<close>

record mangling_obj =
  mangling_file :: "string option"
  mangling :: "(string \<rightharpoonup> string) option"

record settings =
  objdump_command :: string
  nm_command :: string
  readelf_command :: string
  size_command :: string

text \<open>
  \<open>class Binary\<close>. \<open>symbols\<close> is the dictionary from mangled names to symbol objects,
  kept in insertion order as Python keeps it; its values are references into the object
  store of the world. \<open>source_files\<close> is a dictionary whose keys are Python values.
  \<open>instructions_available\<close> does not exist until \<open>_gatherSymbolInstructions\<close> assigns
  it. \<open>symbol_init\<close> is the method \<open>init\<close> of the class \<open>getSymbolType\<close> returned
  (\<open>symbol_type\<close> in the source), which is not among the sources: it is a parameter.
  \<open>binary_mangling\<close> stands for the attribute \<open>mangling\<close>.
\<close>

record binary =
  settings_of :: settings
  filename :: string
  symbol_init :: "symbol \<Rightarrow> symbol"
  binary_mangling :: "mangling_obj option"
  binutils_work :: bool
  text_size :: int
  data_size :: int
  bss_size :: int
  overall_size :: int
  progmem_size :: int
  static_ram_size :: int
  file_format :: "string option"
  symbol_selection_regex_compiled :: "(string \<Rightarrow> bool) option"
  symbol_exclusion_regex_compiled :: "(string \<Rightarrow> bool) option"
  source_files :: "pyval \<rightharpoonup> source_file"
  symbols :: "(string \<times> nat) list"
  num_symbols_dropped :: int
  instructions_available :: "bool option"

text \<open>
  What lies outside a \<open>Binary\<close>: the commands run so far, the warning registry of
  \<open>elf_diff.error_handling\<close>, and the store of symbol objects (\<open>next_ref\<close> is the next
  free reference). Text printed to the standard output is not modelled.
\<close>

record world =
  invoked :: "string list list"
  warnings :: "string list"
  heap :: "nat \<Rightarrow> symbol"
  next_ref :: nat

text \<open>
  The environment: whether a path is a file, the decoded standard output of a command,
  and \<open>re.compile\<close> on a pattern given by the user (\<open>None\<close> when the pattern is not a
  regular expression; otherwise what \<open>re.match\<close> answers for the compiled pattern).
\<close>

record env =
  isfile :: "string \<Rightarrow> bool"
  tool_output :: "string list \<Rightarrow> string"
  re_compile :: "string \<Rightarrow> (string \<Rightarrow> bool) option"

datatype error =
    NoBinaryFilename
  | UnableToFindFilename string
  | UndeciferableInfoLine string
  | NoSourceFilename
  | ValueError string
  | AttributeError
  | RegexError string

text \<open>Modelled from the spec: \<open>warning\<close> of \<open>elf_diff.error_handling\<close> records a
  non-fatal warning in the process-wide registry.\<close>

definition warning :: "string \<Rightarrow> world \<Rightarrow> world" where
  "warning msg w = w\<lparr>warnings := warnings w @ [msg]\<rparr>"

text \<open>The four \<open>_read...Output\<close> methods: run the command, return its decoded output.\<close>

definition run_tool :: "env \<Rightarrow> string list \<Rightarrow> world \<Rightarrow> world \<times> string" where
  "run_tool e cmd w = (w\<lparr>invoked := invoked w @ [cmd]\<rparr>, tool_output e cmd)"

definition readObjdumpDisassemblyOutput :: "env \<Rightarrow> binary \<Rightarrow> world \<Rightarrow> world \<times> string" where
  "readObjdumpDisassemblyOutput e b w =
     run_tool e [objdump_command (settings_of b), ''-drwS'', filename b] w"

definition readObjdumpArchiveHeadersOutput :: "env \<Rightarrow> binary \<Rightarrow> world \<Rightarrow> world \<times> string" where
  "readObjdumpArchiveHeadersOutput e b w =
     run_tool e [objdump_command (settings_of b), ''-a'', filename b] w"

definition readNMOutput :: "env \<Rightarrow> binary \<Rightarrow> bool \<Rightarrow> world \<Rightarrow> world \<times> string" where
  "readNMOutput e b demangle_flag w =
     run_tool e [nm_command (settings_of b), ''--print-size'', ''--size-sort'', ''--radix=d'',
       (if demangle_flag then ''-C'' else []), filename b] w"

definition readReadelfOutput :: "env \<Rightarrow> binary \<Rightarrow> world \<Rightarrow> world \<times> string" where
  "readReadelfOutput e b w =
     run_tool e [readelf_command (settings_of b), ''--debug-dump=info'', filename b] w"

definition readSizeOutput :: "env \<Rightarrow> binary \<Rightarrow> world \<Rightarrow> world \<times> string" where
  "readSizeOutput e b w = run_tool e [size_command (settings_of b), filename b] w"

section \<open>Operations\<close>

subsection \<open>Source tagging\<close>

definition SOURCE_CODE_START_TAG :: string where
  "SOURCE_CODE_START_TAG = ''...ED_SOURCE_START...''"

definition SOURCE_CODE_END_TAG :: string where
  "SOURCE_CODE_END_TAG = ''...ED_SOURCE_END...''"

definition preHighlightSourceCode :: "string \<Rightarrow> string" where
  "preHighlightSourceCode src = SOURCE_CODE_START_TAG @ src @ SOURCE_CODE_END_TAG"

subsection \<open>Demangling\<close>

text \<open>\<open>Mangling.demangle\<close>\<close>

definition mangling_demangle :: "mangling_obj \<Rightarrow> string \<Rightarrow> string \<times> bool" where
  "mangling_demangle m symbol_name =
     (case mangling m of
        None \<Rightarrow> (symbol_name, False)
      | Some d \<Rightarrow> (case d symbol_name of Some x \<Rightarrow> (x, True) | None \<Rightarrow> (symbol_name, False)))"

text \<open>\<open>Binary.demangle\<close>\<close>

definition demangle :: "binary \<Rightarrow> string \<Rightarrow> string \<times> bool" where
  "demangle b symbol_name_with_mangling_state_unknown =
     (case (case binary_mangling b of
              None \<Rightarrow> None
            | Some m \<Rightarrow>
                (let (symbol_name_demangled, was_demangled) =
                       mangling_demangle m symbol_name_with_mangling_state_unknown
                 in if was_demangled then Some (symbol_name_demangled, True) else None)) of
        Some r \<Rightarrow> r
      | None \<Rightarrow>
          if binutils_work b then (symbol_name_with_mangling_state_unknown, True)
          else (symbol_name_with_mangling_state_unknown, False))"

subsection \<open>Selection\<close>

text \<open>\<open>Binary._isSymbolSelected\<close>; a compiled pattern is what \<open>re.match\<close> answers for it.\<close>

definition isSymbolSelected :: "binary \<Rightarrow> string \<Rightarrow> bool" where
  "isSymbolSelected b symbol_name =
     (if (case symbol_exclusion_regex_compiled b of None \<Rightarrow> False | Some ex \<Rightarrow> ex symbol_name)
      then False
      else (case symbol_selection_regex_compiled b of
              None \<Rightarrow> True
            | Some sel \<Rightarrow> if sel symbol_name then True else False))"

subsection \<open>File format and sizes\<close>

text \<open>\<open>Binary._determineBinaryFileFormat\<close>\<close>

definition determineBinaryFileFormat :: "env \<Rightarrow> world \<Rightarrow> binary \<Rightarrow> world \<times> binary" where
  "determineBinaryFileFormat e w b =
     (let (w1, objdump_output) = readObjdumpArchiveHeadersOutput e b w
      in case re_search file_format_re objdump_output of
           Some m \<Rightarrow> (w1, b\<lparr>file_format := Some (group m 1)\<rparr>)
         | None \<Rightarrow> (w1, b))"

text \<open>The loop of \<open>_determineSymbolSizes\<close>: the first matching line sets the six sizes and
  leaves the loop; the flag returned is \<open>sizes_sucessfully_determined\<close>. A failing
  \<open>int\<close> would raise.\<close>

fun size_lines :: "string list \<Rightarrow> binary \<Rightarrow> error + binary \<times> bool" where
  "size_lines [] b = Inr (b, False)"
| "size_lines (line # ls) b =
     (case re_match size_re line of
        None \<Rightarrow> size_lines ls b
      | Some m \<Rightarrow>
          (case py_int (group m 1) of None \<Rightarrow> Inl (ValueError (group m 1)) | Some t \<Rightarrow>
           case py_int (group m 2) of None \<Rightarrow> Inl (ValueError (group m 2)) | Some d \<Rightarrow>
           case py_int (group m 3) of None \<Rightarrow> Inl (ValueError (group m 3)) | Some s \<Rightarrow>
           case py_int (group m 4) of None \<Rightarrow> Inl (ValueError (group m 4)) | Some ov \<Rightarrow>
             Inr (b\<lparr>text_size := t, data_size := d, bss_size := s, overall_size := ov,
                    progmem_size := t + d, static_ram_size := d + s\<rparr>, True)))"

definition size_warning :: string where
  "size_warning = ''Unable to determine resource consumptions. Is the proper size utility used?''"

text \<open>\<open>Binary._determineSymbolSizes\<close>\<close>

definition determineSymbolSizes :: "env \<Rightarrow> world \<Rightarrow> binary \<Rightarrow> world \<times> (error + binary)" where
  "determineSymbolSizes e w b =
     (let (w1, size_output) = readSizeOutput e b w
      in case size_lines (splitlines size_output) b of
           Inl err \<Rightarrow> (w1, Inl err)
         | Inr (b1, sizes_sucessfully_determined) \<Rightarrow>
             if \<not> sizes_sucessfully_determined
             then (warning size_warning w1, Inr (b1\<lparr>binutils_work := False\<rparr>))
             else (w1, Inr b1))"

subsection \<open>Symbol properties\<close>

text \<open>\<open>Binary._addSymbol\<close>: the object is initialised in place and stored under the
  mangled name it then carries.\<close>

definition addSymbol :: "nat \<Rightarrow> world \<Rightarrow> binary \<Rightarrow> world \<times> binary" where
  "addSymbol r w b =
     (let w1 = w\<lparr>heap := (heap w)(r := symbol_init b (heap w r))\<rparr>
      in (w1, b\<lparr>symbols := AList.update (name_mangled (heap w1 r)) r (symbols b)\<rparr>))"

text \<open>\<open>Binary._generateSymbol\<close>: a selected name gives a new object (its reference is
  returned), a rejected one is counted.\<close>

definition generateSymbol ::
  "string \<Rightarrow> string \<Rightarrow> bool \<Rightarrow> world \<Rightarrow> binary \<Rightarrow> world \<times> binary \<times> nat option" where
  "generateSymbol symbol_name_mangled symbol_name_possibly_demangled symbol_name_is_demangled w b =
     (if isSymbolSelected b symbol_name_possibly_demangled
      then (w\<lparr>heap := (heap w)(next_ref w := new_symbol symbol_name_mangled
                  symbol_name_possibly_demangled symbol_name_is_demangled),
               next_ref := Suc (next_ref w)\<rparr>, b, Some (next_ref w))
      else (w, b\<lparr>num_symbols_dropped := num_symbols_dropped b + 1\<rparr>, None))"

text \<open>The body of the loop of \<open>_gatherSymbolProperties\<close> on one pair of lines. Reading
  group 3 of a demangled line that did not match raises \<open>AttributeError\<close>; a size that
  is not a decimal number raises \<open>ValueError\<close>.\<close>

definition nm_pair :: "string \<Rightarrow> string \<Rightarrow> world \<Rightarrow> binary \<Rightarrow> world \<times> (error + binary)" where
  "nm_pair line_mangled line_demangled w b =
     (case re_match nm_regex line_mangled of
        None \<Rightarrow> (w, Inr b)
      | Some mm \<Rightarrow>
          (case re_match nm_regex line_demangled of
             None \<Rightarrow> (w, Inl AttributeError)
           | Some md \<Rightarrow>
               (let symbol_size_str = group mm 1;
                    symbol_type_chr = group mm 2;
                    symbol_name_mangled = group mm 3;
                    (symbol_name_possibly_demangled, symbol_name_is_demangled) =
                       demangle b (group md 3)
                in case map_of (symbols b) symbol_name_mangled of
                     None \<Rightarrow>
                       (case generateSymbol symbol_name_mangled symbol_name_possibly_demangled
                               symbol_name_is_demangled w b of
                          (w1, b1, None) \<Rightarrow> (w1, Inr b1)
                        | (w1, b1, Some r) \<Rightarrow>
                            (case py_int symbol_size_str of
                               None \<Rightarrow> (w1, Inl (ValueError symbol_size_str))
                             | Some n \<Rightarrow>
                                 (let w2 = w1\<lparr>heap := (heap w1)(r := (heap w1 r)\<lparr>symbol_size := n\<rparr>)\<rparr>;
                                      w3 = w2\<lparr>heap := (heap w2)(r := (heap w2 r)\<lparr>symbol_type := symbol_type_chr\<rparr>)\<rparr>;
                                      (w4, b4) = addSymbol r w3 b1
                                  in (w4, Inr b4))))
                   | Some r \<Rightarrow>
                       (case py_int symbol_size_str of
                          None \<Rightarrow> (w, Inl (ValueError symbol_size_str))
                        | Some n \<Rightarrow>
                            (let w2 = w\<lparr>heap := (heap w)(r := (heap w r)\<lparr>symbol_size := n\<rparr>)\<rparr>;
                                 w3 = w2\<lparr>heap := (heap w2)(r := (heap w2 r)\<lparr>symbol_type := symbol_type_chr\<rparr>)\<rparr>
                             in (w3, Inr b))))))"

fun nm_pairs :: "(string \<times> string) list \<Rightarrow> world \<Rightarrow> binary \<Rightarrow> world \<times> (error + binary)" where
  "nm_pairs [] w b = (w, Inr b)"
| "nm_pairs ((line_mangled, line_demangled) # ps) w b =
     (case nm_pair line_mangled line_demangled w b of
        (w1, Inl err) \<Rightarrow> (w1, Inl err)
      | (w1, Inr b1) \<Rightarrow> nm_pairs ps w1 b1)"

text \<open>\<open>Binary._gatherSymbolProperties\<close>\<close>

definition gatherSymbolProperties :: "env \<Rightarrow> world \<Rightarrow> binary \<Rightarrow> world \<times> (error + binary)" where
  "gatherSymbolProperties e w b =
     (let (w1, nm_output_mangled) = readNMOutput e b False w;
          (w2, nm_output_demangled) = readNMOutput e b True w1
      in nm_pairs (zip (splitlines nm_output_mangled) (splitlines nm_output_demangled)) w2
           (b\<lparr>num_symbols_dropped := 0\<rparr>))"

subsection \<open>Disassembly\<close>

text \<open>\<open>class SymbolCollector\<close>: the current symbol and the collected symbols are
  references to symbol objects; \<open>col_symbols\<close> stands for the attribute \<open>symbols\<close>.\<close>

record collector =
  cur_symbol :: "nat option"
  col_symbols :: "nat list"
  n_instruction_lines :: nat

definition new_collector :: collector where
  "new_collector = \<lparr>cur_symbol = None, col_symbols = [], n_instruction_lines = 0\<rparr>"

text \<open>\<open>SymbolCollector._submitSymbol\<close>\<close>

definition submitSymbol :: "collector \<Rightarrow> collector" where
  "submitSymbol c =
     (case cur_symbol c of
        Some r \<Rightarrow> c\<lparr>col_symbols := col_symbols c @ [r], cur_symbol := None\<rparr>
      | None \<Rightarrow> c)"

text \<open>\<open>SymbolCollector._checkSymbolHeaderLine\<close>\<close>

definition checkSymbolHeaderLine :: "binary \<Rightarrow> string \<Rightarrow> collector \<Rightarrow> bool \<times> collector" where
  "checkSymbolHeaderLine b line c =
     (case re_match header_line_re line of
        Some header_match \<Rightarrow>
          (let c1 = (if cur_symbol c \<noteq> None then submitSymbol c else c);
               symbol_name_mangled = group header_match 2
           in case map_of (symbols b) symbol_name_mangled of
                Some r \<Rightarrow> (True, c1\<lparr>cur_symbol := Some r\<rparr>)
              | None \<Rightarrow> (True, c1))
      | None \<Rightarrow> (False, c))"

text \<open>\<open>SymbolCollector._unifyX86InstructionLine\<close>: \<open>re.sub\<close> with a pattern that starts
  with \<open>^\<close> and cannot match the empty text replaces at most the one match at the
  beginning of the line; what follows the match is kept.\<close>

definition unifyX86InstructionLine :: "string \<Rightarrow> string" where
  "unifyX86InstructionLine line =
     (case re_match x86_ret_re line of
        None \<Rightarrow> line
      | Some m \<Rightarrow> group m 1 @ ''ret'' @ group m 2 @ rest m)"

text \<open>\<open>SymbolCollector._unifyInstructionLine\<close>\<close>

definition unifyInstructionLine :: "binary \<Rightarrow> string \<Rightarrow> string" where
  "unifyInstructionLine b line =
     (if file_format b = Some ''elf64-x86-64'' then unifyX86InstructionLine line else line)"

text \<open>\<open>str.isspace\<close>: at least one character, and all of them white space.\<close>

definition str_isspace :: "string \<Rightarrow> bool" where
  "str_isspace s = (s \<noteq> [] \<and> list_all isspace s)"

text \<open>The body of the loop of \<open>SymbolCollector._gatherSymbolInstructions\<close>.\<close>

definition instruction_step :: "binary \<Rightarrow> string \<Rightarrow> world \<times> collector \<Rightarrow> world \<times> collector" where
  "instruction_step b line wc =
     (let (w, c) = wc;
          unified_line = unifyInstructionLine b line;
          (is_header_line, c1) = checkSymbolHeaderLine b unified_line c
      in if is_header_line then (w, c1)
         else
           (let instruction_line_match = re_match instruction_line_re unified_line;
                c2 = (if instruction_line_match \<noteq> None
                      then c1\<lparr>n_instruction_lines := n_instruction_lines c1 + 1\<rparr> else c1)
            in case cur_symbol c2 of
                 None \<Rightarrow> (w, c2)
               | Some r \<Rightarrow>
                   (case instruction_line_match of
                      Some m \<Rightarrow> (w\<lparr>heap := (heap w)(r := addInstructions (heap w r) (group m 2))\<rparr>, c2)
                    | None \<Rightarrow>
                        if length unified_line > 0 \<and> \<not> str_isspace unified_line
                        then (w\<lparr>heap := (heap w)(r := addInstructions (heap w r)
                                 (preHighlightSourceCode unified_line))\<rparr>, c2)
                        else (w, c2))))"

text \<open>\<open>SymbolCollector._gatherSymbolInstructions\<close>\<close>

definition collect_instructions :: "binary \<Rightarrow> string \<Rightarrow> world \<times> collector \<Rightarrow> world \<times> collector" where
  "collect_instructions b objdump_output wc =
     (let (w, c) = fold (instruction_step b) (splitlines objdump_output) wc
      in (w, if cur_symbol c \<noteq> None then submitSymbol c else c))"

definition assembly_warning :: "string \<Rightarrow> string" where
  "assembly_warning fname = ''Unable to read assembly from binary '' @ [CHR 0x27] @ fname @ [CHR 0x27] @ ''.''"

text \<open>\<open>Binary._gatherSymbolInstructions\<close>\<close>

definition gatherSymbolInstructions :: "env \<Rightarrow> world \<Rightarrow> binary \<Rightarrow> world \<times> binary" where
  "gatherSymbolInstructions e w b =
     (let (w1, objdump_output) = readObjdumpDisassemblyOutput e b w;
          (w2, symbol_collector) = collect_instructions b objdump_output (w1, new_collector);
          (w3, b3) = fold (\<lambda>r (w', b'). addSymbol r w' b') (col_symbols symbol_collector) (w2, b);
          b4 = b3\<lparr>instructions_available := Some (length (col_symbols symbol_collector) > 0)\<rparr>
      in if n_instruction_lines symbol_collector = 0
         then (warning (assembly_warning (filename b)) w3, b4)
         else (w3, b4))"

subsection \<open>Debug information\<close>

text \<open>\<open>class _DebugInformationCollector\<close>. The header id is the text of group 1 of the
  header pattern, as the source stores it; the pending source id, line and column are
  what \<open>int\<close> returned, or \<open>None\<close>. \<open>pending_name_mangled\<close>, \<open>pending_source_id\<close>,
  \<open>pending_source_line\<close> and \<open>pending_source_column\<close> stand for the attributes
  \<open>_name_mangled\<close>, \<open>_source_id\<close>, \<open>_source_line\<close> and \<open>_source_column\<close>.\<close>

record debug_collector =
  header_id :: pyval
  header_tag :: "string option"
  pending_name_mangled :: "string option"
  pending_source_id :: pyval
  pending_source_line :: pyval
  pending_source_column :: pyval

definition new_debug_collector :: debug_collector where
  "new_debug_collector = \<lparr>header_id = PyNone, header_tag = None, pending_name_mangled = None,
     pending_source_id = PyNone, pending_source_line = PyNone, pending_source_column = PyNone\<rparr>"

text \<open>\<open>Binary._registerSourceFile\<close>\<close>

definition registerSourceFile :: "string \<Rightarrow> pyval \<Rightarrow> binary \<Rightarrow> binary" where
  "registerSourceFile fname ident b =
     b\<lparr>source_files := (source_files b)(ident \<mapsto> \<lparr>source_filename = fname, source_file_id = ident\<rparr>)\<rparr>"

text \<open>\<open>_DebugInformationCollector._flushSymbolInfo\<close>\<close>

definition flushSymbolInfo :: "binary \<Rightarrow> world \<times> debug_collector \<Rightarrow> world \<times> debug_collector" where
  "flushSymbolInfo b wd =
     (let (w, d) = wd;
          w1 = (case pending_name_mangled d of
                  None \<Rightarrow> w
                | Some nm \<Rightarrow>
                    (case map_of (symbols b) nm of
                       None \<Rightarrow> w
                     | Some r \<Rightarrow>
                         w\<lparr>heap := (heap w)(r := (heap w r)\<lparr>source_id := pending_source_id d,
                              source_line := pending_source_line d,
                              source_column := pending_source_column d\<rparr>)\<rparr>))
      in (w1, d\<lparr>pending_name_mangled := None, pending_source_id := PyNone,
                pending_source_line := PyNone, pending_source_column := PyNone\<rparr>))"

text \<open>The body of the loop of \<open>parseReadelfOutput\<close> on one line.\<close>

definition readelf_line ::
  "string \<Rightarrow> world \<Rightarrow> debug_collector \<times> binary \<Rightarrow> world \<times> (error + debug_collector \<times> binary)" where
  "readelf_line line w db =
     (let (d, b) = db
      in case re_match dbg_header_line_regex line of
           Some header_line_match \<Rightarrow>
             (let d1 = d\<lparr>header_id := PyStr (group header_line_match 1),
                         header_tag := Some (group header_line_match 2)\<rparr>;
                  (w2, d2) = flushSymbolInfo b (w, d1)
              in (w2, Inr (d2, b)))
         | None \<Rightarrow>
             (case re_match info_line_regex line of
                None \<Rightarrow> (w, Inr (d, b))
              | Some info_line_match \<Rightarrow>
                  (let tag = group info_line_match 1;
                       add_info = group info_line_match 2
                   in if tag = ''DW_AT_linkage_name'' then
                        (case re_match name_regex add_info of
                           None \<Rightarrow> (w, Inl (UndeciferableInfoLine line))
                         | Some name_match \<Rightarrow>
                             (w, Inr (d\<lparr>pending_name_mangled := Some (group name_match 1)\<rparr>, b)))
                      else if tag = ''DW_AT_decl_file'' then
                        (case py_int add_info of
                           None \<Rightarrow> (w, Inl (ValueError add_info))
                         | Some n \<Rightarrow> (w, Inr (d\<lparr>pending_source_id := PyInt n\<rparr>, b)))
                      else if tag = ''DW_AT_decl_line'' then
                        (case py_int add_info of
                           None \<Rightarrow> (w, Inl (ValueError add_info))
                         | Some n \<Rightarrow> (w, Inr (d\<lparr>pending_source_line := PyInt n\<rparr>, b)))
                      else if tag = ''DW_AT_decl_column'' then
                        (case py_int add_info of
                           None \<Rightarrow> (w, Inl (ValueError add_info))
                         | Some n \<Rightarrow> (w, Inr (d\<lparr>pending_source_column := PyInt n\<rparr>, b)))
                      else if tag = ''DW_AT_name'' then
                        (if header_tag d = Some ''DW_TAG_compile_unit'' then
                           (case re_match source_file_regex add_info of
                              None \<Rightarrow> (w, Inl NoSourceFilename)
                            | Some source_file_match \<Rightarrow>
                                (w, Inr (d, registerSourceFile (group source_file_match 1)
                                              (header_id d) b)))
                         else (w, Inr (d, b)))
                      else (w, Inr (d, b)))))"

fun readelf_lines ::
  "string list \<Rightarrow> world \<Rightarrow> debug_collector \<times> binary \<Rightarrow> world \<times> (error + debug_collector \<times> binary)" where
  "readelf_lines [] w db = (w, Inr db)"
| "readelf_lines (line # ls) w db =
     (case readelf_line line w db of
        (w1, Inl err) \<Rightarrow> (w1, Inl err)
      | (w1, Inr db1) \<Rightarrow> readelf_lines ls w1 db1)"

text \<open>\<open>_DebugInformationCollector.parseReadelfOutput\<close>: the loop, then the last flush.\<close>

definition parseReadelfOutput ::
  "string \<Rightarrow> world \<Rightarrow> debug_collector \<times> binary \<Rightarrow> world \<times> (error + debug_collector \<times> binary)" where
  "parseReadelfOutput readelf_output w db =
     (case readelf_lines (splitlines readelf_output) w db of
        (w1, Inl err) \<Rightarrow> (w1, Inl err)
      | (w1, Inr (d, b)) \<Rightarrow> (let (w2, d2) = flushSymbolInfo b (w1, d) in (w2, Inr (d2, b))))"

text \<open>\<open>Binary._gatherDebugInformation\<close>\<close>

definition gatherDebugInformation :: "env \<Rightarrow> world \<Rightarrow> binary \<Rightarrow> world \<times> (error + binary)" where
  "gatherDebugInformation e w b =
     (let (w1, readelf_output) = readReadelfOutput e b w
      in case parseReadelfOutput readelf_output w1 (new_debug_collector, b) of
           (w2, Inl err) \<Rightarrow> (w2, Inl err)
         | (w2, Inr (d2, b2)) \<Rightarrow> (w2, Inr b2))"

subsection \<open>Construction\<close>

text \<open>\<open>Binary._initSymbols\<close>: every symbol is initialised, in the order of the sorted
  mangled names.\<close>

definition initSymbols :: "world \<Rightarrow> binary \<Rightarrow> world" where
  "initSymbols w b =
     fold (\<lambda>symbol_name_mangled w'.
             case map_of (symbols b) symbol_name_mangled of
               None \<Rightarrow> w'
             | Some r \<Rightarrow> w'\<lparr>heap := (heap w')(r := symbol_init b (heap w' r))\<rparr>)
          (sort (map fst (symbols b))) w"

text \<open>\<open>Binary._parseSymbols\<close>\<close>

definition parseSymbols :: "env \<Rightarrow> world \<Rightarrow> binary \<Rightarrow> world \<times> (error + binary)" where
  "parseSymbols e w b =
     (case determineSymbolSizes e w b of
        (w1, Inl err) \<Rightarrow> (w1, Inl err)
      | (w1, Inr b1) \<Rightarrow>
     (case gatherSymbolProperties e w1 b1 of
        (w2, Inl err) \<Rightarrow> (w2, Inl err)
      | (w2, Inr b2) \<Rightarrow>
     (let (w3, b3) = gatherSymbolInstructions e w2 b2
      in case gatherDebugInformation e w3 b3 of
           (w4, Inl err) \<Rightarrow> (w4, Inl err)
         | (w4, Inr b4) \<Rightarrow> (initSymbols w4 b4, Inr b4))))"

text \<open>\<open>re.compile\<close> of an optional pattern of the user.\<close>

definition compile_optional :: "env \<Rightarrow> string option \<Rightarrow> error + (string \<Rightarrow> bool) option" where
  "compile_optional e pattern =
     (case pattern of
        None \<Rightarrow> Inr None
      | Some p \<Rightarrow> (case re_compile e p of None \<Rightarrow> Inl (RegexError p) | Some f \<Rightarrow> Inr (Some f)))"

text \<open>The attributes \<open>Binary.__init__\<close> assigns before it reads the file.\<close>

definition initial_binary ::
  "settings \<Rightarrow> (symbol \<Rightarrow> symbol) \<Rightarrow> string \<Rightarrow> (string \<Rightarrow> bool) option \<Rightarrow> (string \<Rightarrow> bool) option \<Rightarrow>
   mangling_obj option \<Rightarrow> binary" where
  "initial_binary st sym_init fname sel exc mang =
     \<lparr>settings_of = st, filename = fname, symbol_init = sym_init,
      binary_mangling = mang, binutils_work = True, text_size = 0,
      data_size = 0, bss_size = 0, overall_size = 0, progmem_size = 0,
      static_ram_size = 0, file_format = None,
      symbol_selection_regex_compiled = sel,
      symbol_exclusion_regex_compiled = exc,
      source_files = Map.empty, symbols = [], num_symbols_dropped = 0,
      instructions_available = None\<rparr>"

text \<open>\<open>Binary.__init__\<close>. The class of the symbols is given by its \<open>init\<close> method
  (\<open>getSymbolType\<close> is not among the sources).\<close>

definition Binary_init ::
  "env \<Rightarrow> settings \<Rightarrow> (symbol \<Rightarrow> symbol) \<Rightarrow> string \<Rightarrow> string option \<Rightarrow> string option \<Rightarrow>
   mangling_obj option \<Rightarrow> world \<Rightarrow> world \<times> (error + binary)" where
  "Binary_init e st sym_init fname symbol_selection_regex symbol_exclusion_regex mang w =
     (case compile_optional e symbol_selection_regex of
        Inl err \<Rightarrow> (w, Inl err)
      | Inr sel \<Rightarrow>
     (case compile_optional e symbol_exclusion_regex of
        Inl err \<Rightarrow> (w, Inl err)
      | Inr exc \<Rightarrow>
          if fname = [] then (w, Inl NoBinaryFilename)
          else if \<not> isfile e fname then (w, Inl (UnableToFindFilename fname))
          else
            (let (w1, b1) = determineBinaryFileFormat e w
                              (initial_binary st sym_init fname sel exc mang)
             in parseSymbols e w1 b1)))"

section \<open>Example values\<close>

definition example_settings :: settings where
  "example_settings = \<lparr>objdump_command = ''objdump'', nm_command = ''nm'',
     readelf_command = ''readelf'', size_command = ''size''\<rparr>"

definition example_binary :: binary where
  "example_binary = initial_binary example_settings (\<lambda>s. s) ''a.elf'' None None None"

definition example_world :: world where
  "example_world = \<lparr>invoked = [], warnings = [], heap = (\<lambda>_. new_symbol [] [] False), next_ref = 0\<rparr>"

definition example_env :: env where
  "example_env = \<lparr>isfile = (\<lambda>f. f = ''a.elf''), tool_output = (\<lambda>cmd. []),
     re_compile = (\<lambda>p. None)\<rparr>"

text \<open>The mangling map of a file with the two lines \<open>_Z3foov\<close> and \<open>foo()\<close>.\<close>

definition example_mangling :: mangling_obj where
  "example_mangling = \<lparr>mangling_file = Some ''map.txt'',
     mangling = Some [''_Z3foov'' \<mapsto> ''foo()'']\<rparr>"


section \<open>Auxiliary notions for the statements\<close>

text \<open>The matcher state after \<open>k\<close> more characters.\<close>

definition adv :: "nat \<Rightarrow> mstate \<Rightarrow> mstate" where
  "adv k st = st\<lparr>pos := pos st + k, rest := drop k (rest st)\<rparr>"

text \<open>The number a text of decimal digits denotes, and the shape of a line that
  \<open>size_re\<close> accepts with the match \<open>m\<close>: four non-empty digit groups separated by white
  space, after optional white space.\<close>

definition decimal_value :: "string \<Rightarrow> int" where
  "decimal_value s = foldl (\<lambda>acc c. acc * 10 + (int (code c) - 48)) 0 s"

definition size_line_shape :: "string \<Rightarrow> mstate \<Rightarrow> bool" where
  "size_line_shape line m =
     (\<exists>ws0 ws1 ws2 ws3.
        line = ws0 @ group m 1 @ ws1 @ group m 2 @ ws2 @ group m 3 @ ws3 @ group m 4 @ rest m
      \<and> list_all isspace ws0 \<and> list_all isspace ws1 \<and> list_all isspace ws2 \<and> list_all isspace ws3
      \<and> ws1 \<noteq> [] \<and> ws2 \<noteq> [] \<and> ws3 \<noteq> []
      \<and> group m 1 \<noteq> [] \<and> group m 2 \<noteq> [] \<and> group m 3 \<noteq> [] \<and> group m 4 \<noteq> []
      \<and> list_all isdigit (group m 1) \<and> list_all isdigit (group m 2)
      \<and> list_all isdigit (group m 3) \<and> list_all isdigit (group m 4))"


text \<open>An environment whose size tool prints a header line and the line
  \<open>100 50 20 170\<close>.\<close>

definition example_size_env :: env where
  "example_size_env = \<lparr>isfile = (\<lambda>f. f = ''a.elf''),
     tool_output = (\<lambda>cmd. if cmd = [''size'', ''a.elf'']
        then ''   text    data     bss     dec     hex filename'' @ [CHR 0x0A]
             @ ''100 50 20 170'' @ [CHR 0x0A]
        else []),
     re_compile = (\<lambda>p. None)\<rparr>"

text \<open>A world with one symbol object, the binary that knows it under its mangled
  name, and an environment whose tools print one symbol, one function of one
  instruction and the debug information of one compile unit.\<close>

definition example_symbol_world :: world where
  "example_symbol_world = example_world\<lparr>heap := (heap example_world)
     (0 := (new_symbol ''_Z3foov'' ''foo()'' True)\<lparr>symbol_size := 16, symbol_type := ''T''\<rparr>),
     next_ref := 1\<rparr>"

definition example_symbol_binary :: binary where
  "example_symbol_binary = example_binary\<lparr>symbols := [(''_Z3foov'', 0)]\<rparr>"

definition example_readelf_output :: string where
  "example_readelf_output =
     '' <0><b>: Abbrev Number: 1 (DW_TAG_compile_unit)'' @ [CHR 0x0A] @
     ''    <12>   DW_AT_name        : (indirect string, offset: 0x0): main.cpp'' @ [CHR 0x0A] @
     '' <1><2d>: Abbrev Number: 2 (DW_TAG_subprogram)'' @ [CHR 0x0A] @
     ''    <2e>   DW_AT_linkage_name: (indirect string, offset: 0x5): _Z3foov'' @ [CHR 0x0A] @
     ''    <2f>   DW_AT_decl_file   : 1'' @ [CHR 0x0A] @
     ''    <30>   DW_AT_decl_line   : 7'' @ [CHR 0x0A]"

definition example_tools :: "string \<Rightarrow> string list \<Rightarrow> string" where
  "example_tools readelf_output cmd =
     (if cmd = [''objdump'', ''-a'', ''a.elf'']
        then ''a.elf:     file format elf64-x86-64'' @ [CHR 0x0A]
      else if cmd = [''size'', ''a.elf'']
        then ''   text    data     bss     dec     hex filename'' @ [CHR 0x0A]
             @ ''100 50 20 170'' @ [CHR 0x0A]
      else if cmd = [''nm'', ''--print-size'', ''--size-sort'', ''--radix=d'', [], ''a.elf'']
        then ''0000000000004096 0000000000000016 T _Z3foov'' @ [CHR 0x0A]
      else if cmd = [''nm'', ''--print-size'', ''--size-sort'', ''--radix=d'', ''-C'', ''a.elf'']
        then ''0000000000004096 0000000000000016 T foo()'' @ [CHR 0x0A]
      else if cmd = [''objdump'', ''-drwS'', ''a.elf'']
        then ''0000000000001000 <_Z3foov>:'' @ [CHR 0x0A]
             @ ''1000:'' @ [CHR 0x09] @ ''c3'' @ [CHR 0x09] @ ''retq'' @ [CHR 0x0A]
      else if cmd = [''readelf'', ''--debug-dump=info'', ''a.elf''] then readelf_output
      else [])"

definition example_full_env :: env where
  "example_full_env = \<lparr>isfile = (\<lambda>f. f = ''a.elf''),
     tool_output = example_tools example_readelf_output, re_compile = (\<lambda>p. None)\<rparr>"

text \<open>The same, with a linkage name line whose value is a single token.\<close>

definition example_bad_readelf_output :: string where
  "example_bad_readelf_output =
     '' <1><2d>: Abbrev Number: 2 (DW_TAG_subprogram)'' @ [CHR 0x0A] @
     ''    <2e>   DW_AT_linkage_name: _Z3foov'' @ [CHR 0x0A]"

definition example_bad_env :: env where
  "example_bad_env = \<lparr>isfile = (\<lambda>f. f = ''a.elf''),
     tool_output = example_tools example_bad_readelf_output, re_compile = (\<lambda>p. None)\<rparr>"

section \<open>Notions for the debug information statements\<close>

text \<open>A Python value that is a text.\<close>

definition is_text :: "pyval \<Rightarrow> bool" where
  "is_text v = (case v of PyStr s \<Rightarrow> True | _ \<Rightarrow> False)"

text \<open>The keys of the source files are texts, and no source id, stored or pending, is.\<close>

definition ids_apart :: "world \<Rightarrow> debug_collector \<Rightarrow> binary \<Rightarrow> bool" where
  "ids_apart w d b =
     ((\<forall>k \<in> dom (source_files b). is_text k) \<and> (\<forall>r. \<not> is_text (source_id (heap w r)))
      \<and> \<not> is_text (pending_source_id d) \<and> (header_tag d \<noteq> None \<longrightarrow> is_text (header_id d)))"

text \<open>From \<open>(w0, b0)\<close> to \<open>(w, b)\<close> the dictionary of symbols is the same, no object was
  created, no mangled name was changed and only objects of the dictionary were written.\<close>

definition same_symbols :: "world \<Rightarrow> binary \<Rightarrow> world \<Rightarrow> binary \<Rightarrow> bool" where
  "same_symbols w0 b0 w b =
     (symbols b = symbols b0 \<and> next_ref w = next_ref w0
      \<and> (\<forall>r. name_mangled (heap w r) = name_mangled (heap w0 r))
      \<and> (\<forall>r. r \<notin> snd ` set (symbols b0) \<longrightarrow> heap w r = heap w0 r))"

text \<open>The two exceptions \<open>parseReadelfOutput\<close> raises itself.\<close>

definition is_parse_error :: "error \<Rightarrow> bool" where
  "is_parse_error err =
     (case err of UndeciferableInfoLine l \<Rightarrow> True | NoSourceFilename \<Rightarrow> True | _ \<Rightarrow> False)"

text \<open>An attribute line whose value has not the expected shape, under a header with
  the tag \<open>tag\<close>: it is no header line, it is an attribute line, and either it is a
  linkage name whose value \<open>_name_regex\<close> does not match, or it is a name under a compile
  unit whose value \<open>_source_file_regex\<close> does not match.\<close>

definition malformed_attribute_line :: "string option \<Rightarrow> string \<Rightarrow> bool" where
  "malformed_attribute_line tag line =
     (re_match dbg_header_line_regex line = None \<and>
      (case re_match info_line_regex line of
         None \<Rightarrow> False
       | Some m \<Rightarrow>
           (group m 1 = ''DW_AT_linkage_name'' \<and> re_match name_regex (group m 2) = None)
           \<or> (group m 1 = ''DW_AT_name'' \<and> tag = Some ''DW_TAG_compile_unit''
               \<and> re_match source_file_regex (group m 2) = None)))"

text \<open>The tag of the last header line, and whether some line of a list is malformed
  under the header it stands under.\<close>

definition tag_after :: "string option \<Rightarrow> string \<Rightarrow> string option" where
  "tag_after tag line =
     (case re_match dbg_header_line_regex line of Some m \<Rightarrow> Some (group m 2) | None \<Rightarrow> tag)"

fun has_malformed :: "string option \<Rightarrow> string list \<Rightarrow> bool" where
  "has_malformed tag [] = False"
| "has_malformed tag (line # ls) =
     (malformed_attribute_line tag line \<or> has_malformed (tag_after tag line) ls)"

text \<open>What no phase of the construction changes.\<close>

definition same_config :: "binary \<Rightarrow> binary \<Rightarrow> bool" where
  "same_config b b' =
     (settings_of b' = settings_of b \<and> filename b' = filename b \<and> symbol_init b' = symbol_init b
      \<and> binary_mangling b' = binary_mangling b
      \<and> symbol_selection_regex_compiled b' = symbol_selection_regex_compiled b
      \<and> symbol_exclusion_regex_compiled b' = symbol_exclusion_regex_compiled b)"

section \<open>Notions for the symbol table statements\<close>

text \<open>The dictionary of symbols is well formed in a world: its keys are distinct (it is
  a dictionary), every value is an object that exists, and every object stands under
  the mangled name it carries.\<close>

definition symbols_ok :: "world \<Rightarrow> binary \<Rightarrow> bool" where
  "symbols_ok w b =
     (distinct (map fst (symbols b))
      \<and> (\<forall>(k, r) \<in> set (symbols b). r < next_ref w \<and> name_mangled (heap w r) = k))"

text \<open>The \<open>init\<close> method of the symbol class leaves the mangled name alone (the spec
  calls it an immutable identity key).\<close>

definition init_keeps_name :: "binary \<Rightarrow> bool" where
  "init_keeps_name b = (\<forall>s. name_mangled (symbol_init b s) = name_mangled s)"

text \<open>A line that, after normalisation, is a header line naming a key of the
  dictionary.\<close>

definition names_known_symbol :: "binary \<Rightarrow> string \<Rightarrow> bool" where
  "names_known_symbol b line =
     (case re_match header_line_re (unifyInstructionLine b line) of
        Some m \<Rightarrow> map_of (symbols b) (group m 2) \<noteq> None
      | None \<Rightarrow> False)"

text \<open>The references a collector holds.\<close>

definition collector_refs :: "collector \<Rightarrow> nat set" where
  "collector_refs c = set (col_symbols c) \<union> set_option (cur_symbol c)"

text \<open>The names (group 3) of the lines of a size listing that \<open>nm_regex\<close> matches, in
  order.\<close>

definition listed_names :: "string list \<Rightarrow> string list" where
  "listed_names ls = map (\<lambda>m. group m 3) (List.map_filter (re_match nm_regex) ls)"

text \<open>A pair of lines of the two size listings is well formed when the mangled line
  does not match the pattern, or the demangled line matches it too and the size field
  of the mangled line is a number for \<open>int\<close>. A size listing output is well formed when
  both outputs have the same number of lines and every pair is well formed.\<close>

definition wellformed_nm_pair :: "string \<times> string \<Rightarrow> bool" where
  "wellformed_nm_pair p =
     (case re_match nm_regex (fst p) of
        None \<Rightarrow> True
      | Some mm \<Rightarrow> re_match nm_regex (snd p) \<noteq> None \<and> py_int (group mm 1) \<noteq> None)"

definition wellformed_nm_output :: "string \<Rightarrow> string \<Rightarrow> bool" where
  "wellformed_nm_output nm_output_mangled nm_output_demangled =
     (length (splitlines nm_output_mangled) = length (splitlines nm_output_demangled)
      \<and> list_all wellformed_nm_pair
           (zip (splitlines nm_output_mangled) (splitlines nm_output_demangled)))"

text \<open>No selection and no exclusion pattern is configured.\<close>

definition no_patterns :: "binary \<Rightarrow> bool" where
  "no_patterns b = (symbol_selection_regex_compiled b = None
      \<and> symbol_exclusion_regex_compiled b = None)"

section \<open>Notions for the disassembly statements\<close>

text \<open>A line that, after normalisation, is no header line and that
  \<open>instruction_line_re\<close> matches: the lines the running total counts.\<close>

definition recognized_instruction_line :: "binary \<Rightarrow> string \<Rightarrow> bool" where
  "recognized_instruction_line b line =
     (re_match header_line_re (unifyInstructionLine b line) = None
      \<and> re_match instruction_line_re (unifyInstructionLine b line) \<noteq> None)"

text \<open>The lines of the disassembly output of a binary.\<close>

definition disassembly_lines :: "env \<Rightarrow> binary \<Rightarrow> string list" where
  "disassembly_lines e b =
     splitlines (tool_output e [objdump_command (settings_of b), ''-drwS'', filename b])"

text \<open>An environment whose disassembly is the header of a known symbol and nothing
  else, and one whose disassembly is one instruction line under no header.\<close>

definition example_header_only_env :: env where
  "example_header_only_env = \<lparr>isfile = (\<lambda>f. f = ''a.elf''),
     tool_output = (\<lambda>cmd. if cmd = [''objdump'', ''-drwS'', ''a.elf'']
        then ''0000000000001000 <_Z3foov>:'' @ [CHR 0x0A] else []),
     re_compile = (\<lambda>p. None)\<rparr>"

definition example_no_header_env :: env where
  "example_no_header_env = \<lparr>isfile = (\<lambda>f. f = ''a.elf''),
     tool_output = (\<lambda>cmd. if cmd = [''objdump'', ''-drwS'', ''a.elf'']
        then ''1000:'' @ [CHR 0x09] @ ''c3'' @ [CHR 0x09] @ ''ret'' @ [CHR 0x0A] else []),
     re_compile = (\<lambda>p. None)\<rparr>"

text \<open>The running total of recognized instruction lines after the whole output.\<close>

definition running_total :: "env \<Rightarrow> world \<Rightarrow> binary \<Rightarrow> nat" where
  "running_total e w b =
     n_instruction_lines (snd (collect_instructions b
        (snd (readObjdumpDisassemblyOutput e b w))
        (fst (readObjdumpDisassemblyOutput e b w), new_collector)))"

text \<open>White space, \<open>c3\<close>, white space and \<open>retq\<close> stand at the beginning of a text.\<close>

definition ret_at :: "string \<Rightarrow> bool" where
  "ret_at s =
     (case s of
        w # c # d # t \<Rightarrow> isspace w \<and> c = CHR ''c'' \<and> d = CHR ''3'' \<and> t \<noteq> [] \<and> isspace (hd t)
          \<and> take 4 (dropWhile isspace t) = ''retq''
      | _ \<Rightarrow> False)"

text \<open>The two halves of the pattern of \<open>_unifyX86InstructionLine\<close> after \<open>^.*\<close>, and what
  the pattern yields when \<open>.*\<close> has taken \<open>k\<close> characters of the line.\<close>

definition x86_tail :: regex where
  "x86_tail = Seq space (Seq (lit ''c3'') (Plus space))"

definition x86_cont :: regex where
  "x86_cont = Seq (lit ''retq'') (Seq (Grp 2 (Star dot)) Eol)"

definition x86_attempt :: "string \<Rightarrow> nat \<Rightarrow> mstate list" where
  "x86_attempt line k =
     concat (map (\<lambda>u. rmatch x86_cont (u\<lparr>caps := (caps u)(1 \<mapsto> take (pos u) line)\<rparr>))
                 (rmatch x86_tail (adv k (start 0 line))))"

text \<open>The mangled name an attribute line makes pending: the line is no header line, it
  is an attribute line with the tag \<open>DW_AT_linkage_name\<close>, and the name is group 1 of
  \<open>_name_regex\<close> on its value.\<close>

definition linkage_name_of :: "string \<Rightarrow> string option" where
  "linkage_name_of line =
     (case re_match dbg_header_line_regex line of
        Some h \<Rightarrow> None
      | None \<Rightarrow>
          (case re_match info_line_regex line of
             None \<Rightarrow> None
           | Some m \<Rightarrow>
               if group m 1 = ''DW_AT_linkage_name''
               then map_option (\<lambda>n. group n 1) (re_match name_regex (group m 2))
               else None))"

text \<open>From world \<open>w0\<close> to world \<open>w\<close>, with the names \<open>N\<close> made pending so far and
  the dictionary \<open>syms\<close>: an object that differs is stored in the dictionary under one of
  these names, and it differs in its source id, line and column only.\<close>

definition written_by_name :: "string set \<Rightarrow> (string \<times> nat) list \<Rightarrow> world \<Rightarrow> world \<Rightarrow> bool" where
  "written_by_name N syms w0 w =
     ((\<forall>r. heap w r \<noteq> heap w0 r \<longrightarrow> (\<exists>nm \<in> N. map_of syms nm = Some r))
      \<and> (\<forall>r. heap w r = (heap w0 r)\<lparr>source_id := source_id (heap w r),
              source_line := source_line (heap w r),
              source_column := source_column (heap w r)\<rparr>))"

text \<open>The lines of the debug information output of a binary.\<close>

definition debug_lines :: "env \<Rightarrow> binary \<Rightarrow> string list" where
  "debug_lines e b =
     splitlines (tool_output e [readelf_command (settings_of b), ''--debug-dump=info'', filename b])"

text \<open>A collector with the debug information of the example symbol pending, and two
  lines of a debug information output.\<close>

definition example_pending :: debug_collector where
  "example_pending = new_debug_collector\<lparr>pending_name_mangled := Some ''_Z3foov'',
     pending_source_id := PyInt 1, pending_source_line := PyInt 7\<rparr>"

definition example_linkage_line :: string where
  "example_linkage_line =
     ''    <2e>   DW_AT_linkage_name: (indirect string, offset: 0x5): _Z3foov''"

definition example_header_line :: string where
  "example_header_line = '' <1><2d>: Abbrev Number: 2 (DW_TAG_subprogram)''"

section \<open>The matcher on classes, literals and groups\<close>

lemma adv_simps [simp]:
  "pos (adv k st) = pos st + k" "rest (adv k st) = drop k (rest st)" "caps (adv k st) = caps st"
  "adv 0 st = st" "adv j (adv k st) = adv (k + j) st"
  by (simp_all add: adv_def add.assoc add.commute)

lemma rmatch_Cls: "rmatch (Cls P) st =
  (if rest st \<noteq> [] \<and> P (hd (rest st)) then [adv 1 st] else [])"
  by (cases "rest st") (simp_all add: adv_def drop_Suc)

lemma rmatch_Lit: "rmatch (Lit c) st =
  (if rest st \<noteq> [] \<and> hd (rest st) = c then [adv 1 st] else [])"
  by (cases "rest st") (simp_all add: adv_def drop_Suc)

lemma rmatch_Seq: "rmatch (Seq a b) st = concat (map (rmatch b) (rmatch a st))"
  by simp

lemma rmatch_Opt: "rmatch (Opt a) st = rmatch a st @ [st]"
  by simp

lemma rmatch_Star: "rmatch (Star a) st = rstar (rmatch a) (length (rest st)) st"
  by simp

lemma rmatch_Plus: "rmatch (Plus a) st =
    concat (map (\<lambda>t. rstar (rmatch a) (length (rest t)) t) (rmatch a st))"
  by simp

lemma rmatch_Grp: "rmatch (Grp n a) st =
    map (\<lambda>t. t\<lparr>caps := (caps t)(n \<mapsto> take (pos t - pos st) (rest st))\<rparr>) (rmatch a st)"
  by simp

lemma rmatch_Bol: "rmatch Bol st = (if pos st = 0 then [st] else [])"
  by simp

lemma rmatch_Eol: "rmatch Eol st = (if rest st = [] \<or> rest st = [CHR 0x0A] then [st] else [])"
  by simp

declare rmatch.simps [simp del]

lemma rstar_Cls:
  "length (rest st) \<le> n \<Longrightarrow>
   rstar (rmatch (Cls P)) n st =
     map (\<lambda>k. adv k st) (rev [0..<Suc (length (takeWhile P (rest st)))])"
proof (induction n arbitrary: st)
  case 0
  then show ?case by simp
next
  case (Suc n)
  show ?case
  proof (cases "rest st")
    case Nil
    then show ?thesis by (simp add: rmatch_Cls)
  next
    case (Cons x xs)
    show ?thesis
    proof (cases "P x")
      case False
      with Cons show ?thesis by (simp add: rmatch_Cls)
    next
      case True
      have len: "length (rest (adv 1 st)) \<le> n" using Suc.prems Cons by simp
      have tw: "takeWhile P (rest (adv 1 st)) = takeWhile P xs" using Cons by simp
      let ?m = "length (takeWhile P xs)"
      have "rstar (rmatch (Cls P)) (Suc n) st = rstar (rmatch (Cls P)) n (adv 1 st) @ [st]"
        using Cons True by (simp add: rmatch_Cls)
      also have "\<dots> = map (\<lambda>k. adv k (adv 1 st)) (rev [0..<Suc ?m]) @ [st]"
        using Suc.IH [OF len] tw by simp
      also have "\<dots> = map (\<lambda>k. adv k st) (rev (map Suc [0..<Suc ?m])) @ [adv 0 st]"
        by (simp add: rev_map comp_def del: upt_Suc)
      also have "\<dots> = map (\<lambda>k. adv k st) (rev (0 # map Suc [0..<Suc ?m]))"
        by (simp del: upt_Suc)
      also have "0 # map Suc [0..<Suc ?m] = [0..<Suc (Suc ?m)]"
        by (simp only: map_Suc_upt upt_conv_Cons [symmetric] zero_less_Suc)
      finally show ?thesis using Cons True by simp
    qed
  qed
qed

lemma rmatch_Star_Cls:
  "rmatch (Star (Cls P)) st =
     map (\<lambda>k. adv k st) (rev [0..<Suc (length (takeWhile P (rest st)))])"
  by (simp add: rmatch_Star rstar_Cls)

lemma rmatch_Plus_Cls:
  "rmatch (Plus (Cls P)) st =
     map (\<lambda>k. adv k st) (rev [1..<Suc (length (takeWhile P (rest st)))])"
proof (cases "rest st \<noteq> [] \<and> P (hd (rest st))")
  case False
  then have "takeWhile P (rest st) = []" by (cases "rest st") auto
  with False show ?thesis by (auto simp add: rmatch_Plus rmatch_Cls)
next
  case True
  then obtain x xs where xs: "rest st = x # xs" "P x" by (cases "rest st") auto
  let ?m = "length (takeWhile P xs)"
  have "rmatch (Plus (Cls P)) st = map (\<lambda>k. adv k (adv 1 st)) (rev [0..<Suc ?m])"
    using xs by (simp add: rmatch_Plus rmatch_Cls rstar_Cls)
  also have "\<dots> = map (\<lambda>k. adv k st) (rev (map Suc [0..<Suc ?m]))"
    by (simp add: rev_map comp_def del: upt_Suc)
  also have "map Suc [0..<Suc ?m] = [1..<Suc (Suc ?m)]"
    by (simp only: map_Suc_upt One_nat_def)
  finally show ?thesis using xs by simp
qed

lemma rmatch_lit:
  "s \<noteq> [] \<Longrightarrow> rmatch (lit s) st =
     (if take (length s) (rest st) = s then [adv (length s) st] else [])"
proof (induction s arbitrary: st)
  case Nil
  then show ?case by simp
next
  case (Cons c s)
  show ?case
  proof (cases s)
    case Nil
    then show ?thesis
      by (cases "rest st") (auto simp: lit_def rmatch_Lit)
  next
    case (Cons d s')
    then have ne: "s \<noteq> []" by simp
    have l: "lit (c # s) = Seq (Lit c) (lit s)" using Cons by (simp add: lit_def)
    show ?thesis
    proof (cases "rest st")
      case Nil
      then show ?thesis by (simp add: l rmatch_Seq rmatch_Lit)
    next
      case (Cons x xs)
      then show ?thesis
        using Cons.IH [OF ne, of "adv 1 st"]
        by (auto simp: l rmatch_Seq rmatch_Lit drop_Suc)
    qed
  qed
qed

lemma take_takeWhile_all:
  "k \<le> length (takeWhile P xs) \<Longrightarrow> list_all P (take k xs)"
proof (induction xs arbitrary: k)
  case Nil
  then show ?case by simp
next
  case (Cons x xs)
  then show ?case by (cases k) (auto split: if_splits)
qed

lemma mem_adv_list:
  "t \<in> set (map (\<lambda>k. adv k st) (rev [a..<b])) \<longleftrightarrow> (\<exists>k. a \<le> k \<and> k < b \<and> t = adv k st)"
  by (simp only: set_map set_rev set_upt image_iff atLeastLessThan_iff Bex_def) blast

lemma Star_Cls_mem:
  assumes "t \<in> set (rmatch (Star (Cls P)) st)"
  shows "\<exists>ws. list_all P ws \<and> rest st = ws @ rest t \<and> caps t = caps st \<and> pos t = pos st + length ws"
proof -
  let ?m = "length (takeWhile P (rest st))"
  from assms have "\<exists>k. 0 \<le> k \<and> k < Suc ?m \<and> t = adv k st"
    unfolding rmatch_Star_Cls mem_adv_list .
  then have "\<exists>k. k \<le> ?m \<and> t = adv k st"
    by (auto simp: less_Suc_eq_le)
  then obtain k where k: "k \<le> ?m" "t = adv k st" by blast
  have "list_all P (take k (rest st))"
    using k(1) by (rule take_takeWhile_all)
  moreover have "rest st = take k (rest st) @ rest t" using k by simp
  moreover have "length (take k (rest st)) = k" using k(1) length_takeWhile_le [of P "rest st"] by simp
  ultimately show ?thesis using k by (intro exI [of _ "take k (rest st)"]) simp
qed

lemma Plus_Cls_mem:
  assumes "t \<in> set (rmatch (Plus (Cls P)) st)"
  shows "\<exists>ws. ws \<noteq> [] \<and> list_all P ws \<and> rest st = ws @ rest t \<and> caps t = caps st
            \<and> pos t = pos st + length ws"
proof -
  let ?m = "length (takeWhile P (rest st))"
  from assms have "\<exists>k. 1 \<le> k \<and> k < Suc ?m \<and> t = adv k st"
    unfolding rmatch_Plus_Cls mem_adv_list .
  then have "\<exists>k. 1 \<le> k \<and> k \<le> ?m \<and> t = adv k st"
    by (auto simp: less_Suc_eq_le)
  then obtain k where k: "1 \<le> k" "k \<le> ?m" "t = adv k st" by blast
  have "list_all P (take k (rest st))"
    using k(2) by (rule take_takeWhile_all)
  moreover have "rest st = take k (rest st) @ rest t" using k by simp
  moreover have "length (take k (rest st)) = k"
    using k(2) length_takeWhile_le [of P "rest st"] by simp
  moreover from this k(1) have "take k (rest st) \<noteq> []" by force
  ultimately show ?thesis using k by (intro exI [of _ "take k (rest st)"]) simp
qed

lemma Grp_mem:
  assumes "t \<in> set (rmatch (Grp n a) st)"
  shows "\<exists>u. u \<in> set (rmatch a st) \<and> pos t = pos u \<and> rest t = rest u
          \<and> caps t = (caps u)(n \<mapsto> take (pos u - pos st) (rest st))"
  using assms by (auto simp: rmatch_Grp)

lemma Grp_Plus_Cls_mem:
  assumes "t \<in> set (rmatch (Grp n (Plus (Cls P))) st)"
  shows "\<exists>g. g \<noteq> [] \<and> list_all P g \<and> rest st = g @ rest t \<and> caps t = (caps st)(n \<mapsto> g)
            \<and> pos t = pos st + length g"
proof -
  from Grp_mem [OF assms] obtain u where u: "u \<in> set (rmatch (Plus (Cls P)) st)"
    "pos t = pos u" "rest t = rest u" "caps t = (caps u)(n \<mapsto> take (pos u - pos st) (rest st))"
    by blast
  from Plus_Cls_mem [OF u(1)] obtain ws where ws: "ws \<noteq> []" "list_all P ws"
    "rest st = ws @ rest u" "caps u = caps st" "pos u = pos st + length ws" by blast
  have "take (pos u - pos st) (rest st) = ws" using ws(3,5) by simp
  with u ws show ?thesis by (intro exI [of _ ws]) simp
qed

lemma Seq_mem:
  "t \<in> set (rmatch (Seq a b) st) \<longleftrightarrow> (\<exists>u \<in> set (rmatch a st). t \<in> set (rmatch b u))"
  by (auto simp: rmatch_Seq)

lemma size_re_mem:
  assumes "m \<in> set (rmatch size_re st)"
  shows "\<exists>ws0 g1 ws1 g2 ws2 g3 ws3 g4.
           rest st = ws0 @ g1 @ ws1 @ g2 @ ws2 @ g3 @ ws3 @ g4 @ rest m
         \<and> list_all isspace ws0 \<and> list_all isspace ws1 \<and> list_all isspace ws2 \<and> list_all isspace ws3
         \<and> ws1 \<noteq> [] \<and> ws2 \<noteq> [] \<and> ws3 \<noteq> []
         \<and> g1 \<noteq> [] \<and> g2 \<noteq> [] \<and> g3 \<noteq> [] \<and> g4 \<noteq> []
         \<and> list_all isdigit g1 \<and> list_all isdigit g2 \<and> list_all isdigit g3 \<and> list_all isdigit g4
         \<and> group m 1 = g1 \<and> group m 2 = g2 \<and> group m 3 = g3 \<and> group m 4 = g4
         \<and> pos st = 0"
proof -
  from assms obtain s1 s2 s3 s4 s5 s6 s7 s8 where
    s1: "s1 \<in> set (rmatch Bol st)" and
    s2: "s2 \<in> set (rmatch (Star (Cls isspace)) s1)" and
    s3: "s3 \<in> set (rmatch (Grp 1 (Plus (Cls isdigit))) s2)" and
    s4: "s4 \<in> set (rmatch (Plus (Cls isspace)) s3)" and
    s5: "s5 \<in> set (rmatch (Grp 2 (Plus (Cls isdigit))) s4)" and
    s6: "s6 \<in> set (rmatch (Plus (Cls isspace)) s5)" and
    s7: "s7 \<in> set (rmatch (Grp 3 (Plus (Cls isdigit))) s6)" and
    s8: "s8 \<in> set (rmatch (Plus (Cls isspace)) s7)" and
    m: "m \<in> set (rmatch (Grp 4 (Plus (Cls isdigit))) s8)"
    unfolding size_re_def seqs.simps space_def digit_def Seq_mem by blast
  from s1 have e1: "s1 = st" "pos st = 0" by (auto simp: rmatch_Bol split: if_splits)
  from Star_Cls_mem [OF s2] obtain ws0 where w0: "list_all isspace ws0" "rest s1 = ws0 @ rest s2"
    "caps s2 = caps s1" by blast
  from Grp_Plus_Cls_mem [OF s3] obtain g1 where g1: "g1 \<noteq> []" "list_all isdigit g1"
    "rest s2 = g1 @ rest s3" "caps s3 = (caps s2)(1 \<mapsto> g1)" by blast
  from Plus_Cls_mem [OF s4] obtain ws1 where w1: "ws1 \<noteq> []" "list_all isspace ws1"
    "rest s3 = ws1 @ rest s4" "caps s4 = caps s3" by blast
  from Grp_Plus_Cls_mem [OF s5] obtain g2 where g2: "g2 \<noteq> []" "list_all isdigit g2"
    "rest s4 = g2 @ rest s5" "caps s5 = (caps s4)(2 \<mapsto> g2)" by blast
  from Plus_Cls_mem [OF s6] obtain ws2 where w2: "ws2 \<noteq> []" "list_all isspace ws2"
    "rest s5 = ws2 @ rest s6" "caps s6 = caps s5" by blast
  from Grp_Plus_Cls_mem [OF s7] obtain g3 where g3: "g3 \<noteq> []" "list_all isdigit g3"
    "rest s6 = g3 @ rest s7" "caps s7 = (caps s6)(3 \<mapsto> g3)" by blast
  from Plus_Cls_mem [OF s8] obtain ws3 where w3: "ws3 \<noteq> []" "list_all isspace ws3"
    "rest s7 = ws3 @ rest s8" "caps s8 = caps s7" by blast
  from Grp_Plus_Cls_mem [OF m] obtain g4 where g4: "g4 \<noteq> []" "list_all isdigit g4"
    "rest s8 = g4 @ rest m" "caps m = (caps s8)(4 \<mapsto> g4)" by blast
  have r: "rest st = ws0 @ g1 @ ws1 @ g2 @ ws2 @ g3 @ ws3 @ g4 @ rest m"
    using e1 w0 g1 w1 g2 w2 g3 w3 g4 by simp
  have c: "group m 1 = g1 \<and> group m 2 = g2 \<and> group m 3 = g3 \<and> group m 4 = g4"
    using g1(4) w1(4) g2(4) w2(4) g3(4) w3(4) g4(4) by (simp add: group_def)
  from r c e1 w0 g1 w1 g2 w2 g3 w3 g4 show ?thesis by blast
qed

lemma re_match_mem: "re_match r s = Some m \<Longrightarrow> m \<in> set (rmatch r (start 0 s))"
  by (auto simp: re_match_def split: list.splits)

section \<open>Demangling resolution\<close>

text \<open>
  C3. For every symbol name, \<open>Binary.demangle\<close> follows the priority chain: when a
  mangling object is given, its map was read and the map contains the name, the result is
  the mapped name with the flag true; otherwise, when \<open>binutils_work\<close> holds (size
  extraction succeeded), the result is the name handed in, unchanged, with the flag true;
  otherwise it is the name handed in, unchanged, with the flag false.
\<close>

theorem demangle_priority_chain:
  "(\<forall>m d x. binary_mangling b = Some m \<and> mangling m = Some d \<and> d n = Some x
       \<longrightarrow> demangle b n = (x, True))
   \<and> ((\<nexists>m d x. binary_mangling b = Some m \<and> mangling m = Some d \<and> d n = Some x)
        \<and> binutils_work b \<longrightarrow> demangle b n = (n, True))
   \<and> ((\<nexists>m d x. binary_mangling b = Some m \<and> mangling m = Some d \<and> d n = Some x)
        \<and> \<not> binutils_work b \<longrightarrow> demangle b n = (n, False))"
  by (auto simp: demangle_def mangling_demangle_def split: option.splits)

theorem demangle_priority_chain_witness:
  "demangle (example_binary\<lparr>binary_mangling := Some example_mangling\<rparr>) ''_Z3foov'' = (''foo()'', True)
   \<and> demangle (example_binary\<lparr>binary_mangling := Some example_mangling\<rparr>) ''bar'' = (''bar'', True)
   \<and> demangle (example_binary\<lparr>binutils_work := False\<rparr>) ''_Z3foov'' = (''_Z3foov'', False)"
proof -
  let ?b = "example_binary\<lparr>binary_mangling := Some example_mangling\<rparr>"
  have h1: "binary_mangling ?b = Some example_mangling
      \<and> mangling example_mangling = Some [''_Z3foov'' \<mapsto> ''foo()'']
      \<and> [''_Z3foov'' \<mapsto> ''foo()''] ''_Z3foov'' = Some ''foo()''"
    by (simp add: example_mangling_def)
  have h2: "(\<nexists>m d x. binary_mangling ?b = Some m \<and> mangling m = Some d \<and> d ''bar'' = Some x)
      \<and> binutils_work ?b"
    by (simp add: example_mangling_def example_binary_def initial_binary_def)
  have h3: "(\<nexists>m d x. binary_mangling (example_binary\<lparr>binutils_work := False\<rparr>) = Some m
        \<and> mangling m = Some d \<and> d ''_Z3foov'' = Some x)
      \<and> \<not> binutils_work (example_binary\<lparr>binutils_work := False\<rparr>)"
    by (simp add: example_binary_def initial_binary_def)
  from demangle_priority_chain [of ?b "''_Z3foov''"] h1
  have c1: "demangle ?b ''_Z3foov'' = (''foo()'', True)" by blast
  from demangle_priority_chain [of ?b "''bar''"] h2
  have c2: "demangle ?b ''bar'' = (''bar'', True)" by blast
  from demangle_priority_chain [of "example_binary\<lparr>binutils_work := False\<rparr>" "''_Z3foov''"] h3
  have c3: "demangle (example_binary\<lparr>binutils_work := False\<rparr>) ''_Z3foov'' = (''_Z3foov'', False)"
    by blast
  from c1 c2 c3 show ?thesis by simp
qed

section \<open>Symbol selection\<close>

text \<open>
  C4. \<open>Binary._isSymbolSelected\<close> is a predicate on the name that depends on nothing but
  the two compiled patterns: a name the exclusion pattern matches is rejected whatever
  the inclusion pattern is; without an inclusion pattern every name that is not excluded
  is accepted; with an inclusion pattern exactly the names it matches and that are not
  excluded are accepted.
\<close>

theorem isSymbolSelected_exclusion_dominates:
  "(\<forall>ex. symbol_exclusion_regex_compiled b = Some ex \<and> ex n \<longrightarrow> \<not> isSymbolSelected b n)
   \<and> (symbol_selection_regex_compiled b = None \<longrightarrow>
        isSymbolSelected b n = (\<nexists>ex. symbol_exclusion_regex_compiled b = Some ex \<and> ex n))
   \<and> (\<forall>sel. symbol_selection_regex_compiled b = Some sel \<longrightarrow>
        isSymbolSelected b n = (sel n \<and> (\<nexists>ex. symbol_exclusion_regex_compiled b = Some ex \<and> ex n)))
   \<and> (\<forall>b'. symbol_exclusion_regex_compiled b' = symbol_exclusion_regex_compiled b
          \<and> symbol_selection_regex_compiled b' = symbol_selection_regex_compiled b
        \<longrightarrow> isSymbolSelected b' n = isSymbolSelected b n)"
  by (auto simp: isSymbolSelected_def split: option.splits)

theorem isSymbolSelected_exclusion_dominates_witness:
  "\<not> isSymbolSelected (example_binary\<lparr>symbol_selection_regex_compiled := Some (\<lambda>s. take 3 s = ''foo''),
        symbol_exclusion_regex_compiled := Some (\<lambda>s. take 4 s = ''foo_'')\<rparr>) ''foo_bar''
   \<and> isSymbolSelected (example_binary\<lparr>symbol_exclusion_regex_compiled := Some (\<lambda>s. take 4 s = ''foo_'')\<rparr>) ''main''
   \<and> isSymbolSelected (example_binary\<lparr>symbol_selection_regex_compiled := Some (\<lambda>s. take 3 s = ''foo''),
        symbol_exclusion_regex_compiled := Some (\<lambda>s. take 4 s = ''foo_'')\<rparr>) ''foobar''"
proof -
  let ?sel = "\<lambda>s. take 3 s = ''foo''"
  let ?ex = "\<lambda>s. take 4 s = ''foo_''"
  let ?b = "example_binary\<lparr>symbol_selection_regex_compiled := Some ?sel,
              symbol_exclusion_regex_compiled := Some ?ex\<rparr>"
  let ?c = "example_binary\<lparr>symbol_exclusion_regex_compiled := Some ?ex\<rparr>"
  have e1: "symbol_exclusion_regex_compiled ?b = Some ?ex \<and> ?ex ''foo_bar''" by simp
  have s2: "symbol_selection_regex_compiled ?c = None"
    by (simp add: example_binary_def initial_binary_def)
  have n2: "\<nexists>ex. symbol_exclusion_regex_compiled ?c = Some ex \<and> ex ''main''" by simp
  have s3: "symbol_selection_regex_compiled ?b = Some ?sel" by simp
  have n3: "?sel ''foobar'' \<and> (\<nexists>ex. symbol_exclusion_regex_compiled ?b = Some ex \<and> ex ''foobar'')"
    by simp
  from isSymbolSelected_exclusion_dominates [of ?b "''foo_bar''"] e1
  have c1: "\<not> isSymbolSelected ?b ''foo_bar''" by blast
  from isSymbolSelected_exclusion_dominates [of ?c "''main''"] s2 n2
  have c2: "isSymbolSelected ?c ''main''" by blast
  from isSymbolSelected_exclusion_dominates [of ?b "''foobar''"] s3 n3
  have c3: "isSymbolSelected ?b ''foobar''" by blast
  from c1 c2 c3 show ?thesis by simp
qed

section \<open>Construction fails before anything is read\<close>

text \<open>
  C8. When the file name is empty or does not name a file, \<open>Binary.__init__\<close> raises: it
  returns an error and no \<open>Binary\<close>, and the world is the one it was given, so no command
  was run, no warning recorded and no symbol object created. When the two optional
  patterns compile, the error is the one of the file name check.
\<close>

theorem Binary_init_missing_file:
  "fname = [] \<or> \<not> isfile e fname \<Longrightarrow>
   (\<exists>err. Binary_init e st si fname sel exc mang w = (w, Inl err))
   \<and> ((\<exists>s x. compile_optional e sel = Inr s \<and> compile_optional e exc = Inr x) \<longrightarrow>
        Binary_init e st si fname sel exc mang w =
          (w, Inl (if fname = [] then NoBinaryFilename else UnableToFindFilename fname)))"
  by (auto simp: Binary_init_def split: sum.splits)

theorem Binary_init_missing_file_witness:
  "Binary_init example_env example_settings (\<lambda>s. s) [] None None None example_world
     = (example_world, Inl NoBinaryFilename)
   \<and> Binary_init example_env example_settings (\<lambda>s. s) ''b.elf'' None None None example_world
     = (example_world, Inl (UnableToFindFilename ''b.elf''))"
proof -
  have c: "\<exists>s x. compile_optional example_env None = Inr s \<and> compile_optional example_env None = Inr x"
    by (simp add: compile_optional_def)
  have h1: "([]::string) = [] \<or> \<not> isfile example_env []" by simp
  have h2: "''b.elf'' = [] \<or> \<not> isfile example_env ''b.elf''" by (simp add: example_env_def)
  from Binary_init_missing_file [OF h1, of example_settings "\<lambda>s. s" None None None example_world] c
  have c1: "Binary_init example_env example_settings (\<lambda>s. s) [] None None None example_world
     = (example_world, Inl NoBinaryFilename)" by simp
  from Binary_init_missing_file [OF h2, of example_settings "\<lambda>s. s" None None None example_world] c
  have c2: "Binary_init example_env example_settings (\<lambda>s. s) ''b.elf'' None None None example_world
     = (example_world, Inl (UnableToFindFilename ''b.elf''))" by simp
  from c1 c2 show ?thesis by simp
qed

section \<open>Size extraction\<close>

lemma isdigit_facts:
  "isdigit c \<Longrightarrow> \<not> int_space c \<and> c \<noteq> CHR ''-'' \<and> c \<noteq> CHR ''+'' \<and> c \<noteq> CHR ''_'' \<and> 48 \<le> code c"
  by (auto simp: isdigit_def int_space_def between_def code_def)

lemma int_digits_all_digits:
  "list_all isdigit s \<Longrightarrow> s \<noteq> [] \<or> prev \<Longrightarrow>
   int_digits acc prev s = Some (foldl (\<lambda>acc c. acc * 10 + (int (code c) - 48)) acc s)"
  by (induction s arbitrary: acc prev) auto

lemma foldl_digits_nonneg:
  "list_all isdigit s \<Longrightarrow> 0 \<le> acc \<Longrightarrow> 0 \<le> foldl (\<lambda>acc c. acc * 10 + (int (code c) - 48)) acc s"
proof (induction s arbitrary: acc)
  case Nil
  then show ?case by simp
next
  case (Cons c s)
  from Cons.prems have "48 \<le> code c" by (simp add: isdigit_facts)
  with Cons.prems have "0 \<le> acc * 10 + (int (code c) - 48)" by simp
  with Cons show ?case by simp
qed

lemma py_int_digits:
  assumes "list_all isdigit s" "s \<noteq> []"
  shows "py_int s = Some (decimal_value s)" "0 \<le> decimal_value s"
proof -
  from assms obtain c cs where s: "s = c # cs" by (cases s) auto
  with assms have c: "isdigit c" by simp
  have d1: "dropWhile int_space s = s" using s c by (simp add: isdigit_facts)
  have "isdigit (last s)" using assms by (metis last_in_set list_all_iff)
  then have "\<not> int_space (hd (rev s))" using assms(2) by (simp add: hd_rev isdigit_facts)
  then have d2: "dropWhile int_space (rev s) = rev s" using assms(2) by (cases "rev s") auto
  show "py_int s = Some (decimal_value s)"
    using c assms int_digits_all_digits [of s False 0]
    by (simp add: py_int_def d1 d2 s [symmetric] decimal_value_def isdigit_facts
        del: int_digits.simps split: list.splits)
       (simp add: s isdigit_facts)
  show "0 \<le> decimal_value s"
    unfolding decimal_value_def using assms(1) by (rule foldl_digits_nonneg) simp
qed

lemma re_match_size_re:
  assumes "re_match size_re line = Some m"
  shows "size_line_shape line m"
proof -
  from size_re_mem [OF re_match_mem [OF assms]] show ?thesis
    unfolding size_line_shape_def by (simp add: start_def)
qed

lemma size_lines_find:
  "size_lines ls b =
     (case find (\<lambda>l. re_match size_re l \<noteq> None) ls of
        None \<Rightarrow> Inr (b, False)
      | Some line \<Rightarrow>
          Inr (b\<lparr>text_size := decimal_value (group (the (re_match size_re line)) 1),
                 data_size := decimal_value (group (the (re_match size_re line)) 2),
                 bss_size := decimal_value (group (the (re_match size_re line)) 3),
                 overall_size := decimal_value (group (the (re_match size_re line)) 4),
                 progmem_size := decimal_value (group (the (re_match size_re line)) 1)
                               + decimal_value (group (the (re_match size_re line)) 2),
                 static_ram_size := decimal_value (group (the (re_match size_re line)) 2)
                               + decimal_value (group (the (re_match size_re line)) 3)\<rparr>, True))"
proof (induction ls)
  case Nil
  then show ?case by simp
next
  case (Cons l ls)
  show ?case
  proof (cases "re_match size_re l")
    case None
    with Cons show ?thesis by simp
  next
    case (Some m)
    from re_match_size_re [OF Some] have sh: "size_line_shape l m" .
    then have "py_int (group m 1) = Some (decimal_value (group m 1))"
      "py_int (group m 2) = Some (decimal_value (group m 2))"
      "py_int (group m 3) = Some (decimal_value (group m 3))"
      "py_int (group m 4) = Some (decimal_value (group m 4))"
      unfolding size_line_shape_def by (auto intro: py_int_digits(1))
    with Some show ?thesis by simp
  qed
qed

text \<open>
  C5. \<open>Binary._determineSymbolSizes\<close> never raises. The first line of the size output
  that \<open>size_re\<close> matches (optional white space, then four groups of decimal digits
  separated by white space) gives text, data, bss and overall size in this order, each
  the non-negative number its digits denote; the program memory size is text + data and
  the static RAM size is data + bss, exactly; no warning is recorded and \<open>binutils_work\<close>
  keeps its value. When no line matches, \<open>binutils_work\<close> becomes false, one warning is
  recorded, and nothing else of the binary changes.
\<close>

theorem determineSymbolSizes_first_matching_line:
  "\<exists>w' b'. determineSymbolSizes e w b = (w', Inr b')
     \<and> invoked w' = invoked w @ [[size_command (settings_of b), filename b]]
     \<and> (case find (\<lambda>l. re_match size_re l \<noteq> None)
                (splitlines (tool_output e [size_command (settings_of b), filename b])) of
          None \<Rightarrow>
            binutils_work b' = False \<and> warnings w' = warnings w @ [size_warning]
            \<and> b' = b\<lparr>binutils_work := False\<rparr>
        | Some line \<Rightarrow>
            (\<exists>m. re_match size_re line = Some m \<and> size_line_shape line m
               \<and> text_size b' = decimal_value (group m 1)
               \<and> data_size b' = decimal_value (group m 2)
               \<and> bss_size b' = decimal_value (group m 3)
               \<and> overall_size b' = decimal_value (group m 4)
               \<and> 0 \<le> text_size b' \<and> 0 \<le> data_size b' \<and> 0 \<le> bss_size b' \<and> 0 \<le> overall_size b'
               \<and> progmem_size b' = text_size b' + data_size b'
               \<and> static_ram_size b' = data_size b' + bss_size b'
               \<and> binutils_work b' = binutils_work b \<and> warnings w' = warnings w))"
proof (cases "find (\<lambda>l. re_match size_re l \<noteq> None)
                (splitlines (tool_output e [size_command (settings_of b), filename b]))")
  case None
  then show ?thesis
    by (simp add: determineSymbolSizes_def readSizeOutput_def run_tool_def size_lines_find
        warning_def)
next
  case (Some line)
  then have "re_match size_re line \<noteq> None" by (auto simp: find_Some_iff)
  then obtain m where m: "re_match size_re line = Some m" by blast
  from re_match_size_re [OF m] have sh: "size_line_shape line m" .
  then have nn: "0 \<le> decimal_value (group m 1)" "0 \<le> decimal_value (group m 2)"
      "0 \<le> decimal_value (group m 3)" "0 \<le> decimal_value (group m 4)"
    unfolding size_line_shape_def by (auto intro: py_int_digits(2))
  show ?thesis
    using Some m sh nn
    by (simp add: determineSymbolSizes_def readSizeOutput_def run_tool_def size_lines_find)
qed

section \<open>The debug information phase\<close>

lemma readelf_lines_invariant:
  assumes step: "\<And>line w d b w' d' b'.
      readelf_line line w (d, b) = (w', Inr (d', b')) \<Longrightarrow> P w d b \<Longrightarrow> P w' d' b'"
    and "P w d b" and "readelf_lines ls w (d, b) = (w', Inr (d', b'))"
  shows "P w' d' b'"
  using assms(2,3)
proof (induction ls arbitrary: w d b)
  case Nil
  then show ?case by simp
next
  case (Cons l ls)
  from Cons.prems(2) obtain w1 d1 b1 where
    a: "readelf_line l w (d, b) = (w1, Inr (d1, b1))" and
    b: "readelf_lines ls w1 (d1, b1) = (w', Inr (d', b'))"
    by (auto split: prod.splits sum.splits)
  from step [OF a Cons.prems(1)] have "P w1 d1 b1" .
  from Cons.IH [OF this b] show ?case .
qed

lemma is_text_simps [simp]:
  "is_text (PyStr s)" "\<not> is_text PyNone" "\<not> is_text (PyInt n)"
  by (simp_all add: is_text_def)

lemma map_of_ref_in: "map_of al k = Some r \<Longrightarrow> r \<in> snd ` set al"
  by (force dest: map_of_SomeD)

lemma flush_ids_apart:
  "ids_apart w d b \<Longrightarrow> flushSymbolInfo b (w, d) = (w', d') \<Longrightarrow> ids_apart w' d' b"
  by (auto simp: ids_apart_def flushSymbolInfo_def split: option.splits if_splits)

lemma flush_same_symbols:
  "same_symbols w0 b0 w b \<Longrightarrow> flushSymbolInfo b (w, d) = (w', d') \<Longrightarrow> same_symbols w0 b0 w' b"
  by (auto simp: same_symbols_def flushSymbolInfo_def split: option.splits
      dest: map_of_ref_in)

lemma readelf_line_ids_apart:
  assumes "readelf_line line w (d, b) = (w', Inr (d', b'))" "ids_apart w d b"
  shows "ids_apart w' d' b'"
proof (cases "re_match dbg_header_line_regex line")
  case (Some m)
  let ?d1 = "d\<lparr>header_id := PyStr (group m 1), header_tag := Some (group m 2)\<rparr>"
  from assms(2) have "ids_apart w ?d1 b" by (simp add: ids_apart_def)
  moreover from assms(1) Some have "flushSymbolInfo b (w, ?d1) = (w', d')" "b' = b"
    by (auto simp: readelf_line_def Let_def split: prod.splits)
  ultimately show ?thesis using flush_ids_apart by blast
next
  case None
  with assms show ?thesis
    by (auto simp: readelf_line_def Let_def ids_apart_def registerSourceFile_def
        split: option.splits if_splits)
qed

lemma readelf_line_same_symbols:
  assumes "readelf_line line w (d, b) = (w', Inr (d', b'))" "same_symbols w0 b0 w b"
  shows "same_symbols w0 b0 w' b'"
proof (cases "re_match dbg_header_line_regex line")
  case (Some m)
  let ?d1 = "d\<lparr>header_id := PyStr (group m 1), header_tag := Some (group m 2)\<rparr>"
  from assms(1) Some have "flushSymbolInfo b (w, ?d1) = (w', d')" "b' = b"
    by (auto simp: readelf_line_def Let_def split: prod.splits)
  with assms(2) show ?thesis using flush_same_symbols by blast
next
  case None
  with assms show ?thesis
    by (auto simp: readelf_line_def Let_def same_symbols_def registerSourceFile_def
        split: option.splits if_splits)
qed

lemma parseReadelfOutput_ids_apart:
  assumes "parseReadelfOutput out w (d, b) = (w', Inr (d', b'))" "ids_apart w d b"
  shows "ids_apart w' d' b'"
proof -
  from assms(1) obtain w1 d1 where
    a: "readelf_lines (splitlines out) w (d, b) = (w1, Inr (d1, b'))" and
    f: "flushSymbolInfo b' (w1, d1) = (w', d')"
    by (auto simp: parseReadelfOutput_def split: prod.splits sum.splits)
  have "ids_apart w1 d1 b'"
    by (rule readelf_lines_invariant [where P = ids_apart, OF _ assms(2) a])
       (rule readelf_line_ids_apart)
  with f show ?thesis by (rule flush_ids_apart [rotated])
qed

text \<open>
  C10. Source files are registered under the text of the abbreviation number of the
  header line, while the source id of a symbol is the integer \<open>int\<close> returned for the
  declaring-file attribute (or \<open>None\<close>). So, when the debug information phase starts
  with source files registered under texts only (none yet, in a construction) and no
  symbol carrying a text as source id, then after it, for every output of the tool, every
  key of \<open>source_files\<close> is a text, no source id of a symbol is, and looking a symbol's
  source id up in \<open>source_files\<close> finds nothing.
\<close>

theorem source_ids_never_source_file_keys:
  assumes "\<forall>k \<in> dom (source_files b). is_text k" and "\<forall>r. \<not> is_text (source_id (heap w r))"
    and "gatherDebugInformation e w b = (w', Inr b')"
  shows "(\<forall>k \<in> dom (source_files b'). is_text k)
       \<and> (\<forall>r. \<not> is_text (source_id (heap w' r)))
       \<and> (\<forall>r. source_id (heap w' r) \<notin> dom (source_files b'))
       \<and> (\<forall>r. source_files b' (source_id (heap w' r)) = None)"
proof -
  let ?w1 = "fst (readReadelfOutput e b w)"
  let ?out = "snd (readReadelfOutput e b w)"
  from assms(3) obtain d' where
    p: "parseReadelfOutput ?out ?w1 (new_debug_collector, b) = (w', Inr (d', b'))"
    by (auto simp: gatherDebugInformation_def split: prod.splits sum.splits)
  have "ids_apart ?w1 new_debug_collector b"
    using assms(1,2)
    by (simp add: ids_apart_def new_debug_collector_def readReadelfOutput_def run_tool_def)
  from parseReadelfOutput_ids_apart [OF p this] have i: "ids_apart w' d' b'" .
  then have k: "\<forall>k \<in> dom (source_files b'). is_text k"
    and s: "\<forall>r. \<not> is_text (source_id (heap w' r))"
    by (simp_all add: ids_apart_def)
  from k s have n: "\<forall>r. source_id (heap w' r) \<notin> dom (source_files b')" by blast
  then have "\<forall>r. source_files b' (source_id (heap w' r)) = None" by (simp add: domIff)
  with k s n show ?thesis by blast
qed

section \<open>Malformed debug information aborts the construction\<close>

lemma flush_header_tag:
  "flushSymbolInfo b (w, d) = (w', d') \<Longrightarrow> header_tag d' = header_tag d"
  by (auto simp: flushSymbolInfo_def Let_def)

lemma readelf_line_ok:
  assumes "readelf_line l w (d, b) = (w', Inr (d', b'))"
  shows "\<not> malformed_attribute_line (header_tag d) l"
    and "header_tag d' = tag_after (header_tag d) l"
    and "same_config b b'"
proof -
  show "\<not> malformed_attribute_line (header_tag d) l"
    using assms
    by (auto simp: readelf_line_def Let_def malformed_attribute_line_def
        split: option.splits if_splits prod.splits)
  show "header_tag d' = tag_after (header_tag d) l"
    using assms
    by (auto simp: readelf_line_def Let_def tag_after_def
        split: option.splits if_splits prod.splits dest: flush_header_tag)
  show "same_config b b'"
    using assms
    by (auto simp: readelf_line_def Let_def same_config_def registerSourceFile_def
        split: option.splits if_splits prod.splits)
qed

lemma readelf_line_error:
  assumes "readelf_line l w (d, b) = (w', Inl err)"
  shows "is_parse_error err \<longrightarrow> malformed_attribute_line (header_tag d) l"
    and "is_parse_error err \<or> (\<exists>s. err = ValueError s)"
  using assms
  by (auto simp: readelf_line_def Let_def malformed_attribute_line_def is_parse_error_def
      split: option.splits if_splits prod.splits)

lemma readelf_line_malformed:
  assumes "malformed_attribute_line (header_tag d) l"
  shows "\<exists>err. readelf_line l w (d, b) = (w, Inl err) \<and> is_parse_error err"
  using assms
  by (auto simp: readelf_line_def Let_def malformed_attribute_line_def is_parse_error_def
      split: option.splits if_splits prod.splits)

lemma readelf_lines_malformed:
  "has_malformed (header_tag d) ls \<Longrightarrow>
   \<exists>w' err. readelf_lines ls w (d, b) = (w', Inl err)
      \<and> (is_parse_error err \<or> (\<exists>s. err = ValueError s))"
proof (induction ls arbitrary: w d b)
  case Nil
  then show ?case by simp
next
  case (Cons l ls)
  obtain w1 r where r: "readelf_line l w (d, b) = (w1, r)" by (cases "readelf_line l w (d, b)")
  show ?case
  proof (cases r)
    case (Inl err)
    with r readelf_line_error(2) [of l w d b w1 err] show ?thesis by simp
  next
    case (Inr db)
    obtain d1 b1 where db: "db = (d1, b1)" by (cases db)
    from r Inr db have ok: "readelf_line l w (d, b) = (w1, Inr (d1, b1))" by simp
    from readelf_line_ok(1,2) [OF ok] Cons.prems
    have "has_malformed (header_tag d1) ls" by simp
    from Cons.IH [OF this, of w1 b1] ok show ?thesis by simp
  qed
qed

lemma readelf_lines_parse_error:
  "readelf_lines ls w (d, b) = (w', Inl err) \<Longrightarrow> is_parse_error err \<Longrightarrow>
   has_malformed (header_tag d) ls"
proof (induction ls arbitrary: w d b)
  case Nil
  then show ?case by simp
next
  case (Cons l ls)
  obtain w1 r where r: "readelf_line l w (d, b) = (w1, r)" by (cases "readelf_line l w (d, b)")
  show ?case
  proof (cases r)
    case (Inl e1)
    with r Cons.prems have "readelf_line l w (d, b) = (w1, Inl err)" by simp
    from readelf_line_error(1) [OF this] Cons.prems(2) show ?thesis by simp
  next
    case (Inr db)
    obtain d1 b1 where db: "db = (d1, b1)" by (cases db)
    from r Inr db have ok: "readelf_line l w (d, b) = (w1, Inr (d1, b1))" by simp
    with Cons.prems(1) have "readelf_lines ls w1 (d1, b1) = (w', Inl err)" by simp
    from Cons.IH [OF this Cons.prems(2)] readelf_line_ok(2) [OF ok] show ?thesis by simp
  qed
qed

lemma gatherDebugInformation_malformed:
  assumes "has_malformed None (splitlines (tool_output e
              [readelf_command (settings_of b), ''--debug-dump=info'', filename b]))"
  shows "\<exists>w' err. gatherDebugInformation e w b = (w', Inl err)
      \<and> (is_parse_error err \<or> (\<exists>s. err = ValueError s))"
proof -
  let ?w1 = "w\<lparr>invoked := invoked w @ [[readelf_command (settings_of b), ''--debug-dump=info'', filename b]]\<rparr>"
  from assms have "has_malformed (header_tag new_debug_collector) (splitlines (tool_output e
              [readelf_command (settings_of b), ''--debug-dump=info'', filename b]))"
    by (simp add: new_debug_collector_def)
  from readelf_lines_malformed [OF this, of ?w1 b] show ?thesis
    by (auto simp: gatherDebugInformation_def parseReadelfOutput_def readReadelfOutput_def
        run_tool_def)
qed

lemma gatherDebugInformation_parse_error:
  assumes "gatherDebugInformation e w b = (w', Inl err)" "is_parse_error err"
  shows "has_malformed None (splitlines (tool_output e
              [readelf_command (settings_of b), ''--debug-dump=info'', filename b]))"
proof -
  let ?w1 = "w\<lparr>invoked := invoked w @ [[readelf_command (settings_of b), ''--debug-dump=info'', filename b]]\<rparr>"
  let ?ls = "splitlines (tool_output e
              [readelf_command (settings_of b), ''--debug-dump=info'', filename b])"
  from assms(1) have "readelf_lines ?ls ?w1 (new_debug_collector, b) = (w', Inl err)"
    by (auto simp: gatherDebugInformation_def parseReadelfOutput_def readReadelfOutput_def
        run_tool_def split: prod.splits sum.splits)
  from readelf_lines_parse_error [OF this assms(2)] show ?thesis
    by (simp add: new_debug_collector_def)
qed

lemma same_config_refl [simp]: "same_config b b"
  by (simp add: same_config_def)

lemma same_config_trans: "same_config a b \<Longrightarrow> same_config b c \<Longrightarrow> same_config a c"
  by (simp add: same_config_def)

lemma determineBinaryFileFormat_config:
  "determineBinaryFileFormat e w b = (w', b') \<Longrightarrow> same_config b b'"
  by (auto simp: determineBinaryFileFormat_def readObjdumpArchiveHeadersOutput_def run_tool_def
      same_config_def split: option.splits)

lemma determineSymbolSizes_config:
  "\<exists>w' b'. determineSymbolSizes e w b = (w', Inr b') \<and> same_config b b'"
  by (auto simp: determineSymbolSizes_def readSizeOutput_def run_tool_def size_lines_find
      same_config_def split: option.splits)

lemma addSymbol_config: "addSymbol r w b = (w', b') \<Longrightarrow> same_config b b'"
  by (auto simp: addSymbol_def Let_def same_config_def)

lemma nm_pair_config:
  "nm_pair lm ld w b = (w', Inr b') \<Longrightarrow> same_config b b'"
  by (auto simp: nm_pair_def Let_def generateSymbol_def addSymbol_def same_config_def
      split: option.splits prod.splits if_splits)

lemma nm_pair_error:
  "nm_pair lm ld w b = (w', Inl err) \<Longrightarrow> \<not> is_parse_error err"
  by (auto simp: nm_pair_def Let_def generateSymbol_def addSymbol_def is_parse_error_def
      split: option.splits prod.splits if_splits)

lemma nm_pairs_config:
  "nm_pairs ps w b = (w', Inr b') \<Longrightarrow> same_config b b'"
proof (induction ps arbitrary: w b)
  case Nil
  then show ?case by simp
next
  case (Cons p ps)
  obtain lm ld where p: "p = (lm, ld)" by (cases p)
  from Cons.prems p obtain w1 b1 where
    a: "nm_pair lm ld w b = (w1, Inr b1)" and b: "nm_pairs ps w1 b1 = (w', Inr b')"
    by (auto split: prod.splits sum.splits)
  from nm_pair_config [OF a] Cons.IH [OF b] show ?case by (rule same_config_trans)
qed

lemma nm_pairs_error:
  "nm_pairs ps w b = (w', Inl err) \<Longrightarrow> \<not> is_parse_error err"
proof (induction ps arbitrary: w b)
  case Nil
  then show ?case by simp
next
  case (Cons p ps)
  obtain lm ld where p: "p = (lm, ld)" by (cases p)
  obtain w1 r where r: "nm_pair lm ld w b = (w1, r)" by (cases "nm_pair lm ld w b")
  show ?case
  proof (cases r)
    case (Inl e1)
    with r p Cons.prems nm_pair_error [of lm ld w b w1 e1] show ?thesis by simp
  next
    case (Inr b1)
    with r p Cons.prems have "nm_pairs ps w1 b1 = (w', Inl err)" by simp
    from Cons.IH [OF this] show ?thesis .
  qed
qed

lemma gatherSymbolProperties_config:
  "gatherSymbolProperties e w b = (w', Inr b') \<Longrightarrow> same_config b b'"
  by (auto simp: gatherSymbolProperties_def readNMOutput_def run_tool_def same_config_def
      dest!: nm_pairs_config)

lemma gatherSymbolProperties_error:
  "gatherSymbolProperties e w b = (w', Inl err) \<Longrightarrow> \<not> is_parse_error err"
  by (auto simp: gatherSymbolProperties_def readNMOutput_def run_tool_def
      dest: nm_pairs_error)

lemma fold_addSymbol_config:
  "fold (\<lambda>r (w', b'). addSymbol r w' b') rs (w, b) = (w', b') \<Longrightarrow> same_config b b'"
proof (induction rs arbitrary: w b)
  case Nil
  then show ?case by simp
next
  case (Cons r rs)
  obtain w1 b1 where a: "addSymbol r w b = (w1, b1)" by (cases "addSymbol r w b")
  with Cons.prems have "fold (\<lambda>r (w', b'). addSymbol r w' b') rs (w1, b1) = (w', b')" by simp
  from addSymbol_config [OF a] Cons.IH [OF this] show ?case by (rule same_config_trans)
qed

lemma gatherSymbolInstructions_config:
  "gatherSymbolInstructions e w b = (w', b') \<Longrightarrow> same_config b b'"
proof -
  assume a: "gatherSymbolInstructions e w b = (w', b')"
  let ?w1 = "fst (readObjdumpDisassemblyOutput e b w)"
  let ?out = "snd (readObjdumpDisassemblyOutput e b w)"
  let ?wc = "collect_instructions b ?out (?w1, new_collector)"
  obtain w3 b3 where f: "fold (\<lambda>r (w', b'). addSymbol r w' b') (col_symbols (snd ?wc)) (fst ?wc, b)
      = (w3, b3)" by (cases "fold (\<lambda>r (w', b'). addSymbol r w' b') (col_symbols (snd ?wc)) (fst ?wc, b)")
  from fold_addSymbol_config [OF f] have c: "same_config b b3" .
  from a f have "b' = b3\<lparr>instructions_available := Some (length (col_symbols (snd ?wc)) > 0)\<rparr>"
    by (auto simp: gatherSymbolInstructions_def Let_def split: prod.splits if_splits)
  with c show ?thesis by (simp add: same_config_def)
qed

lemma parseSymbols_malformed:
  assumes "has_malformed None (splitlines (tool_output e
              [readelf_command (settings_of b), ''--debug-dump=info'', filename b]))"
  shows "\<exists>w' err. parseSymbols e w b = (w', Inl err)"
proof -
  from determineSymbolSizes_config [of e w b] obtain w1 b1 where
    s: "determineSymbolSizes e w b = (w1, Inr b1)" and c1: "same_config b b1" by blast
  obtain w2 r2 where p: "gatherSymbolProperties e w1 b1 = (w2, r2)"
    by (cases "gatherSymbolProperties e w1 b1")
  show ?thesis
  proof (cases r2)
    case (Inl err)
    with s p show ?thesis by (simp add: parseSymbols_def)
  next
    case (Inr b2)
    with p have p2: "gatherSymbolProperties e w1 b1 = (w2, Inr b2)" by simp
    obtain w3 b3 where i: "gatherSymbolInstructions e w2 b2 = (w3, b3)"
      by (cases "gatherSymbolInstructions e w2 b2")
    from c1 gatherSymbolProperties_config [OF p2] gatherSymbolInstructions_config [OF i]
    have "settings_of b3 = settings_of b" "filename b3 = filename b"
      by (simp_all add: same_config_def)
    with assms gatherDebugInformation_malformed [of e b3 w3] obtain w4 err where
      "gatherDebugInformation e w3 b3 = (w4, Inl err)" by auto
    with s p2 i show ?thesis by (simp add: parseSymbols_def)
  qed
qed

lemma parseSymbols_parse_error:
  assumes "parseSymbols e w b = (w', Inl err)" "is_parse_error err"
  shows "has_malformed None (splitlines (tool_output e
              [readelf_command (settings_of b), ''--debug-dump=info'', filename b]))"
proof -
  from determineSymbolSizes_config [of e w b] obtain w1 b1 where
    s: "determineSymbolSizes e w b = (w1, Inr b1)" and c1: "same_config b b1" by blast
  obtain w2 r2 where p: "gatherSymbolProperties e w1 b1 = (w2, r2)"
    by (cases "gatherSymbolProperties e w1 b1")
  show ?thesis
  proof (cases r2)
    case (Inl e2)
    with s p assms(1) have "gatherSymbolProperties e w1 b1 = (w2, Inl err)"
      by (simp add: parseSymbols_def)
    from gatherSymbolProperties_error [OF this] assms(2) show ?thesis by simp
  next
    case (Inr b2)
    with p have p2: "gatherSymbolProperties e w1 b1 = (w2, Inr b2)" by simp
    obtain w3 b3 where i: "gatherSymbolInstructions e w2 b2 = (w3, b3)"
      by (cases "gatherSymbolInstructions e w2 b2")
    from c1 gatherSymbolProperties_config [OF p2] gatherSymbolInstructions_config [OF i]
    have eq: "settings_of b3 = settings_of b" "filename b3 = filename b"
      by (simp_all add: same_config_def)
    from s p2 i assms(1) have "gatherDebugInformation e w3 b3 = (w', Inl err)"
      by (auto simp: parseSymbols_def split: prod.splits sum.splits)
    from gatherDebugInformation_parse_error [OF this assms(2)] eq show ?thesis by simp
  qed
qed

text \<open>
  C7. An attribute line is malformed when it is a linkage name, or a name under a
  compile unit header, whose value the expected pattern does not match. (1) When the
  output of the debug information tool holds a malformed line, \<open>Binary.__init__\<close> returns
  an error and no \<open>Binary\<close>. (2) When \<open>Binary.__init__\<close> returns one of the two errors of
  the debug information parser, the output holds a malformed line; so with these values
  well shaped throughout, no such error is raised. (3) The debug information phase itself
  then ends with one of these two errors, or with the \<open>ValueError\<close> of an earlier
  attribute line. (4) The parser raises one of the two errors on the malformed line it
  reaches, leaving the world as it is.
\<close>

theorem malformed_debug_attribute_aborts_construction:
  "(has_malformed None (splitlines (tool_output e [readelf_command st, ''--debug-dump=info'', fname]))
      \<longrightarrow> (\<exists>w' err. Binary_init e st si fname sel exc mang w = (w', Inl err)))
   \<and> (\<forall>w' err. Binary_init e st si fname sel exc mang w = (w', Inl err) \<and> is_parse_error err
      \<longrightarrow> has_malformed None
            (splitlines (tool_output e [readelf_command st, ''--debug-dump=info'', fname])))
   \<and> (\<forall>b. has_malformed None (splitlines (tool_output e
              [readelf_command (settings_of b), ''--debug-dump=info'', filename b]))
      \<longrightarrow> (\<exists>w' err. gatherDebugInformation e w b = (w', Inl err)
             \<and> (is_parse_error err \<or> (\<exists>s. err = ValueError s))))
   \<and> (\<forall>line d b. malformed_attribute_line (header_tag d) line
      \<longrightarrow> (\<exists>err. readelf_line line w (d, b) = (w, Inl err) \<and> is_parse_error err))"
proof (intro conjI allI impI)
  assume m: "has_malformed None
      (splitlines (tool_output e [readelf_command st, ''--debug-dump=info'', fname]))"
  show "\<exists>w' err. Binary_init e st si fname sel exc mang w = (w', Inl err)"
  proof (cases "\<exists>s x. compile_optional e sel = Inr s \<and> compile_optional e exc = Inr x
                  \<and> fname \<noteq> [] \<and> isfile e fname")
    case False
    then show ?thesis by (auto simp: Binary_init_def split: sum.splits)
  next
    case True
    then obtain s x where t: "compile_optional e sel = Inr s" "compile_optional e exc = Inr x"
      "fname \<noteq> []" "isfile e fname" by blast
    obtain w1 b1 where f: "determineBinaryFileFormat e w (initial_binary st si fname s x mang)
        = (w1, b1)" by (cases "determineBinaryFileFormat e w (initial_binary st si fname s x mang)")
    from determineBinaryFileFormat_config [OF f]
    have "settings_of b1 = st" "filename b1 = fname"
      by (simp_all add: same_config_def initial_binary_def)
    with m parseSymbols_malformed [of e b1 w1] obtain w' err where
      "parseSymbols e w1 b1 = (w', Inl err)" by auto
    with t f show ?thesis by (simp add: Binary_init_def)
  qed
next
  fix w' err
  assume a: "Binary_init e st si fname sel exc mang w = (w', Inl err) \<and> is_parse_error err"
  then have pe: "is_parse_error err" by simp
  from a obtain s x where t: "compile_optional e sel = Inr s" "compile_optional e exc = Inr x"
      "fname \<noteq> []" "isfile e fname"
    by (auto simp: Binary_init_def is_parse_error_def compile_optional_def
        split: sum.splits if_splits option.splits)
  obtain w1 b1 where f: "determineBinaryFileFormat e w (initial_binary st si fname s x mang)
      = (w1, b1)" by (cases "determineBinaryFileFormat e w (initial_binary st si fname s x mang)")
  from determineBinaryFileFormat_config [OF f]
  have eq: "settings_of b1 = st" "filename b1 = fname"
    by (simp_all add: same_config_def initial_binary_def)
  from a t f have "parseSymbols e w1 b1 = (w', Inl err)" by (simp add: Binary_init_def)
  from parseSymbols_parse_error [OF this pe] eq
  show "has_malformed None
      (splitlines (tool_output e [readelf_command st, ''--debug-dump=info'', fname]))" by simp
next
  fix b :: binary
  assume "has_malformed None (splitlines (tool_output e
              [readelf_command (settings_of b), ''--debug-dump=info'', filename b]))"
  then show "\<exists>w' err. gatherDebugInformation e w b = (w', Inl err)
             \<and> (is_parse_error err \<or> (\<exists>s. err = ValueError s))"
    by (rule gatherDebugInformation_malformed)
next
  fix line and d :: debug_collector and b :: binary
  assume "malformed_attribute_line (header_tag d) line"
  then show "\<exists>err. readelf_line line w (d, b) = (w, Inl err) \<and> is_parse_error err"
    by (rule readelf_line_malformed)
qed

section \<open>The dictionary of symbols\<close>

lemma submitSymbol_refs: "collector_refs (submitSymbol c) = collector_refs c"
  by (auto simp: submitSymbol_def collector_refs_def split: option.splits)

lemma checkSymbolHeaderLine_refs:
  "checkSymbolHeaderLine b l c = (h, c') \<Longrightarrow>
   collector_refs c' \<subseteq> collector_refs c \<union> snd ` set (symbols b)
   \<and> n_instruction_lines c' = n_instruction_lines c"
  by (auto simp: checkSymbolHeaderLine_def Let_def submitSymbol_def collector_refs_def
      split: option.splits if_splits dest: map_of_ref_in)

lemma instruction_step_frame:
  assumes "instruction_step b l (w, c) = (w', c')"
  shows "next_ref w' = next_ref w" "invoked w' = invoked w" "warnings w' = warnings w"
    "\<forall>r. name_mangled (heap w' r) = name_mangled (heap w r)"
    "\<forall>r. r \<notin> collector_refs c \<union> snd ` set (symbols b) \<longrightarrow> heap w' r = heap w r"
    "collector_refs c' \<subseteq> collector_refs c \<union> snd ` set (symbols b)"
proof -
  obtain h c1 where ch: "checkSymbolHeaderLine b (unifyInstructionLine b l) c = (h, c1)"
    by (cases "checkSymbolHeaderLine b (unifyInstructionLine b l) c")
  note r1 = checkSymbolHeaderLine_refs [OF ch]
  have cr: "\<And>c2 r. cur_symbol c2 = Some r \<Longrightarrow> r \<in> collector_refs c2"
    by (simp add: collector_refs_def)
  have cn: "\<And>c2 n. collector_refs (c2\<lparr>n_instruction_lines := n\<rparr>) = collector_refs c2"
    by (simp add: collector_refs_def)
  from assms ch show "next_ref w' = next_ref w" "invoked w' = invoked w" "warnings w' = warnings w"
    by (auto simp: instruction_step_def Let_def split: option.splits if_splits)
  from assms ch show "\<forall>r. name_mangled (heap w' r) = name_mangled (heap w r)"
    by (auto simp: instruction_step_def Let_def addInstructions_def split: option.splits if_splits)
  from assms ch r1 show "collector_refs c' \<subseteq> collector_refs c \<union> snd ` set (symbols b)"
    by (auto simp: instruction_step_def Let_def cn split: option.splits if_splits)
  from assms ch r1 show "\<forall>r. r \<notin> collector_refs c \<union> snd ` set (symbols b) \<longrightarrow> heap w' r = heap w r"
    by (auto simp: instruction_step_def Let_def cn split: option.splits if_splits dest!: cr)
qed

lemma fold_instruction_step_frame:
  assumes "snd ` set (symbols b) \<subseteq> R" "collector_refs c \<subseteq> R"
    "fold (instruction_step b) ls (w, c) = (w', c')"
  shows "next_ref w' = next_ref w \<and> invoked w' = invoked w \<and> warnings w' = warnings w
    \<and> (\<forall>r. name_mangled (heap w' r) = name_mangled (heap w r))
    \<and> (\<forall>r. r \<notin> R \<longrightarrow> heap w' r = heap w r) \<and> collector_refs c' \<subseteq> R"
  using assms(2,3)
proof (induction ls arbitrary: w c)
  case Nil
  then show ?case by simp
next
  case (Cons l ls)
  obtain w1 c1 where s: "instruction_step b l (w, c) = (w1, c1)"
    by (cases "instruction_step b l (w, c)")
  note f = instruction_step_frame [OF s]
  from f(6) Cons.prems(1) assms(1) have r1: "collector_refs c1 \<subseteq> R" by blast
  from Cons.prems(2) s have "fold (instruction_step b) ls (w1, c1) = (w', c')" by simp
  note ih = Cons.IH [OF r1 this]
  have "\<And>r. r \<notin> R \<Longrightarrow> heap w1 r = heap w r"
    using f(5) Cons.prems(1) assms(1) by blast
  with ih f(1-4) show ?case by simp
qed

lemma collect_instructions_frame:
  assumes "collect_instructions b out (w, new_collector) = (w', c')"
  shows "next_ref w' = next_ref w \<and> invoked w' = invoked w \<and> warnings w' = warnings w
    \<and> (\<forall>r. name_mangled (heap w' r) = name_mangled (heap w r))
    \<and> (\<forall>r. r \<notin> snd ` set (symbols b) \<longrightarrow> heap w' r = heap w r)
    \<and> set (col_symbols c') \<subseteq> snd ` set (symbols b)"
proof -
  obtain w1 c1 where f: "fold (instruction_step b) (splitlines out) (w, new_collector) = (w1, c1)"
    by (cases "fold (instruction_step b) (splitlines out) (w, new_collector)")
  have "collector_refs new_collector \<subseteq> snd ` set (symbols b)"
    by (simp add: collector_refs_def new_collector_def)
  from fold_instruction_step_frame [OF subset_refl this f]
  have p: "next_ref w1 = next_ref w \<and> invoked w1 = invoked w \<and> warnings w1 = warnings w
    \<and> (\<forall>r. name_mangled (heap w1 r) = name_mangled (heap w r))
    \<and> (\<forall>r. r \<notin> snd ` set (symbols b) \<longrightarrow> heap w1 r = heap w r)
    \<and> collector_refs c1 \<subseteq> snd ` set (symbols b)" .
  from assms f have e: "w' = w1" "c' = (if cur_symbol c1 \<noteq> None then submitSymbol c1 else c1)"
    by (simp_all add: collect_instructions_def)
  then have "collector_refs c' = collector_refs c1" by (simp add: submitSymbol_refs)
  then have "set (col_symbols c') \<subseteq> collector_refs c1" by (auto simp: collector_refs_def)
  with p e show ?thesis by auto
qed

lemma addSymbol_known:
  assumes "symbols_ok w b" "init_keeps_name b" "r \<in> snd ` set (symbols b)"
    "addSymbol r w b = (w', b')"
  shows "symbols b' = symbols b" "next_ref w' = next_ref w" "symbols_ok w' b'"
    "init_keeps_name b'" "invoked w' = invoked w" "warnings w' = warnings w"
    "\<forall>q. name_mangled (heap w' q) = name_mangled (heap w q)"
    "\<forall>q. q \<noteq> r \<longrightarrow> heap w' q = heap w q"
proof -
  from assms(3) obtain k where k: "(k, r) \<in> set (symbols b)" by auto
  with assms(1) have nm: "name_mangled (heap w r) = k" and d: "distinct (map fst (symbols b))"
    by (auto simp: symbols_ok_def)
  from d k have m: "map_of (symbols b) k = Some r" by simp
  have w': "w' = w\<lparr>heap := (heap w)(r := symbol_init b (heap w r))\<rparr>"
    using assms(4) by (simp add: addSymbol_def Let_def)
  have "name_mangled (symbol_init b (heap w r)) = k"
    using assms(2) nm by (simp add: init_keeps_name_def)
  then have b': "b' = b\<lparr>symbols := AList.update k r (symbols b)\<rparr>"
    using assms(4) by (simp add: addSymbol_def Let_def)
  show s: "symbols b' = symbols b" using b' m by (simp add: update_triv)
  show "next_ref w' = next_ref w" "invoked w' = invoked w" "warnings w' = warnings w"
    using w' by simp_all
  show n: "\<forall>q. name_mangled (heap w' q) = name_mangled (heap w q)"
    using w' assms(2) by (simp add: init_keeps_name_def)
  show "\<forall>q. q \<noteq> r \<longrightarrow> heap w' q = heap w q" using w' by simp
  show "symbols_ok w' b'"
    using assms(1) s n w' by (auto simp: symbols_ok_def)
  show "init_keeps_name b'" using assms(2) b' by (simp add: init_keeps_name_def)
qed

lemma fold_addSymbol_known:
  assumes "symbols_ok w b" "init_keeps_name b" "set rs \<subseteq> snd ` set (symbols b)"
    "fold (\<lambda>r (w', b'). addSymbol r w' b') rs (w, b) = (w', b')"
  shows "symbols b' = symbols b \<and> next_ref w' = next_ref w \<and> symbols_ok w' b'
    \<and> invoked w' = invoked w \<and> warnings w' = warnings w
    \<and> (\<forall>q. name_mangled (heap w' q) = name_mangled (heap w q))
    \<and> (\<forall>q. q \<notin> snd ` set (symbols b) \<longrightarrow> heap w' q = heap w q)"
  using assms
proof (induction rs arbitrary: w b)
  case Nil
  then show ?case by simp
next
  case (Cons r rs)
  obtain w1 b1 where a: "addSymbol r w b = (w1, b1)" by (cases "addSymbol r w b")
  from Cons.prems(3) have r: "r \<in> snd ` set (symbols b)" by simp
  note k = addSymbol_known [OF Cons.prems(1,2) r a]
  from Cons.prems(3) k(1) have rs: "set rs \<subseteq> snd ` set (symbols b1)" by simp
  from Cons.prems(4) a have "fold (\<lambda>r (w', b'). addSymbol r w' b') rs (w1, b1) = (w', b')"
    by simp
  from Cons.IH [OF k(3,4) rs this] k r show ?case by auto
qed

lemma gatherSymbolInstructions_keys:
  assumes "symbols_ok w b" "init_keeps_name b" "gatherSymbolInstructions e w b = (w', b')"
  shows "symbols b' = symbols b" "next_ref w' = next_ref w" "symbols_ok w' b'"
    "\<forall>q. name_mangled (heap w' q) = name_mangled (heap w q)"
    "\<forall>q. q \<notin> snd ` set (symbols b) \<longrightarrow> heap w' q = heap w q"
proof -
  let ?w1 = "fst (readObjdumpDisassemblyOutput e b w)"
  let ?out = "snd (readObjdumpDisassemblyOutput e b w)"
  obtain w2 c where c: "collect_instructions b ?out (?w1, new_collector) = (w2, c)"
    by (cases "collect_instructions b ?out (?w1, new_collector)")
  obtain w3 b3 where f: "fold (\<lambda>r (w', b'). addSymbol r w' b') (col_symbols c) (w2, b) = (w3, b3)"
    by (cases "fold (\<lambda>r (w', b'). addSymbol r w' b') (col_symbols c) (w2, b)")
  have w1: "next_ref ?w1 = next_ref w" "heap ?w1 = heap w"
    by (simp_all add: readObjdumpDisassemblyOutput_def run_tool_def)
  note cf = collect_instructions_frame [OF c]
  from assms(1) cf w1 have ok2: "symbols_ok w2 b" by (auto simp: symbols_ok_def)
  from cf have rs: "set (col_symbols c) \<subseteq> snd ` set (symbols b)" by simp
  note af = fold_addSymbol_known [OF ok2 assms(2) rs f]
  from assms(3) c f have e: "symbols b' = symbols b3" "next_ref w' = next_ref w3"
    "heap w' = heap w3"
    by (auto simp: gatherSymbolInstructions_def Let_def warning_def split: prod.splits if_splits)
  from e af show "symbols b' = symbols b" by simp
  from e af cf w1 show "next_ref w' = next_ref w" by simp
  from af have "symbols_ok w3 b3" by simp
  then show "symbols_ok w' b'" unfolding symbols_ok_def e .
  from e af cf w1 show "\<forall>q. name_mangled (heap w' q) = name_mangled (heap w q)" by simp
  from e af cf w1 show "\<forall>q. q \<notin> snd ` set (symbols b) \<longrightarrow> heap w' q = heap w q" by simp
qed

lemma header_of_absent_symbol:
  assumes "re_match header_line_re (unifyInstructionLine b l) = Some m"
    "map_of (symbols b) (group m 2) = None"
  shows "\<exists>c'. instruction_step b l (w, c) = (w, c') \<and> cur_symbol c' = None
     \<and> n_instruction_lines c' = n_instruction_lines c"
  using assms
  by (auto simp: instruction_step_def checkSymbolHeaderLine_def Let_def submitSymbol_def
      split: option.splits)

lemma dropped_line:
  assumes "cur_symbol c = None" "\<not> names_known_symbol b l"
  shows "\<exists>c'. instruction_step b l (w, c) = (w, c') \<and> cur_symbol c' = None
     \<and> col_symbols c' = col_symbols c"
  using assms
  by (auto simp: instruction_step_def checkSymbolHeaderLine_def Let_def names_known_symbol_def
      split: option.splits)

lemma dropped_lines:
  assumes "cur_symbol c = None" "\<forall>l \<in> set ls. \<not> names_known_symbol b l"
  shows "\<exists>c'. fold (instruction_step b) ls (w, c) = (w, c') \<and> cur_symbol c' = None
     \<and> col_symbols c' = col_symbols c"
  using assms
proof (induction ls arbitrary: c)
  case Nil
  then show ?case by simp
next
  case (Cons l ls)
  from Cons.prems have "\<not> names_known_symbol b l" by simp
  from dropped_line [OF Cons.prems(1) this, of w] obtain c1 where
    s: "instruction_step b l (w, c) = (w, c1)" "cur_symbol c1 = None"
       "col_symbols c1 = col_symbols c" by blast
  from Cons.prems(2) have "\<forall>l \<in> set ls. \<not> names_known_symbol b l" by simp
  from Cons.IH [OF s(2) this] s show ?case by auto
qed

lemma gatherDebugInformation_same_symbols:
  assumes "gatherDebugInformation e w b = (w', Inr b')"
  shows "same_symbols w b w' b'"
proof -
  let ?w1 = "fst (readReadelfOutput e b w)"
  let ?out = "snd (readReadelfOutput e b w)"
  from assms obtain w2 d2 where
    l: "readelf_lines (splitlines ?out) ?w1 (new_debug_collector, b) = (w2, Inr (d2, b'))" and
    f: "flushSymbolInfo b' (w2, d2) = (w', snd (flushSymbolInfo b' (w2, d2)))"
    by (auto simp: gatherDebugInformation_def parseReadelfOutput_def
        split: prod.splits sum.splits)
  have i: "same_symbols w b ?w1 b"
    by (simp add: same_symbols_def readReadelfOutput_def run_tool_def)
  have "same_symbols w b w2 b'"
    by (rule readelf_lines_invariant [where P = "\<lambda>w' d' b'. same_symbols w b w' b'", OF _ i l])
       (rule readelf_line_same_symbols)
  from flush_same_symbols [OF this f] show ?thesis .
qed

lemma symbols_ok_pairs:
  "symbols_ok w b \<Longrightarrow> map_of (symbols b) k = Some r \<Longrightarrow> r < next_ref w \<and> name_mangled (heap w r) = k"
  by (auto simp: symbols_ok_def dest: map_of_SomeD)

lemma symbols_okI:
  assumes "distinct (map fst (symbols b))"
    "\<And>k r. map_of (symbols b) k = Some r \<Longrightarrow> r < next_ref w \<and> name_mangled (heap w r) = k"
  shows "symbols_ok w b"
  using assms by (auto simp: symbols_ok_def)

lemma isSymbolSelected_no_patterns: "no_patterns b \<Longrightarrow> isSymbolSelected b n"
  by (simp add: no_patterns_def isSymbolSelected_def)

lemma nm_pair_known:
  assumes "re_match nm_regex lm = Some mm" "re_match nm_regex ld = Some md"
    "py_int (group mm 1) = Some n" "map_of (symbols b) (group mm 3) = Some r"
  shows "nm_pair lm ld w b =
    (w\<lparr>heap := (heap w)(r := (heap w r)\<lparr>symbol_size := n, symbol_type := group mm 2\<rparr>)\<rparr>, Inr b)"
  using assms by (simp add: nm_pair_def Let_def split: prod.splits)

lemma nm_pair_new:
  assumes ok: "symbols_ok w b" and ik: "init_keeps_name b" and np: "no_patterns b"
    and mm: "re_match nm_regex lm = Some mm" and md: "re_match nm_regex ld = Some md"
    and n: "py_int (group mm 1) = Some n" and new: "map_of (symbols b) (group mm 3) = None"
  shows "\<exists>w' b'. nm_pair lm ld w b = (w', Inr b')
      \<and> symbols b' = AList.update (group mm 3) (next_ref w) (symbols b)
      \<and> next_ref w' = Suc (next_ref w)
      \<and> heap w' = (heap w)(next_ref w := symbol_init b
           ((new_symbol (group mm 3) (fst (demangle b (group md 3))) (snd (demangle b (group md 3))))
              \<lparr>symbol_size := n, symbol_type := group mm 2\<rparr>))
      \<and> symbols_ok w' b' \<and> init_keeps_name b' \<and> no_patterns b'"
proof -
  let ?r = "next_ref w"
  let ?s = "symbol_init b
           ((new_symbol (group mm 3) (fst (demangle b (group md 3))) (snd (demangle b (group md 3))))
              \<lparr>symbol_size := n, symbol_type := group mm 2\<rparr>)"
  let ?w' = "w\<lparr>heap := (heap w)(?r := ?s), next_ref := Suc ?r\<rparr>"
  let ?b' = "b\<lparr>symbols := AList.update (group mm 3) ?r (symbols b)\<rparr>"
  have nm: "name_mangled ?s = group mm 3"
    using ik by (simp add: init_keeps_name_def new_symbol_def)
  have sel: "isSymbolSelected b (fst (demangle b (group md 3)))"
    using np by (rule isSymbolSelected_no_patterns)
  have e: "nm_pair lm ld w b = (?w', Inr ?b')"
    using mm md n new sel nm
    by (simp add: nm_pair_def Let_def generateSymbol_def addSymbol_def split_beta)
  have d: "distinct (map fst (symbols ?b'))"
    using ok by (simp add: symbols_ok_def distinct_update)
  have "symbols_ok ?w' ?b'"
  proof (rule symbols_okI [OF d])
    fix k r
    assume "map_of (symbols ?b') k = Some r"
    then have c: "(k = group mm 3 \<and> r = ?r) \<or> (k \<noteq> group mm 3 \<and> map_of (symbols b) k = Some r)"
      by (auto simp: update_conv' split: if_splits)
    then show "r < next_ref ?w' \<and> name_mangled (heap ?w' r) = k"
    proof
      assume "k = group mm 3 \<and> r = ?r"
      then show ?thesis using nm by simp
    next
      assume "k \<noteq> group mm 3 \<and> map_of (symbols b) k = Some r"
      with symbols_ok_pairs [OF ok] have "r < ?r \<and> name_mangled (heap w r) = k" by blast
      then show ?thesis by simp
    qed
  qed
  moreover have "init_keeps_name ?b'" using ik by (simp add: init_keeps_name_def)
  moreover have "no_patterns ?b'" using np by (simp add: no_patterns_def)
  ultimately show ?thesis using e by simp
qed

lemma listed_names_Cons:
  "listed_names (l # ls) =
     (case re_match nm_regex l of None \<Rightarrow> listed_names ls | Some m \<Rightarrow> group m 3 # listed_names ls)"
  by (simp add: listed_names_def List.map_filter_simps split: option.splits)

lemma listed_names_Nil [simp]: "listed_names [] = []"
  by (simp add: listed_names_def List.map_filter_simps)

lemma map_of_key_in: "map_of al k = Some r \<Longrightarrow> k \<in> set (map fst al)"
  by (force dest: map_of_SomeD)

lemma nm_pair_wellformed:
  assumes ok: "symbols_ok w b" and ik: "init_keeps_name b" and np: "no_patterns b"
    and wf: "wellformed_nm_pair (lm, ld)"
  shows "\<exists>w' b'. nm_pair lm ld w b = (w', Inr b')
      \<and> symbols_ok w' b' \<and> init_keeps_name b' \<and> no_patterns b'
      \<and> set (map fst (symbols b')) = set (map fst (symbols b)) \<union> set (listed_names [lm])
      \<and> next_ref w' + length (symbols b) = next_ref w + length (symbols b')"
proof (cases "re_match nm_regex lm")
  case None
  with ok ik np show ?thesis by (simp add: nm_pair_def listed_names_Cons listed_names_def
      List.map_filter_simps)
next
  case (Some mm)
  with wf obtain md n where md: "re_match nm_regex ld = Some md" and n: "py_int (group mm 1) = Some n"
    by (auto simp: wellformed_nm_pair_def)
  have ln: "set (listed_names [lm]) = {group mm 3}"
    using Some by (simp add: listed_names_Cons listed_names_def List.map_filter_simps)
  show ?thesis
  proof (cases "map_of (symbols b) (group mm 3)")
    case None
    from nm_pair_new [OF ok ik np Some md n None] obtain w' b' where
      r: "nm_pair lm ld w b = (w', Inr b')"
         "symbols b' = AList.update (group mm 3) (next_ref w) (symbols b)"
         "next_ref w' = Suc (next_ref w)" "symbols_ok w' b'" "init_keeps_name b'" "no_patterns b'"
      by blast
    from None have notin: "group mm 3 \<notin> set (map fst (symbols b))"
      by (simp add: map_of_eq_None_iff)
    have k: "map fst (symbols b') = map fst (symbols b) @ [group mm 3]"
      using r(2) notin by (simp add: update_keys)
    have len: "length (symbols b') = Suc (length (symbols b))"
      using arg_cong [OF k, of length] by simp
    have ks: "set (map fst (symbols b')) = set (map fst (symbols b)) \<union> {group mm 3}"
      using arg_cong [OF k, of set] by simp
    show ?thesis using r(1,3-6) ks len ln by simp
  next
    case (Some r)
    let ?w' = "w\<lparr>heap := (heap w)(r := (heap w r)\<lparr>symbol_size := n, symbol_type := group mm 2\<rparr>)\<rparr>"
    from nm_pair_known [OF \<open>re_match nm_regex lm = Some mm\<close> md n Some]
    have e: "nm_pair lm ld w b = (?w', Inr b)" .
    have "symbols_ok ?w' b" using ok by (auto simp: symbols_ok_def)
    moreover have "group mm 3 \<in> set (map fst (symbols b))" using Some by (rule map_of_key_in)
    ultimately show ?thesis using e ik np ln by auto
  qed
qed

lemma nm_pairs_wellformed:
  assumes "symbols_ok w b" "init_keeps_name b" "no_patterns b" "list_all wellformed_nm_pair ps"
  shows "\<exists>w' b'. nm_pairs ps w b = (w', Inr b')
      \<and> symbols_ok w' b' \<and> init_keeps_name b' \<and> no_patterns b'
      \<and> set (map fst (symbols b')) = set (map fst (symbols b)) \<union> set (listed_names (map fst ps))
      \<and> next_ref w' + length (symbols b) = next_ref w + length (symbols b')"
  using assms
proof (induction ps arbitrary: w b)
  case Nil
  then show ?case by (simp add: listed_names_def List.map_filter_simps)
next
  case (Cons p ps)
  obtain lm ld where p: "p = (lm, ld)" by (cases p)
  from Cons.prems(4) p have wf: "wellformed_nm_pair (lm, ld)" and wfs: "list_all wellformed_nm_pair ps"
    by simp_all
  from nm_pair_wellformed [OF Cons.prems(1-3) wf] obtain w1 b1 where
    s: "nm_pair lm ld w b = (w1, Inr b1)" "symbols_ok w1 b1" "init_keeps_name b1" "no_patterns b1"
       "set (map fst (symbols b1)) = set (map fst (symbols b)) \<union> set (listed_names [lm])"
       "next_ref w1 + length (symbols b) = next_ref w + length (symbols b1)"
    by blast
  from Cons.IH [OF s(2-4) wfs] obtain w' b' where
    t: "nm_pairs ps w1 b1 = (w', Inr b')" "symbols_ok w' b'" "init_keeps_name b'" "no_patterns b'"
       "set (map fst (symbols b')) = set (map fst (symbols b1)) \<union> set (listed_names (map fst ps))"
       "next_ref w' + length (symbols b1) = next_ref w1 + length (symbols b')"
    by blast
  have "set (listed_names (map fst (p # ps))) = set (listed_names [lm]) \<union> set (listed_names (map fst ps))"
    using p by (simp add: listed_names_Cons split: option.splits)
  with s t p show ?case by auto
qed

text \<open>
  C9. Without selection and exclusion pattern, on a well formed size listing output (both
  outputs have the same number of lines, every matching mangled line has a matching
  demangled line and a decimal size), \<open>Binary._gatherSymbolProperties\<close> returns, and the
  keys of \<open>symbols\<close> are then pairwise distinct and are exactly the keys it had before
  (none, in a construction) together with the mangled names of the matching lines; one
  symbol object was created for each new key. A line whose mangled name is already a key
  creates nothing: the dictionary is left as it is and the object under that key gets the
  size and the kind of the line.
\<close>

theorem size_listing_names_once:
  "(no_patterns b \<and> init_keeps_name b \<and> symbols_ok w b
      \<and> wellformed_nm_output
           (tool_output e [nm_command (settings_of b), ''--print-size'', ''--size-sort'',
              ''--radix=d'', [], filename b])
           (tool_output e [nm_command (settings_of b), ''--print-size'', ''--size-sort'',
              ''--radix=d'', ''-C'', filename b])
    \<longrightarrow> (\<exists>w' b'. gatherSymbolProperties e w b = (w', Inr b')
          \<and> distinct (map fst (symbols b'))
          \<and> set (map fst (symbols b')) = set (map fst (symbols b)) \<union>
               set (listed_names (splitlines (tool_output e [nm_command (settings_of b),
                  ''--print-size'', ''--size-sort'', ''--radix=d'', [], filename b])))
          \<and> next_ref w' + length (symbols b) = next_ref w + length (symbols b')
          \<and> symbols_ok w' b'))
   \<and> (\<forall>lm ld mm md n r. re_match nm_regex lm = Some mm \<and> re_match nm_regex ld = Some md
          \<and> py_int (group mm 1) = Some n \<and> map_of (symbols b) (group mm 3) = Some r
        \<longrightarrow> nm_pair lm ld w b =
            (w\<lparr>heap := (heap w)(r := (heap w r)\<lparr>symbol_size := n, symbol_type := group mm 2\<rparr>)\<rparr>,
             Inr b))"
proof (intro conjI impI allI)
  let ?om = "tool_output e [nm_command (settings_of b), ''--print-size'', ''--size-sort'',
              ''--radix=d'', [], filename b]"
  let ?od = "tool_output e [nm_command (settings_of b), ''--print-size'', ''--size-sort'',
              ''--radix=d'', ''-C'', filename b]"
  assume a: "no_patterns b \<and> init_keeps_name b \<and> symbols_ok w b \<and> wellformed_nm_output ?om ?od"
  let ?w2 = "w\<lparr>invoked := (invoked w @ [[nm_command (settings_of b), ''--print-size'',
      ''--size-sort'', ''--radix=d'', [], filename b]]) @ [[nm_command (settings_of b),
      ''--print-size'', ''--size-sort'', ''--radix=d'', ''-C'', filename b]]\<rparr>"
  let ?b0 = "b\<lparr>num_symbols_dropped := 0\<rparr>"
  let ?ps = "zip (splitlines ?om) (splitlines ?od)"
  from a have ok: "symbols_ok ?w2 ?b0" and ik: "init_keeps_name ?b0" and np: "no_patterns ?b0"
    by (simp_all add: symbols_ok_def init_keeps_name_def no_patterns_def)
  from a have wf: "list_all wellformed_nm_pair ?ps"
    and len: "length (splitlines ?om) = length (splitlines ?od)"
    by (simp_all add: wellformed_nm_output_def)
  from len have m: "map fst ?ps = splitlines ?om" by simp
  from nm_pairs_wellformed [OF ok ik np wf] obtain w' b' where
    r: "nm_pairs ?ps ?w2 ?b0 = (w', Inr b')" "symbols_ok w' b'"
       "set (map fst (symbols b')) = set (map fst (symbols ?b0)) \<union> set (listed_names (map fst ?ps))"
       "next_ref w' + length (symbols ?b0) = next_ref ?w2 + length (symbols b')"
    by blast
  have g: "gatherSymbolProperties e w b = (w', Inr b')"
    using r(1) by (simp add: gatherSymbolProperties_def readNMOutput_def run_tool_def)
  from r(2) have d: "distinct (map fst (symbols b'))" by (simp add: symbols_ok_def)
  from r(3) have k: "set (map fst (symbols b')) = set (map fst (symbols b)) \<union>
      set (listed_names (splitlines ?om))" unfolding m by simp
  from r(4) have c: "next_ref w' + length (symbols b) = next_ref w + length (symbols b')" by simp
  from g d k c r(2)
  show "\<exists>w' b'. gatherSymbolProperties e w b = (w', Inr b')
          \<and> distinct (map fst (symbols b'))
          \<and> set (map fst (symbols b')) = set (map fst (symbols b)) \<union>
               set (listed_names (splitlines ?om))
          \<and> next_ref w' + length (symbols b) = next_ref w + length (symbols b')
          \<and> symbols_ok w' b'" by blast
next
  fix lm ld mm md n r
  assume "re_match nm_regex lm = Some mm \<and> re_match nm_regex ld = Some md
          \<and> py_int (group mm 1) = Some n \<and> map_of (symbols b) (group mm 3) = Some r"
  then show "nm_pair lm ld w b =
      (w\<lparr>heap := (heap w)(r := (heap w r)\<lparr>symbol_size := n, symbol_type := group mm 2\<rparr>)\<rparr>, Inr b)"
    by (auto intro: nm_pair_known)
qed

lemma flush_exact:
  "fst (flushSymbolInfo b (w, d)) =
     (case pending_name_mangled d of
        None \<Rightarrow> w
      | Some nm \<Rightarrow>
          (case map_of (symbols b) nm of
             None \<Rightarrow> w
           | Some r \<Rightarrow> w\<lparr>heap := (heap w)(r := (heap w r)\<lparr>source_id := pending_source_id d,
                 source_line := pending_source_line d,
                 source_column := pending_source_column d\<rparr>)\<rparr>))"
  "pending_name_mangled (snd (flushSymbolInfo b (w, d))) = None"
  by (simp_all add: flushSymbolInfo_def Let_def split: option.splits)

lemma written_by_name_refl: "written_by_name N syms w w"
  by (simp add: written_by_name_def)

lemma flush_written_by_name:
  assumes "written_by_name N (symbols b) w0 w" "\<forall>nm. pending_name_mangled d = Some nm \<longrightarrow> nm \<in> N"
    "flushSymbolInfo b (w, d) = (w', d')"
  shows "written_by_name N (symbols b) w0 w'" "pending_name_mangled d' = None"
proof -
  from assms(3) have w': "w' = fst (flushSymbolInfo b (w, d))"
    and d': "d' = snd (flushSymbolInfo b (w, d))" by simp_all
  show "pending_name_mangled d' = None" unfolding d' by (rule flush_exact(2))
  show "written_by_name N (symbols b) w0 w'"
  proof (cases "pending_name_mangled d")
    case None
    with assms(1) show ?thesis by (simp add: w' flush_exact(1))
  next
    case (Some nm)
    with assms(2) have nm: "nm \<in> N" by simp
    show ?thesis
    proof (cases "map_of (symbols b) nm")
      case None
      with Some assms(1) show ?thesis by (simp add: w' flush_exact(1))
    next
      case (Some r)
      have h: "heap w' = (heap w)(r := (heap w r)\<lparr>source_id := pending_source_id d,
                 source_line := pending_source_line d,
                 source_column := pending_source_column d\<rparr>)"
        using Some \<open>pending_name_mangled d = Some nm\<close> by (simp add: w' flush_exact(1))
      from assms(1) have a: "\<And>q. heap w q \<noteq> heap w0 q \<Longrightarrow> \<exists>nm \<in> N. map_of (symbols b) nm = Some q"
        and f: "\<And>q. heap w q = (heap w0 q)\<lparr>source_id := source_id (heap w q),
              source_line := source_line (heap w q), source_column := source_column (heap w q)\<rparr>"
        by (simp_all add: written_by_name_def)
      show ?thesis
        unfolding written_by_name_def
      proof (intro conjI allI impI)
        fix q
        assume "heap w' q \<noteq> heap w0 q"
        then show "\<exists>nm \<in> N. map_of (symbols b) nm = Some q"
          using h a [of q] nm Some by (cases "q = r") auto
      next
        fix q
        show "heap w' q = (heap w0 q)\<lparr>source_id := source_id (heap w' q),
              source_line := source_line (heap w' q), source_column := source_column (heap w' q)\<rparr>"
        proof (cases "q = r")
          case False
          with h f [of q] show ?thesis by simp
        next
          case True
          have "heap w r = (heap w0 r)\<lparr>source_id := source_id (heap w r),
              source_line := source_line (heap w r), source_column := source_column (heap w r)\<rparr>"
            by (rule f)
          then have "(\<lambda>s. s\<lparr>source_id := x, source_line := y, source_column := z\<rparr>) (heap w r)
              = (\<lambda>s. s\<lparr>source_id := x, source_line := y, source_column := z\<rparr>)
                  ((heap w0 r)\<lparr>source_id := source_id (heap w r),
                     source_line := source_line (heap w r), source_column := source_column (heap w r)\<rparr>)" for x y z
            by (rule arg_cong)
          then have "(heap w r)\<lparr>source_id := x, source_line := y, source_column := z\<rparr>
              = (heap w0 r)\<lparr>source_id := x, source_line := y, source_column := z\<rparr>" for x y z
            by simp
          with h True show ?thesis by simp
        qed
      qed
    qed
  qed
qed


lemma flush_world_header:
  "fst (flushSymbolInfo b (w, d\<lparr>header_id := x, header_tag := y\<rparr>)) = fst (flushSymbolInfo b (w, d))"
  by (simp add: flush_exact(1) split: option.splits)

lemma readelf_line_world:
  "fst (readelf_line line w (d, b)) =
     (if re_match dbg_header_line_regex line = None then w else fst (flushSymbolInfo b (w, d)))"
proof (cases "re_match dbg_header_line_regex line")
  case None
  then show ?thesis
    by (simp add: readelf_line_def Let_def split: option.splits)
next
  case (Some h)
  then show ?thesis
    by (simp add: readelf_line_def Let_def split_beta flush_world_header)
qed

lemma readelf_line_pending:
  assumes "readelf_line line w (d, b) = (w', Inr (d', b'))"
  shows "symbols b' = symbols b"
    and "pending_name_mangled d' =
      (case re_match dbg_header_line_regex line of
         Some h \<Rightarrow> None
       | None \<Rightarrow> (case linkage_name_of line of
                    Some nm \<Rightarrow> Some nm
                  | None \<Rightarrow> pending_name_mangled d))"
proof -
  show "symbols b' = symbols b"
    using assms
    by (auto simp: readelf_line_def Let_def split_beta registerSourceFile_def
        split: option.splits if_splits)
  show "pending_name_mangled d' =
      (case re_match dbg_header_line_regex line of
         Some h \<Rightarrow> None
       | None \<Rightarrow> (case linkage_name_of line of
                    Some nm \<Rightarrow> Some nm
                  | None \<Rightarrow> pending_name_mangled d))"
  proof (cases "re_match dbg_header_line_regex line")
    case (Some h)
    with assms have "d' = snd (flushSymbolInfo b (w, d\<lparr>header_id := PyStr (group h 1),
        header_tag := Some (group h 2)\<rparr>))"
      by (auto simp: readelf_line_def Let_def split_beta)
    then show ?thesis using Some by (simp add: flush_exact(2))
  next
    case None
    with assms show ?thesis
      by (auto simp: readelf_line_def Let_def linkage_name_of_def
          split: option.splits if_splits)
  qed
qed

lemma readelf_lines_written:
  assumes "written_by_name N syms w0 w" "symbols b = syms"
    "\<forall>nm. pending_name_mangled d = Some nm \<longrightarrow> nm \<in> N"
    "\<forall>l \<in> set ls. \<forall>nm. linkage_name_of l = Some nm \<longrightarrow> nm \<in> N"
  shows "written_by_name N syms w0 (fst (readelf_lines ls w (d, b)))
       \<and> (\<forall>d' b'. snd (readelf_lines ls w (d, b)) = Inr (d', b') \<longrightarrow>
             symbols b' = syms \<and> (\<forall>nm. pending_name_mangled d' = Some nm \<longrightarrow> nm \<in> N))"
  using assms
proof (induction ls arbitrary: w d b)
  case Nil
  then show ?case by simp
next
  case (Cons l ls)
  obtain w1 res where r: "readelf_line l w (d, b) = (w1, res)" by (cases "readelf_line l w (d, b)")
  then have w1: "w1 = fst (readelf_line l w (d, b))" by simp
  have wr: "written_by_name N syms w0 w1"
  proof (cases "re_match dbg_header_line_regex l = None")
    case True
    with Cons.prems(1) show ?thesis by (simp add: w1 readelf_line_world)
  next
    case False
    obtain w2 d2 where f: "flushSymbolInfo b (w, d) = (w2, d2)" by (cases "flushSymbolInfo b (w, d)")
    from flush_written_by_name(1) [OF _ Cons.prems(3) f] Cons.prems(1,2)
    have "written_by_name N syms w0 w2" by simp
    with False f show ?thesis by (auto simp: w1 readelf_line_world)
  qed
  show ?case
  proof (cases res)
    case (Inl err)
    with r wr show ?thesis by simp
  next
    case (Inr db1)
    obtain d1 b1 where db1: "db1 = (d1, b1)" by (cases db1)
    from r Inr db1 have rl: "readelf_line l w (d, b) = (w1, Inr (d1, b1))" by simp
    from readelf_line_pending(1) [OF rl] Cons.prems(2) have s1: "symbols b1 = syms" by simp
    have p1: "\<forall>nm. pending_name_mangled d1 = Some nm \<longrightarrow> nm \<in> N"
      using readelf_line_pending(2) [OF rl] Cons.prems(3,4)
      by (auto split: option.splits)
    from Cons.prems(4) have rest: "\<forall>l \<in> set ls. \<forall>nm. linkage_name_of l = Some nm \<longrightarrow> nm \<in> N"
      by simp
    from Cons.IH [OF wr s1 p1 rest] rl show ?thesis by simp
  qed
qed

lemma parseReadelfOutput_written:
  assumes "\<forall>l \<in> set (splitlines out). \<forall>nm. linkage_name_of l = Some nm \<longrightarrow> nm \<in> N"
  shows "written_by_name N (symbols b) w
           (fst (parseReadelfOutput out w (new_debug_collector, b)))"
proof -
  obtain w1 res where r: "readelf_lines (splitlines out) w (new_debug_collector, b) = (w1, res)"
    by (cases "readelf_lines (splitlines out) w (new_debug_collector, b)")
  have n: "\<forall>nm. pending_name_mangled new_debug_collector = Some nm \<longrightarrow> nm \<in> N"
    by (simp add: new_debug_collector_def)
  from readelf_lines_written [where w = w and b = b, OF written_by_name_refl refl n assms]
  have a: "written_by_name N (symbols b) w w1"
    and c: "\<And>d' b'. res = Inr (d', b') \<Longrightarrow>
        symbols b' = symbols b \<and> (\<forall>nm. pending_name_mangled d' = Some nm \<longrightarrow> nm \<in> N)"
    unfolding r by simp_all
  show ?thesis
  proof (cases res)
    case (Inl err)
    with r have "fst (parseReadelfOutput out w (new_debug_collector, b)) = w1"
      by (simp add: parseReadelfOutput_def)
    with a show ?thesis by simp
  next
    case (Inr db1)
    obtain d1 b1 where db1: "db1 = (d1, b1)" by (cases db1)
    obtain w2 d2 where f: "flushSymbolInfo b1 (w1, d1) = (w2, d2)"
      by (cases "flushSymbolInfo b1 (w1, d1)")
    from c [of d1 b1] Inr db1 have s: "symbols b1 = symbols b"
      and p: "\<forall>nm. pending_name_mangled d1 = Some nm \<longrightarrow> nm \<in> N" by simp_all
    from flush_written_by_name(1) [OF _ p f] a s
    have "written_by_name N (symbols b) w w2" by simp
    moreover have "fst (parseReadelfOutput out w (new_debug_collector, b)) = w2"
      using r Inr db1 f by (simp add: parseReadelfOutput_def)
    ultimately show ?thesis by simp
  qed
qed

lemma gatherDebugInformation_written:
  "written_by_name {nm. \<exists>l \<in> set (debug_lines e b). linkage_name_of l = Some nm}
     (symbols b) w (fst (gatherDebugInformation e w b))"
proof -
  let ?N = "{nm. \<exists>l \<in> set (debug_lines e b). linkage_name_of l = Some nm}"
  let ?w1 = "fst (readReadelfOutput e b w)"
  let ?out = "snd (readReadelfOutput e b w)"
  have o: "splitlines ?out = debug_lines e b"
    by (simp add: readReadelfOutput_def run_tool_def debug_lines_def)
  have h: "heap ?w1 = heap w" by (simp add: readReadelfOutput_def run_tool_def)
  have "\<forall>l \<in> set (splitlines ?out). \<forall>nm. linkage_name_of l = Some nm \<longrightarrow> nm \<in> ?N"
    unfolding o by blast
  from parseReadelfOutput_written [where b = b and w = ?w1, OF this]
  have "written_by_name ?N (symbols b) ?w1
          (fst (parseReadelfOutput ?out ?w1 (new_debug_collector, b)))" .
  moreover have "fst (gatherDebugInformation e w b)
      = fst (parseReadelfOutput ?out ?w1 (new_debug_collector, b))"
    by (simp add: gatherDebugInformation_def split_beta split: prod.splits sum.splits)
  ultimately show ?thesis by (simp add: written_by_name_def h)
qed

lemma flush_changed:
  assumes "heap (fst (flushSymbolInfo b (w, d))) r \<noteq> heap w r"
  shows "\<exists>nm. pending_name_mangled d = Some nm \<and> map_of (symbols b) nm = Some r"
    and "heap (fst (flushSymbolInfo b (w, d))) r =
           (heap w r)\<lparr>source_id := pending_source_id d,
              source_line := pending_source_line d,
              source_column := pending_source_column d\<rparr>"
  using assms by (auto simp: flush_exact(1) split: option.splits if_splits)

lemma symbols_ok_name:
  "symbols_ok w b \<Longrightarrow> map_of (symbols b) nm = Some r \<Longrightarrow> name_mangled (heap w r) = nm"
  by (auto simp: symbols_ok_def dest: map_of_SomeD)


text \<open>
  C2. After the symbol properties are extracted, the keys of \<open>symbols\<close> are never extended.
  (1) From a well formed dictionary, with an \<open>init\<close> that keeps the mangled name, the
  disassembly phase leaves \<open>symbols\<close> as it is and creates no symbol object. (2) A header
  line naming a symbol that is not a key leaves the world as it is and no symbol
  current; (3) while no symbol is current, lines that are no header line of a known
  symbol are dropped: the world stays as it is and nothing is collected. (4) When the
  debug information phase returns, \<open>symbols\<close> is the same dictionary, no symbol object was
  created, no mangled name changed, and only objects of the dictionary were written.
  (5) A flush of the pending debug information changes an object only if a mangled name
  is pending and the object is the one stored in \<open>symbols\<close> under that very name (in a
  well formed dictionary, the object carrying that mangled name); the object then gets
  the pending source id, line and column, and nothing else of it changes. (6) A line of
  the debug information leaves \<open>symbols\<close> as it is; the pending name after it is none
  after a header line, the name of the line if it is a linkage name line, and the
  pending name before it otherwise; and an object changes only at a header line, and it
  is then the one stored under the name that was pending. (7) Over the whole debug
  information phase, whether it returns or raises: an object that changed is stored in
  \<open>symbols\<close> under a name given by a linkage name line of the output (in a well formed
  dictionary, its own mangled name), and every object differs from what it was in its
  source id, line and column at most.
\<close>

theorem symbol_keys_never_extended:
  "(symbols_ok w b \<and> init_keeps_name b \<longrightarrow>
       symbols (snd (gatherSymbolInstructions e w b)) = symbols b
     \<and> next_ref (fst (gatherSymbolInstructions e w b)) = next_ref w
     \<and> symbols_ok (fst (gatherSymbolInstructions e w b)) (snd (gatherSymbolInstructions e w b)))
   \<and> (\<forall>l c m. re_match header_line_re (unifyInstructionLine b l) = Some m
          \<and> map_of (symbols b) (group m 2) = None
        \<longrightarrow> (\<exists>c'. instruction_step b l (w, c) = (w, c') \<and> cur_symbol c' = None))
   \<and> (\<forall>ls c. cur_symbol c = None \<and> (\<forall>l \<in> set ls. \<not> names_known_symbol b l)
        \<longrightarrow> (\<exists>c'. fold (instruction_step b) ls (w, c) = (w, c') \<and> cur_symbol c' = None
               \<and> col_symbols c' = col_symbols c))
   \<and> (\<forall>w' b'. gatherDebugInformation e w b = (w', Inr b') \<longrightarrow> same_symbols w b w' b')
   \<and> (\<forall>d r. heap (fst (flushSymbolInfo b (w, d))) r \<noteq> heap w r \<longrightarrow>
          (\<exists>nm. pending_name_mangled d = Some nm \<and> map_of (symbols b) nm = Some r
              \<and> (symbols_ok w b \<longrightarrow> name_mangled (heap w r) = nm))
        \<and> heap (fst (flushSymbolInfo b (w, d))) r =
            (heap w r)\<lparr>source_id := pending_source_id d,
               source_line := pending_source_line d,
               source_column := pending_source_column d\<rparr>)
   \<and> (\<forall>line d w' d' b'. readelf_line line w (d, b) = (w', Inr (d', b')) \<longrightarrow>
          symbols b' = symbols b
        \<and> pending_name_mangled d' =
            (case re_match dbg_header_line_regex line of
               Some h \<Rightarrow> None
             | None \<Rightarrow> (case linkage_name_of line of
                          Some nm \<Rightarrow> Some nm
                        | None \<Rightarrow> pending_name_mangled d))
        \<and> (\<forall>r. heap w' r \<noteq> heap w r \<longrightarrow>
               re_match dbg_header_line_regex line \<noteq> None
             \<and> (\<exists>nm. pending_name_mangled d = Some nm \<and> map_of (symbols b) nm = Some r)))
   \<and> (\<forall>r. heap (fst (gatherDebugInformation e w b)) r \<noteq> heap w r \<longrightarrow>
          (\<exists>l \<in> set (debug_lines e b). \<exists>nm. linkage_name_of l = Some nm
              \<and> map_of (symbols b) nm = Some r
              \<and> (symbols_ok w b \<longrightarrow> name_mangled (heap w r) = nm)))
   \<and> (\<forall>r. heap (fst (gatherDebugInformation e w b)) r =
          (heap w r)\<lparr>source_id := source_id (heap (fst (gatherDebugInformation e w b)) r),
             source_line := source_line (heap (fst (gatherDebugInformation e w b)) r),
             source_column := source_column (heap (fst (gatherDebugInformation e w b)) r)\<rparr>)"
proof (intro conjI impI allI)
  assume a: "symbols_ok w b \<and> init_keeps_name b"
  obtain w' b' where g: "gatherSymbolInstructions e w b = (w', b')"
    by (cases "gatherSymbolInstructions e w b")
  from a gatherSymbolInstructions_keys(1-3) [OF _ _ g]
  show "symbols (snd (gatherSymbolInstructions e w b)) = symbols b"
    "next_ref (fst (gatherSymbolInstructions e w b)) = next_ref w"
    "symbols_ok (fst (gatherSymbolInstructions e w b)) (snd (gatherSymbolInstructions e w b))"
    by (simp_all add: g)
next
  fix l c m
  assume h: "re_match header_line_re (unifyInstructionLine b l) = Some m
          \<and> map_of (symbols b) (group m 2) = None"
  from header_of_absent_symbol [OF conjunct1 [OF h] conjunct2 [OF h], of w c]
  show "\<exists>c'. instruction_step b l (w, c) = (w, c') \<and> cur_symbol c' = None" by auto
next
  fix ls and c :: collector
  assume h: "cur_symbol c = None \<and> (\<forall>l \<in> set ls. \<not> names_known_symbol b l)"
  show "\<exists>c'. fold (instruction_step b) ls (w, c) = (w, c') \<and> cur_symbol c' = None
               \<and> col_symbols c' = col_symbols c"
    by (rule dropped_lines) (simp_all add: h)
next
  fix w' b'
  assume "gatherDebugInformation e w b = (w', Inr b')"
  then show "same_symbols w b w' b'" by (rule gatherDebugInformation_same_symbols)
next
  fix d r
  assume ne: "heap (fst (flushSymbolInfo b (w, d))) r \<noteq> heap w r"
  from flush_changed(1) [OF ne] obtain nm where
    nm: "pending_name_mangled d = Some nm" "map_of (symbols b) nm = Some r" by blast
  have "symbols_ok w b \<longrightarrow> name_mangled (heap w r) = nm"
    using nm(2) by (blast intro: symbols_ok_name)
  with nm
  show "\<exists>nm. pending_name_mangled d = Some nm \<and> map_of (symbols b) nm = Some r
              \<and> (symbols_ok w b \<longrightarrow> name_mangled (heap w r) = nm)" by blast
  from flush_changed(2) [OF ne]
  show "heap (fst (flushSymbolInfo b (w, d))) r =
            (heap w r)\<lparr>source_id := pending_source_id d,
               source_line := pending_source_line d,
               source_column := pending_source_column d\<rparr>" .
next
  fix line d w' d' b'
  assume rl: "readelf_line line w (d, b) = (w', Inr (d', b'))"
  show "symbols b' = symbols b" by (rule readelf_line_pending(1) [OF rl])
  show "pending_name_mangled d' =
            (case re_match dbg_header_line_regex line of
               Some h \<Rightarrow> None
             | None \<Rightarrow> (case linkage_name_of line of
                          Some nm \<Rightarrow> Some nm
                        | None \<Rightarrow> pending_name_mangled d))"
    by (rule readelf_line_pending(2) [OF rl])
next
  fix line d w' d' b' r
  assume rl: "readelf_line line w (d, b) = (w', Inr (d', b'))"
    and ne: "heap w' r \<noteq> heap w r"
  from rl have w': "w' = fst (readelf_line line w (d, b))" by simp
  from ne show h: "re_match dbg_header_line_regex line \<noteq> None"
    unfolding w' readelf_line_world by (auto split: if_splits)
  with ne have "heap (fst (flushSymbolInfo b (w, d))) r \<noteq> heap w r"
    unfolding w' readelf_line_world by simp
  then show "\<exists>nm. pending_name_mangled d = Some nm \<and> map_of (symbols b) nm = Some r"
    by (rule flush_changed(1))
next
  fix r
  assume ne: "heap (fst (gatherDebugInformation e w b)) r \<noteq> heap w r"
  with gatherDebugInformation_written [of e b w]
  obtain l nm where l: "l \<in> set (debug_lines e b)" "linkage_name_of l = Some nm"
    "map_of (symbols b) nm = Some r"
    unfolding written_by_name_def by blast
  have "symbols_ok w b \<longrightarrow> name_mangled (heap w r) = nm"
    using l(3) by (blast intro: symbols_ok_name)
  with l
  show "\<exists>l \<in> set (debug_lines e b). \<exists>nm. linkage_name_of l = Some nm
              \<and> map_of (symbols b) nm = Some r
              \<and> (symbols_ok w b \<longrightarrow> name_mangled (heap w r) = nm)" by blast
next
  fix r
  from gatherDebugInformation_written [of e b w]
  show "heap (fst (gatherDebugInformation e w b)) r =
          (heap w r)\<lparr>source_id := source_id (heap (fst (gatherDebugInformation e w b)) r),
             source_line := source_line (heap (fst (gatherDebugInformation e w b)) r),
             source_column := source_column (heap (fst (gatherDebugInformation e w b)) r)\<rparr>"
    unfolding written_by_name_def by blast
qed

section \<open>Instruction lines, the warning and the flag\<close>

lemma instruction_step_count:
  "instruction_step b l (w, c) = (w', c') \<Longrightarrow>
   n_instruction_lines c' = n_instruction_lines c + (if recognized_instruction_line b l then 1 else 0)"
  by (auto simp: instruction_step_def checkSymbolHeaderLine_def Let_def submitSymbol_def
      recognized_instruction_line_def split: option.splits if_splits)

lemma instruction_step_has_symbol:
  "instruction_step b l (w, c) = (w', c') \<Longrightarrow>
   (col_symbols c' \<noteq> [] \<or> cur_symbol c' \<noteq> None) =
   ((col_symbols c \<noteq> [] \<or> cur_symbol c \<noteq> None) \<or> names_known_symbol b l)"
  by (auto simp: instruction_step_def checkSymbolHeaderLine_def Let_def submitSymbol_def
      names_known_symbol_def split: option.splits if_splits)

lemma fold_instruction_step_count:
  "fold (instruction_step b) ls (w, c) = (w', c') \<Longrightarrow>
   n_instruction_lines c' = n_instruction_lines c + length (filter (recognized_instruction_line b) ls)
   \<and> (col_symbols c' \<noteq> [] \<or> cur_symbol c' \<noteq> None) =
     ((col_symbols c \<noteq> [] \<or> cur_symbol c \<noteq> None) \<or> (\<exists>l \<in> set ls. names_known_symbol b l))"
proof (induction ls arbitrary: w c)
  case Nil
  then show ?case by simp
next
  case (Cons l ls)
  obtain w1 c1 where s: "instruction_step b l (w, c) = (w1, c1)"
    by (cases "instruction_step b l (w, c)")
  with Cons.prems have "fold (instruction_step b) ls (w1, c1) = (w', c')" by simp
  from Cons.IH [OF this] instruction_step_count [OF s] instruction_step_has_symbol [OF s]
  show ?case by auto
qed

lemma collect_instructions_count:
  assumes "collect_instructions b out (w, new_collector) = (w', c')"
  shows "n_instruction_lines c' = length (filter (recognized_instruction_line b) (splitlines out))"
    and "(col_symbols c' \<noteq> []) = (\<exists>l \<in> set (splitlines out). names_known_symbol b l)"
proof -
  obtain w1 c1 where f: "fold (instruction_step b) (splitlines out) (w, new_collector) = (w1, c1)"
    by (cases "fold (instruction_step b) (splitlines out) (w, new_collector)")
  note k = fold_instruction_step_count [OF f]
  from assms f have e: "c' = (if cur_symbol c1 \<noteq> None then submitSymbol c1 else c1)"
    by (simp add: collect_instructions_def)
  from e k show "n_instruction_lines c' = length (filter (recognized_instruction_line b) (splitlines out))"
    by (auto simp: submitSymbol_def new_collector_def split: option.splits)
  from e have "(col_symbols c' \<noteq> []) = (col_symbols c1 \<noteq> [] \<or> cur_symbol c1 \<noteq> None)"
    by (auto simp: submitSymbol_def split: option.splits)
  with k show "(col_symbols c' \<noteq> []) = (\<exists>l \<in> set (splitlines out). names_known_symbol b l)"
    by (simp add: new_collector_def)
qed

text \<open>
  C1, as amended. The running total is the number of lines of the disassembly output
  that are recognized as instruction lines. \<open>Binary._gatherSymbolInstructions\<close> always
  returns; it records its warning exactly when the running total is zero, and it sets
  \<open>instructions_available\<close> to whether the collector gathered a symbol, that is, to
  whether some line of the output is a header line naming a known symbol. The flag does
  not depend on the running total.
\<close>

theorem instructions_available_and_warning:
  "running_total e w b = length (filter (recognized_instruction_line b) (disassembly_lines e b))
   \<and> instructions_available (snd (gatherSymbolInstructions e w b))
       = Some (\<exists>l \<in> set (disassembly_lines e b). names_known_symbol b l)
   \<and> warnings (fst (gatherSymbolInstructions e w b))
       = warnings w @ (if running_total e w b = 0 then [assembly_warning (filename b)] else [])"
proof -
  let ?w1 = "fst (readObjdumpDisassemblyOutput e b w)"
  let ?out = "snd (readObjdumpDisassemblyOutput e b w)"
  obtain w2 c where c: "collect_instructions b ?out (?w1, new_collector) = (w2, c)"
    by (cases "collect_instructions b ?out (?w1, new_collector)")
  obtain w3 b3 where f: "fold (\<lambda>r (w', b'). addSymbol r w' b') (col_symbols c) (w2, b) = (w3, b3)"
    by (cases "fold (\<lambda>r (w', b'). addSymbol r w' b') (col_symbols c) (w2, b)")
  have o: "?out = tool_output e [objdump_command (settings_of b), ''-drwS'', filename b]"
    "warnings ?w1 = warnings w"
    by (simp_all add: readObjdumpDisassemblyOutput_def run_tool_def)
  note k = collect_instructions_count [OF c]
  have rt: "running_total e w b = n_instruction_lines c"
    by (simp add: running_total_def c)
  have w23: "warnings w3 = warnings w"
  proof -
    have "\<And>rs w b w' b'. fold (\<lambda>r (w', b'). addSymbol r w' b') rs (w, b) = (w', b')
        \<Longrightarrow> warnings w' = warnings w"
    proof -
      fix rs w b w' b'
      show "fold (\<lambda>r (w', b'). addSymbol r w' b') rs (w, b) = (w', b') \<Longrightarrow> warnings w' = warnings w"
        by (induction rs arbitrary: w b) (auto simp: addSymbol_def Let_def)
    qed
    from this [OF f] have "warnings w3 = warnings w2" .
    moreover have "warnings w2 = warnings ?w1"
      using collect_instructions_frame [OF c] by simp
    ultimately show ?thesis using o by simp
  qed
  have g: "gatherSymbolInstructions e w b =
      (if n_instruction_lines c = 0 then warning (assembly_warning (filename b)) w3 else w3,
       b3\<lparr>instructions_available := Some (length (col_symbols c) > 0)\<rparr>)"
    using c f by (simp add: gatherSymbolInstructions_def Let_def split_beta)
  show ?thesis
    using k rt w23 by (simp add: g disassembly_lines_def o warning_def)
qed

theorem determineSymbolSizes_first_matching_line_witness:
  "(\<exists>w' b'. determineSymbolSizes example_size_env example_world example_binary = (w', Inr b')
      \<and> text_size b' = 100 \<and> data_size b' = 50 \<and> bss_size b' = 20 \<and> overall_size b' = 170
      \<and> progmem_size b' = 150 \<and> static_ram_size b' = 70 \<and> binutils_work b' \<and> warnings w' = [])
   \<and> (\<exists>w' b'. determineSymbolSizes example_env example_world example_binary = (w', Inr b')
      \<and> \<not> binutils_work b' \<and> warnings w' = [size_warning])"
proof -
  have f: "find (\<lambda>l. re_match size_re l \<noteq> None)
             (splitlines (tool_output example_size_env
                [size_command (settings_of example_binary), filename example_binary]))
           = Some ''100 50 20 170''"
    by code_simp
  have g: "map_option (\<lambda>m. (group m 1, group m 2, group m 3, group m 4))
             (re_match size_re ''100 50 20 170'') = Some (''100'', ''50'', ''20'', ''170'')"
    by code_simp
  have d: "decimal_value ''100'' = 100" "decimal_value ''50'' = 50" "decimal_value ''20'' = 20"
    "decimal_value ''170'' = 170"
    by code_simp+
  have i: "binutils_work example_binary" "warnings example_world = []"
    by (simp_all add: example_binary_def initial_binary_def example_world_def)
  have n: "find (\<lambda>l. re_match size_re l \<noteq> None)
             (splitlines (tool_output example_env
                [size_command (settings_of example_binary), filename example_binary])) = None"
    by code_simp
  from determineSymbolSizes_first_matching_line [of example_size_env example_world example_binary]
  have c1: "\<exists>w' b'. determineSymbolSizes example_size_env example_world example_binary = (w', Inr b')
      \<and> text_size b' = 100 \<and> data_size b' = 50 \<and> bss_size b' = 20 \<and> overall_size b' = 170
      \<and> progmem_size b' = 150 \<and> static_ram_size b' = 70 \<and> binutils_work b' \<and> warnings w' = []"
    using g d i unfolding f by (auto simp del: group_def)
  from determineSymbolSizes_first_matching_line [of example_env example_world example_binary]
  have c2: "\<exists>w' b'. determineSymbolSizes example_env example_world example_binary = (w', Inr b')
      \<and> \<not> binutils_work b' \<and> warnings w' = [size_warning]"
    using i unfolding n by auto
  from c1 c2 show ?thesis by blast
qed

theorem source_ids_never_source_file_keys_witness:
  "\<exists>w' b'. gatherDebugInformation example_full_env example_symbol_world example_symbol_binary
              = (w', Inr b')
     \<and> source_id (heap w' 0) = PyInt 1
     \<and> source_files b' (PyStr ''1'')
         = Some \<lparr>source_filename = ''main.cpp'', source_file_id = PyStr ''1''\<rparr>
     \<and> source_files b' (source_id (heap w' 0)) = None"
proof -
  obtain w' r where g: "gatherDebugInformation example_full_env example_symbol_world
      example_symbol_binary = (w', r)" by (cases "gatherDebugInformation example_full_env
      example_symbol_world example_symbol_binary")
  have run: "case gatherDebugInformation example_full_env example_symbol_world
                 example_symbol_binary of
               (w', Inr b') \<Rightarrow> source_id (heap w' 0) = PyInt 1
                 \<and> source_files b' (PyStr ''1'')
                     = Some \<lparr>source_filename = ''main.cpp'', source_file_id = PyStr ''1''\<rparr>
             | (w', Inl err) \<Rightarrow> False"
    by code_simp
  with g obtain b' where r: "r = Inr b'" and
    v: "source_id (heap w' 0) = PyInt 1"
       "source_files b' (PyStr ''1'')
          = Some \<lparr>source_filename = ''main.cpp'', source_file_id = PyStr ''1''\<rparr>"
    by (cases r) auto
  have h1: "\<forall>k \<in> dom (source_files example_symbol_binary). is_text k"
    by (simp add: example_symbol_binary_def example_binary_def initial_binary_def)
  have h2: "\<forall>r. \<not> is_text (source_id (heap example_symbol_world r))"
    by (simp add: example_symbol_world_def example_world_def new_symbol_def)
  from source_ids_never_source_file_keys [OF h1 h2 g [unfolded r]]
  have "source_files b' (source_id (heap w' 0)) = None" by blast
  with g r v show ?thesis by blast
qed

theorem malformed_debug_attribute_aborts_construction_witness:
  "(\<exists>w' err. Binary_init example_bad_env example_settings (\<lambda>s. s) ''a.elf'' None None None
        example_world = (w', Inl err))
   \<and> has_malformed None (splitlines (tool_output example_bad_env
        [readelf_command example_settings, ''--debug-dump=info'', ''a.elf'']))
   \<and> (\<exists>w' err. gatherDebugInformation example_bad_env example_world example_symbol_binary
        = (w', Inl err) \<and> (is_parse_error err \<or> (\<exists>s. err = ValueError s)))
   \<and> (\<exists>err. readelf_line ''    <2e>   DW_AT_linkage_name: _Z3foov'' example_world
        (new_debug_collector, example_binary) = (example_world, Inl err) \<and> is_parse_error err)"
proof -
  note inst = malformed_debug_attribute_aborts_construction
    [of example_bad_env example_settings "''a.elf''" "\<lambda>s. s" None None None example_world]
  have h: "has_malformed None (splitlines (tool_output example_bad_env
        [readelf_command example_settings, ''--debug-dump=info'', ''a.elf'']))"
    by code_simp
  have run: "case Binary_init example_bad_env example_settings (\<lambda>s. s) ''a.elf'' None None None
        example_world of (w', Inl err) \<Rightarrow> is_parse_error err | (w', Inr b') \<Rightarrow> False"
    by code_simp
  then obtain w' err where r: "Binary_init example_bad_env example_settings (\<lambda>s. s) ''a.elf''
        None None None example_world = (w', Inl err) \<and> is_parse_error err"
    by (auto split: prod.splits sum.splits)
  have h3: "has_malformed None (splitlines (tool_output example_bad_env
        [readelf_command (settings_of example_symbol_binary), ''--debug-dump=info'',
         filename example_symbol_binary]))"
    by code_simp
  have h4: "malformed_attribute_line (header_tag new_debug_collector)
        ''    <2e>   DW_AT_linkage_name: _Z3foov''"
    by code_simp
  from inst h have c1: "\<exists>w' err. Binary_init example_bad_env example_settings (\<lambda>s. s) ''a.elf''
        None None None example_world = (w', Inl err)" by blast
  from inst r have c2: "has_malformed None (splitlines (tool_output example_bad_env
        [readelf_command example_settings, ''--debug-dump=info'', ''a.elf'']))" by blast
  from inst h3 have c3: "\<exists>w' err. gatherDebugInformation example_bad_env example_world
        example_symbol_binary = (w', Inl err) \<and> (is_parse_error err \<or> (\<exists>s. err = ValueError s))"
    by blast
  from inst h4 have c4: "\<exists>err. readelf_line ''    <2e>   DW_AT_linkage_name: _Z3foov''
        example_world (new_debug_collector, example_binary) = (example_world, Inl err)
        \<and> is_parse_error err" by blast
  from c1 c2 c3 c4 show ?thesis by blast
qed

theorem size_listing_names_once_witness:
  "(\<exists>w' b'. gatherSymbolProperties example_full_env example_world example_binary = (w', Inr b')
      \<and> distinct (map fst (symbols b')) \<and> set (map fst (symbols b')) = {''_Z3foov''}
      \<and> next_ref w' = 1)
   \<and> (\<exists>w'. nm_pair ''0000000000004096 0000000000000032 D _Z3foov''
           ''0000000000004096 0000000000000032 D foo()'' example_symbol_world example_symbol_binary
         = (w', Inr example_symbol_binary)
       \<and> symbol_size (heap w' 0) = 32 \<and> symbol_type (heap w' 0) = ''D'' \<and> next_ref w' = 1)"
proof -
  let ?lm = "''0000000000004096 0000000000000032 D _Z3foov''"
  let ?ld = "''0000000000004096 0000000000000032 D foo()''"
  have h: "no_patterns example_binary \<and> init_keeps_name example_binary
      \<and> symbols_ok example_world example_binary
      \<and> wellformed_nm_output
           (tool_output example_full_env [nm_command (settings_of example_binary), ''--print-size'',
              ''--size-sort'', ''--radix=d'', [], filename example_binary])
           (tool_output example_full_env [nm_command (settings_of example_binary), ''--print-size'',
              ''--size-sort'', ''--radix=d'', ''-C'', filename example_binary])"
  proof (intro conjI)
    show "no_patterns example_binary"
      by (simp add: no_patterns_def example_binary_def initial_binary_def)
    show "init_keeps_name example_binary"
      by (simp add: init_keeps_name_def example_binary_def initial_binary_def)
    show "symbols_ok example_world example_binary"
      by (simp add: symbols_ok_def example_binary_def initial_binary_def)
    show "wellformed_nm_output
           (tool_output example_full_env [nm_command (settings_of example_binary), ''--print-size'',
              ''--size-sort'', ''--radix=d'', [], filename example_binary])
           (tool_output example_full_env [nm_command (settings_of example_binary), ''--print-size'',
              ''--size-sort'', ''--radix=d'', ''-C'', filename example_binary])"
      by code_simp
  qed
  have l: "listed_names (splitlines (tool_output example_full_env
              [nm_command (settings_of example_binary), ''--print-size'', ''--size-sort'',
               ''--radix=d'', [], filename example_binary])) = [''_Z3foov'']"
    by code_simp
  have i: "symbols example_binary = []" "next_ref example_world = 0"
    by (simp_all add: example_binary_def initial_binary_def example_world_def)
  from conjunct1 [OF size_listing_names_once [of example_binary example_world example_full_env],
      THEN mp, OF h]
  obtain w' b' where g: "gatherSymbolProperties example_full_env example_world example_binary
        = (w', Inr b')" "distinct (map fst (symbols b'))"
      "set (map fst (symbols b')) = set (map fst (symbols example_binary)) \<union> set [''_Z3foov'']"
      "next_ref w' + length (symbols example_binary) = next_ref example_world + length (symbols b')"
    unfolding l by blast
  from g(3) have ks: "set (map fst (symbols b')) = {''_Z3foov''}" by (simp add: i)
  from g(2) ks have "length (map fst (symbols b')) = 1"
    by (metis One_nat_def card.empty card_insert_if distinct_card empty_iff finite.emptyI)
  with g(4) have "next_ref w' = 1" by (simp add: i)
  with g(1,2) ks
  have c1: "\<exists>w' b'. gatherSymbolProperties example_full_env example_world example_binary
        = (w', Inr b')
      \<and> distinct (map fst (symbols b')) \<and> set (map fst (symbols b')) = {''_Z3foov''}
      \<and> next_ref w' = 1" by blast
  have gm: "map_option (\<lambda>m. (group m 1, group m 2, group m 3)) (re_match nm_regex ?lm)
      = Some (''0000000000000032'', ''D'', ''_Z3foov'')"
    by code_simp
  have gd: "re_match nm_regex ?ld \<noteq> None" by code_simp
  have pi: "py_int ''0000000000000032'' = Some 32" by code_simp
  from gm obtain mm where mm: "re_match nm_regex ?lm = Some mm" "group mm 1 = ''0000000000000032''"
    "group mm 2 = ''D''" "group mm 3 = ''_Z3foov''" by auto
  from gd obtain md where md: "re_match nm_regex ?ld = Some md" by auto
  have k: "map_of (symbols example_symbol_binary) (group mm 3) = Some 0"
    by (simp add: mm example_symbol_binary_def)
  have n1: "next_ref example_symbol_world = 1" by (simp add: example_symbol_world_def)
  have pm: "py_int (group mm 1) = Some 32" using pi mm(2) by simp
  have "nm_pair ?lm ?ld example_symbol_world example_symbol_binary =
      (example_symbol_world\<lparr>heap := (heap example_symbol_world)
          (0 := (heap example_symbol_world 0)\<lparr>symbol_size := 32, symbol_type := group mm 2\<rparr>)\<rparr>,
       Inr example_symbol_binary)"
    by (rule conjunct2 [OF size_listing_names_once [of example_symbol_binary
          example_symbol_world example_full_env], rule_format, of ?lm mm ?ld md 32 0])
       (intro conjI mm(1) md pm k)
  then have c2: "\<exists>w'. nm_pair ?lm ?ld example_symbol_world example_symbol_binary
         = (w', Inr example_symbol_binary)
       \<and> symbol_size (heap w' 0) = 32 \<and> symbol_type (heap w' 0) = ''D'' \<and> next_ref w' = 1"
    using mm(3) n1 by simp
  from c1 c2 show ?thesis by blast
qed

theorem symbol_keys_never_extended_witness:
  "symbols (snd (gatherSymbolInstructions example_full_env example_symbol_world
       example_symbol_binary)) = [(''_Z3foov'', 0)]
   \<and> next_ref (fst (gatherSymbolInstructions example_full_env example_symbol_world
       example_symbol_binary)) = 1
   \<and> (\<exists>c'. instruction_step example_symbol_binary ''0000000000002000 <bar>:''
          (example_symbol_world, new_collector) = (example_symbol_world, c')
        \<and> cur_symbol c' = None)
   \<and> (\<exists>c'. fold (instruction_step example_symbol_binary) [''2000: c3 ret'', ''  int x;'']
          (example_symbol_world, new_collector) = (example_symbol_world, c')
        \<and> cur_symbol c' = None \<and> col_symbols c' = [])
   \<and> (\<exists>w' b'. gatherDebugInformation example_full_env example_symbol_world example_symbol_binary
          = (w', Inr b') \<and> symbols b' = [(''_Z3foov'', 0)] \<and> next_ref w' = 1)
   \<and> (\<exists>nm. pending_name_mangled example_pending = Some nm
          \<and> map_of (symbols example_symbol_binary) nm = Some 0
          \<and> name_mangled (heap example_symbol_world 0) = nm)
   \<and> heap (fst (flushSymbolInfo example_symbol_binary (example_symbol_world, example_pending))) 0
        = (heap example_symbol_world 0)\<lparr>source_id := PyInt 1, source_line := PyInt 7,
             source_column := PyNone\<rparr>
   \<and> (\<exists>w' d' b'. readelf_line example_linkage_line example_symbol_world
            (new_debug_collector, example_symbol_binary) = (w', Inr (d', b'))
          \<and> symbols b' = [(''_Z3foov'', 0)] \<and> pending_name_mangled d' = Some ''_Z3foov'')
   \<and> (\<exists>w' d' b'. readelf_line example_header_line example_symbol_world
            (example_pending, example_symbol_binary) = (w', Inr (d', b'))
          \<and> heap w' 0 \<noteq> heap example_symbol_world 0
          \<and> re_match dbg_header_line_regex example_header_line \<noteq> None
          \<and> pending_name_mangled d' = None
          \<and> (\<exists>nm. pending_name_mangled example_pending = Some nm
                 \<and> map_of (symbols example_symbol_binary) nm = Some 0))
   \<and> (\<exists>l \<in> set (debug_lines example_full_env example_symbol_binary).
          \<exists>nm. linkage_name_of l = Some nm
             \<and> map_of (symbols example_symbol_binary) nm = Some 0
             \<and> name_mangled (heap example_symbol_world 0) = nm)"
proof -
  note inst = symbol_keys_never_extended
    [of example_symbol_world example_symbol_binary example_full_env]
  have sy: "symbols example_symbol_binary = [(''_Z3foov'', 0)]"
    "next_ref example_symbol_world = 1"
    by (simp_all add: example_symbol_binary_def example_symbol_world_def)
  have h1: "symbols_ok example_symbol_world example_symbol_binary
      \<and> init_keeps_name example_symbol_binary"
    by (simp add: symbols_ok_def init_keeps_name_def example_symbol_binary_def
        example_symbol_world_def example_binary_def initial_binary_def new_symbol_def)
  from inst h1 sy have c1: "symbols (snd (gatherSymbolInstructions example_full_env
       example_symbol_world example_symbol_binary)) = [(''_Z3foov'', 0)]
   \<and> next_ref (fst (gatherSymbolInstructions example_full_env example_symbol_world
       example_symbol_binary)) = 1" by simp
  have g2: "map_option (\<lambda>m. group m 2) (re_match header_line_re
      (unifyInstructionLine example_symbol_binary ''0000000000002000 <bar>:'')) = Some ''bar''"
    by code_simp
  then obtain m where m: "re_match header_line_re
      (unifyInstructionLine example_symbol_binary ''0000000000002000 <bar>:'') = Some m"
    "group m 2 = ''bar''" by auto
  have h2: "re_match header_line_re
      (unifyInstructionLine example_symbol_binary ''0000000000002000 <bar>:'') = Some m
      \<and> map_of (symbols example_symbol_binary) (group m 2) = None"
    using m by (simp add: sy)
  from conjunct1 [OF conjunct2 [OF inst], rule_format, OF h2, of new_collector]
  have c2: "\<exists>c'. instruction_step example_symbol_binary ''0000000000002000 <bar>:''
          (example_symbol_world, new_collector) = (example_symbol_world, c')
        \<and> cur_symbol c' = None" .
  have h3: "cur_symbol new_collector = None
      \<and> (\<forall>l \<in> set [''2000: c3 ret'', ''  int x;'']. \<not> names_known_symbol example_symbol_binary l)"
  proof -
    have "\<not> names_known_symbol example_symbol_binary ''2000: c3 ret''" by code_simp
    moreover have "\<not> names_known_symbol example_symbol_binary ''  int x;''" by code_simp
    ultimately show ?thesis by (simp add: new_collector_def)
  qed
  from conjunct1 [OF conjunct2 [OF conjunct2 [OF inst]], rule_format, OF h3]
  have c3: "\<exists>c'. fold (instruction_step example_symbol_binary) [''2000: c3 ret'', ''  int x;'']
          (example_symbol_world, new_collector) = (example_symbol_world, c')
        \<and> cur_symbol c' = None \<and> col_symbols c' = []"
    by (simp add: new_collector_def)
  have run: "case gatherDebugInformation example_full_env example_symbol_world
      example_symbol_binary of (w', Inr b') \<Rightarrow> True | (w', Inl err) \<Rightarrow> False"
    by code_simp
  then obtain w' b' where r: "gatherDebugInformation example_full_env example_symbol_world
      example_symbol_binary = (w', Inr b')"
    by (auto split: prod.splits sum.splits)
  note rest = conjunct2 [OF conjunct2 [OF conjunct2 [OF inst]]]
  from conjunct1 [OF rest, rule_format, OF r]
  have "same_symbols example_symbol_world example_symbol_binary w' b'" .
  then have "symbols b' = [(''_Z3foov'', 0)] \<and> next_ref w' = 1"
    by (simp add: same_symbols_def sy)
  with r have c4: "\<exists>w' b'. gatherDebugInformation example_full_env example_symbol_world
      example_symbol_binary = (w', Inr b') \<and> symbols b' = [(''_Z3foov'', 0)] \<and> next_ref w' = 1"
    by blast
  have h1a: "symbols_ok example_symbol_world example_symbol_binary" using h1 by simp
  have none0: "source_line (heap example_symbol_world 0) = PyNone"
    by (simp add: example_symbol_world_def new_symbol_def)
  have "source_line (heap (fst (flushSymbolInfo example_symbol_binary
      (example_symbol_world, example_pending))) 0) = PyInt 7" by code_simp
  with none0 have ne5: "heap (fst (flushSymbolInfo example_symbol_binary
      (example_symbol_world, example_pending))) 0 \<noteq> heap example_symbol_world 0" by auto
  have pe: "pending_source_id example_pending = PyInt 1"
    "pending_source_line example_pending = PyInt 7"
    "pending_source_column example_pending = PyNone"
    by (simp_all add: example_pending_def new_debug_collector_def)
  from conjunct1 [OF conjunct2 [OF rest], rule_format, OF ne5] h1a
  have c5: "(\<exists>nm. pending_name_mangled example_pending = Some nm
          \<and> map_of (symbols example_symbol_binary) nm = Some 0
          \<and> name_mangled (heap example_symbol_world 0) = nm)"
    and c5b: "heap (fst (flushSymbolInfo example_symbol_binary
        (example_symbol_world, example_pending))) 0
        = (heap example_symbol_world 0)\<lparr>source_id := PyInt 1, source_line := PyInt 7,
             source_column := PyNone\<rparr>"
    unfolding pe by blast+
  note lines = conjunct1 [OF conjunct2 [OF conjunct2 [OF rest]], rule_format]
  have "case readelf_line example_linkage_line example_symbol_world
      (new_debug_collector, example_symbol_binary) of (w', Inr db) \<Rightarrow> True
      | (w', Inl err) \<Rightarrow> False" by code_simp
  then obtain w1 d1 b1 where r1: "readelf_line example_linkage_line example_symbol_world
      (new_debug_collector, example_symbol_binary) = (w1, Inr (d1, b1))"
    by (auto split: prod.splits sum.splits)
  have l1: "re_match dbg_header_line_regex example_linkage_line = None" by code_simp
  have l2: "linkage_name_of example_linkage_line = Some ''_Z3foov''" by code_simp
  from lines [OF r1] have "symbols b1 = [(''_Z3foov'', 0)]
      \<and> pending_name_mangled d1 = Some ''_Z3foov''"
    by (simp add: l1 l2 sy)
  with r1 have c6: "\<exists>w' d' b'. readelf_line example_linkage_line example_symbol_world
            (new_debug_collector, example_symbol_binary) = (w', Inr (d', b'))
          \<and> symbols b' = [(''_Z3foov'', 0)] \<and> pending_name_mangled d' = Some ''_Z3foov''"
    by blast
  have "case readelf_line example_header_line example_symbol_world
      (example_pending, example_symbol_binary) of (w', Inr db) \<Rightarrow> True
      | (w', Inl err) \<Rightarrow> False" by code_simp
  then obtain w2 d2 b2 where r2: "readelf_line example_header_line example_symbol_world
      (example_pending, example_symbol_binary) = (w2, Inr (d2, b2))"
    by (auto split: prod.splits sum.splits)
  have "source_line (heap (fst (readelf_line example_header_line example_symbol_world
      (example_pending, example_symbol_binary))) 0) = PyInt 7" by code_simp
  with none0 r2 have ne6: "heap w2 0 \<noteq> heap example_symbol_world 0" by auto
  from lines [OF r2] ne6 have hd: "re_match dbg_header_line_regex example_header_line \<noteq> None"
    and pn: "\<exists>nm. pending_name_mangled example_pending = Some nm
                 \<and> map_of (symbols example_symbol_binary) nm = Some 0"
    by blast+
  from lines [OF r2] hd have "pending_name_mangled d2 = None" by auto
  with r2 ne6 hd pn
  have c7: "\<exists>w' d' b'. readelf_line example_header_line example_symbol_world
            (example_pending, example_symbol_binary) = (w', Inr (d', b'))
          \<and> heap w' 0 \<noteq> heap example_symbol_world 0
          \<and> re_match dbg_header_line_regex example_header_line \<noteq> None
          \<and> pending_name_mangled d' = None
          \<and> (\<exists>nm. pending_name_mangled example_pending = Some nm
                 \<and> map_of (symbols example_symbol_binary) nm = Some 0)"
    by blast
  have "source_line (heap (fst (gatherDebugInformation example_full_env example_symbol_world
      example_symbol_binary)) 0) = PyInt 7" by code_simp
  with none0 have ne8: "heap (fst (gatherDebugInformation example_full_env example_symbol_world
      example_symbol_binary)) 0 \<noteq> heap example_symbol_world 0" by auto
  from conjunct1 [OF conjunct2 [OF conjunct2 [OF conjunct2 [OF rest]]], rule_format, OF ne8] h1a
  have c8: "\<exists>l \<in> set (debug_lines example_full_env example_symbol_binary).
          \<exists>nm. linkage_name_of l = Some nm
             \<and> map_of (symbols example_symbol_binary) nm = Some 0
             \<and> name_mangled (heap example_symbol_world 0) = nm"
    by blast
  from c1 c2 c3 c4 c5 c5b c6 c7 c8 show ?thesis by blast
qed

text \<open>
  The claim C1 as stated fails: with the header of a known symbol and no instruction
  line the running total is zero and \<open>instructions_available\<close> is true; with one
  instruction line under no header the running total is one and the flag is false.
\<close>

theorem zero_total_yet_instructions_available:
  "running_total example_header_only_env example_symbol_world example_symbol_binary = 0
   \<and> instructions_available (snd (gatherSymbolInstructions example_header_only_env
        example_symbol_world example_symbol_binary)) = Some True
   \<and> running_total example_no_header_env example_symbol_world example_symbol_binary = 1
   \<and> instructions_available (snd (gatherSymbolInstructions example_no_header_env
        example_symbol_world example_symbol_binary)) = Some False"
  by code_simp

theorem instructions_available_and_warning_witness:
  "instructions_available (snd (gatherSymbolInstructions example_header_only_env
        example_symbol_world example_symbol_binary)) = Some True
   \<and> warnings (fst (gatherSymbolInstructions example_header_only_env
        example_symbol_world example_symbol_binary)) = [assembly_warning ''a.elf'']
   \<and> instructions_available (snd (gatherSymbolInstructions example_no_header_env
        example_symbol_world example_symbol_binary)) = Some False
   \<and> warnings (fst (gatherSymbolInstructions example_no_header_env
        example_symbol_world example_symbol_binary)) = []"
proof -
  have a1: "(\<exists>l \<in> set (disassembly_lines example_header_only_env example_symbol_binary).
      names_known_symbol example_symbol_binary l) = True"
    by code_simp
  have a2: "length (filter (recognized_instruction_line example_symbol_binary)
      (disassembly_lines example_header_only_env example_symbol_binary)) = 0"
    by code_simp
  have b1: "(\<exists>l \<in> set (disassembly_lines example_no_header_env example_symbol_binary).
      names_known_symbol example_symbol_binary l) = False"
    by code_simp
  have b2: "length (filter (recognized_instruction_line example_symbol_binary)
      (disassembly_lines example_no_header_env example_symbol_binary)) = 1"
    by code_simp
  have f: "filename example_symbol_binary = ''a.elf''" "warnings example_symbol_world = []"
    by (simp_all add: example_symbol_binary_def example_binary_def initial_binary_def
        example_symbol_world_def example_world_def)
  from instructions_available_and_warning
    [of example_header_only_env example_symbol_world example_symbol_binary]
  have c1: "instructions_available (snd (gatherSymbolInstructions example_header_only_env
        example_symbol_world example_symbol_binary)) = Some True
   \<and> warnings (fst (gatherSymbolInstructions example_header_only_env
        example_symbol_world example_symbol_binary)) = [assembly_warning ''a.elf'']"
    unfolding a1 a2 f by simp
  from instructions_available_and_warning
    [of example_no_header_env example_symbol_world example_symbol_binary]
  have c2: "instructions_available (snd (gatherSymbolInstructions example_no_header_env
        example_symbol_world example_symbol_binary)) = Some False
   \<and> warnings (fst (gatherSymbolInstructions example_no_header_env
        example_symbol_world example_symbol_binary)) = []"
    unfolding b1 b2 f by simp
  from c1 c2 show ?thesis by simp
qed

end
